(* ===== verification/MPing_Prelude.thy ===== *)
theory MPing_Prelude
  imports Main "HOL-Library.Word" "HOL-Library.Sublist" "HOL-Library.Signed_Division"
begin

text \<open>
  What the theories of the development share: the machine integers of the C++ code, the ways a
  C++ function can end (a value, an exception, a call of \<open>std::exit\<close>, undefined behaviour) with
  the sequencing of such functions, with and without a state, and the lemmas on subranges of byte
  lists by which the layout of a packet is read off its serializer.
\<close>

unbundle bit_operations_syntax

named_theorems outcome_simps \<open>rewriting of sequenced C++ functions\<close>
named_theorems layout_simps \<open>reading fields out of a concatenation of byte lists\<close>
named_theorems length_simps \<open>lengths of encoded fields\<close>

subsection \<open>Machine integers\<close>

type_synonym u8 = "8 word"
type_synonym u16 = "16 word"
type_synonym u32 = "32 word"
type_synonym u64 = "64 word"
type_synonym byte = "8 word"

subsection \<open>How a C++ function ends\<close>

text \<open>
  The exceptions the sources throw, and one constructor for those of the libraries. All of them
  derive from \<open>std::exception\<close>.
\<close>

datatype exn =
    SystemError int string
  | RuntimeError string
  | InvalidArgument string
  | LibraryError string

datatype 'a outcome =
    Val 'a
  | Throw exn
  | Exit int
  | Undefined

fun bindO :: "'a outcome \<Rightarrow> ('a \<Rightarrow> 'b outcome) \<Rightarrow> 'b outcome" where
  "bindO (Val x) f = f x"
| "bindO (Throw e) f = Throw e"
| "bindO (Exit c) f = Exit c"
| "bindO Undefined f = Undefined"

definition is_val :: "'a outcome \<Rightarrow> bool" where
  "is_val r = (case r of Val _ \<Rightarrow> True | _ \<Rightarrow> False)"

text \<open>What a call of a library may end with: it returns or it throws.\<close>

fun value_or_throw :: "'a outcome \<Rightarrow> bool" where
  "value_or_throw (Val x) = True"
| "value_or_throw (Throw e) = True"
| "value_or_throw r = False"

text \<open>The same with a state that every function reads and updates.\<close>

type_synonym ('s, 'a) prog = "'s \<Rightarrow> 'a outcome \<times> 's"

definition returnM :: "'a \<Rightarrow> ('s, 'a) prog" where
  "returnM x = (\<lambda>s. (Val x, s))"

definition throwM :: "exn \<Rightarrow> ('s, 'a) prog" where
  "throwM e = (\<lambda>s. (Throw e, s))"

definition exitM :: "int \<Rightarrow> ('s, 'a) prog" where
  "exitM c = (\<lambda>s. (Exit c, s))"

definition liftM :: "'a outcome \<Rightarrow> ('s, 'a) prog" where
  "liftM r = (\<lambda>s. (r, s))"

definition bindM :: "('s, 'a) prog \<Rightarrow> ('a \<Rightarrow> ('s, 'b) prog) \<Rightarrow> ('s, 'b) prog" where
  "bindM m f = (\<lambda>s. case m s of
       (Val x, s') \<Rightarrow> f x s'
     | (Throw e, s') \<Rightarrow> (Throw e, s')
     | (Exit c, s') \<Rightarrow> (Exit c, s')
     | (Undefined, s') \<Rightarrow> (Undefined, s'))"

definition thenM :: "('s, 'a) prog \<Rightarrow> ('s, 'b) prog \<Rightarrow> ('s, 'b) prog" where
  "thenM m n = bindM m (\<lambda>_. n)"

text \<open>A block of statements, one after the other.\<close>

primrec seqM :: "('s, unit) prog list \<Rightarrow> ('s, unit) prog" where
  "seqM [] = returnM ()"
| "seqM (m # ms) = thenM m (seqM ms)"

text \<open>Destructors that run when a function is left, also by an exception.\<close>

definition finallyM :: "('s, 'a) prog \<Rightarrow> ('s, unit) prog \<Rightarrow> ('s, 'a) prog" where
  "finallyM m f = (\<lambda>s. let (r, s') = m s
     in case f s' of (Val _, s'') \<Rightarrow> (r, s'') | (Throw e, s'') \<Rightarrow> (Throw e, s'')
        | (Exit c, s'') \<Rightarrow> (Exit c, s'') | (Undefined, s'') \<Rightarrow> (Undefined, s''))"

subsection \<open>Byte lists\<close>

definition subrange :: "nat \<Rightarrow> nat \<Rightarrow> 'a list \<Rightarrow> 'a list" where
  "subrange off n xs = take n (drop off xs)"

definition zeros :: "nat \<Rightarrow> byte list" where
  "zeros n = replicate n 0"

subsection \<open>Lemmas\<close>

lemma bindO_eq_Val [outcome_simps]:
  "(bindO m f = Val y) = (\<exists>x. m = Val x \<and> f x = Val y)"
  by (cases m) auto

lemma is_val_simps [simp]:
  "is_val (Val x)" "\<not> is_val (Throw e)" "\<not> is_val (Exit c)" "\<not> is_val Undefined"
  by (simp_all add: is_val_def)

lemma is_val_iff: "is_val r = (\<exists>x. r = Val x)"
  by (cases r) auto

lemma bindM_simps [outcome_simps]:
  "bindM (returnM x) f = f x"
  "bindM (throwM e) f = throwM e"
  "bindM (exitM c) f = exitM c"
  by (simp_all add: bindM_def returnM_def throwM_def exitM_def)

lemma bindM_assoc: "bindM (bindM m f) g = bindM m (\<lambda>x. bindM (f x) g)"
  by (rule ext) (auto simp: bindM_def split: prod.splits outcome.splits)

lemma bindM_Val [outcome_simps]: "m s = (Val x, s') \<Longrightarrow> bindM m f s = f x s'"
  by (simp add: bindM_def)

lemma bindM_eq_Val:
  "(bindM m f s = (Val y, s'')) = (\<exists>x s'. m s = (Val x, s') \<and> f x s' = (Val y, s''))"
  by (auto simp: bindM_def split: prod.splits outcome.splits)

lemma bindM_not_val: "\<not> is_val (fst (m s)) \<Longrightarrow> snd (bindM m f s) = snd (m s)"
  by (cases "m s"; cases "fst (m s)") (auto simp: bindM_def)

lemma returnM_app [simp]: "returnM x s = (Val x, s)"
  by (simp add: returnM_def)

lemma throwM_app [simp]: "throwM e s = (Throw e, s)"
  by (simp add: throwM_def)

lemma exitM_app [simp]: "exitM c s = (Exit c, s)"
  by (simp add: exitM_def)

lemma liftM_app [simp]: "liftM r s = (r, s)"
  by (simp add: liftM_def)

lemma thenM_eq_Val:
  "(thenM m n s = (Val y, s'')) = (\<exists>x s'. m s = (Val x, s') \<and> n s' = (Val y, s''))"
  by (simp add: thenM_def bindM_eq_Val)

lemma seqM_append: "seqM (ms @ ns) = thenM (seqM ms) (seqM ns)"
  by (induction ms) (simp_all add: thenM_def bindM_assoc outcome_simps)

lemma zeros_length [simp, length_simps]: "length (zeros n) = n"
  by (simp add: zeros_def)

lemma zeros_0 [simp]: "zeros 0 = []"
  by (simp add: zeros_def)

lemma zeros_numeral:
  "zeros (numeral k) = 0 # zeros (pred_numeral k)"
  "zeros (Suc 0) = [0]"
  unfolding numeral_eq_Suc [of k] by (simp_all add: zeros_def)

lemma zeros_add: "zeros (m + n) = zeros m @ zeros n"
  by (simp add: zeros_def replicate_add)

lemma take_zeros [simp]: "take n (zeros m) = zeros (min n m)"
  by (simp add: zeros_def)

lemma drop_zeros [simp]: "drop n (zeros m) = zeros (m - n)"
  by (simp add: zeros_def)

text \<open>Passing over the fields before the one that is read, then reading it.\<close>

lemma subrange_skip [layout_simps]:
  "length xs \<le> off \<Longrightarrow> subrange off n (xs @ ys) = subrange (off - length xs) n ys"
  by (simp add: subrange_def)

lemma subrange_here [layout_simps]: "n = length xs \<Longrightarrow> subrange 0 n (xs @ ys) = xs"
  by (simp add: subrange_def)

lemma subrange_within [layout_simps]:
  "off + n \<le> length xs \<Longrightarrow> subrange off n (xs @ ys) = subrange off n xs"
  by (simp add: subrange_def)

lemma subrange_all [layout_simps]: "n = length xs \<Longrightarrow> subrange 0 n xs = xs"
  by (simp add: subrange_def)

lemma subrange_subrange:
  "off' + n' \<le> n \<Longrightarrow> subrange off' n' (subrange off n xs) = subrange (off + off') n' xs"
  by (simp add: subrange_def drop_take min_def add.commute)

end
