(* ===== verification/Network_Serialization.thy ===== *)
theory Network_Serialization
  imports MPing_Prelude
begin

text \<open>
  \<open>src/network_serialization.hpp\<close>: the conversions between the host's byte order and the
  packet's, and the two functions that write an address into the 128 bytes of a
  \<open>sockaddr_storage\<close>. The host's byte order (\<open>std::endian::native\<close>) is an argument of every
  definition that depends on it, so that each theorem holds on both kinds of host.
\<close>

subsection \<open>Model\<close>

datatype endian = Little | Big

text \<open>The object representation of an integer, lowest byte first.\<close>

definition bytes_le :: "'a::len word \<Rightarrow> byte list" where
  "bytes_le w = map (\<lambda>i. ucast (drop_bit (8 * i) w)) [0..<LENGTH('a) div 8]"

text \<open>\<open>std::byteswap\<close>: the integer whose bytes are those of \<open>w\<close> in the opposite order.\<close>

definition byteswap :: "'a::len word \<Rightarrow> 'a word" where
  "byteswap w = word_rcat (bytes_le w)"

definition to_bigendian :: "endian \<Rightarrow> 'a::len word \<Rightarrow> 'a word" where
  "to_bigendian native host = (if native = Little then byteswap host else host)"

definition to_littleendian :: "endian \<Rightarrow> 'a::len word \<Rightarrow> 'a word" where
  "to_littleendian native host = (if native = Big then byteswap host else host)"

text \<open>\<open>std::bit_cast\<close> to an array of bytes: the object representation in the host's order.\<close>

definition to_byte_array :: "endian \<Rightarrow> 'a::len word \<Rightarrow> byte list" where
  "to_byte_array native i = (if native = Little then bytes_le i else rev (bytes_le i))"

text \<open>
  \<open>std::ranges::copy\<close> of \<open>src\<close> to position \<open>it\<close> of an array: the array afterwards and the
  position behind the last byte written. A copy that would run past the end of the array is
  undefined behaviour.
\<close>

definition copy_to :: "byte list \<Rightarrow> byte list \<Rightarrow> nat \<Rightarrow> (byte list \<times> nat) outcome" where
  "copy_to src arr it =
     (if it + length src \<le> length arr
      then Val (take it arr @ src @ drop (it + length src) arr, it + length src)
      else Undefined)"

text \<open>\<open>std::advance\<close> beyond the end of the array is undefined behaviour as well.\<close>

definition advance :: "byte list \<Rightarrow> nat \<Rightarrow> nat \<Rightarrow> nat outcome" where
  "advance arr it n = (if it + n \<le> length arr then Val (it + n) else Undefined)"

text \<open>The argument \<open>addr\<close> is the array that \<open>address.to_bytes()\<close> returns.\<close>

definition ipv6_to_sockaddr_storage :: "endian \<Rightarrow> byte list \<Rightarrow> u16 \<Rightarrow> byte list outcome" where
  "ipv6_to_sockaddr_storage native addr port =
     (let result = zeros 128; it = 0;
          ipv6_type = to_byte_array native (to_littleendian native (10 :: u16));
          port_bytes = to_byte_array native (to_bigendian native port)
      in bindO (copy_to ipv6_type result it) (\<lambda>(result, it).
         bindO (copy_to port_bytes result it) (\<lambda>(result, it).
         bindO (advance result it 4) (\<lambda>it.
         bindO (copy_to addr result it) (\<lambda>(result, _). Val result)))))"

definition ipv4_to_sockaddr_storage :: "endian \<Rightarrow> byte list \<Rightarrow> u16 \<Rightarrow> byte list outcome" where
  "ipv4_to_sockaddr_storage native addr port =
     (let result = zeros 128; it = 0;
          ipv4_type = to_byte_array native (to_littleendian native (2 :: u16));
          port_bytes = to_byte_array native (to_bigendian native port)
      in bindO (copy_to ipv4_type result it) (\<lambda>(result, it).
         bindO (copy_to port_bytes result it) (\<lambda>(result, it).
         bindO (advance result it 4) (\<lambda>it.
         bindO (copy_to addr result it) (\<lambda>(result, _). Val result)))))"

subsection \<open>Specification: unsigned integers as byte strings\<close>

text \<open>The value of a byte string, most significant byte first and least significant byte first.\<close>

definition read_be :: "byte list \<Rightarrow> nat" where
  "read_be bs = foldl (\<lambda>a b. a * 256 + unat b) 0 bs"

definition read_le :: "byte list \<Rightarrow> nat" where
  "read_le bs = foldr (\<lambda>b a. unat b + 256 * a) bs 0"

text \<open>The \<open>n\<close> bytes of a number, by its value alone.\<close>

primrec be_encode :: "nat \<Rightarrow> nat \<Rightarrow> byte list" where
  "be_encode 0 v = []"
| "be_encode (Suc n) v = be_encode n (v div 256) @ [word_of_nat (v mod 256)]"

primrec le_encode :: "nat \<Rightarrow> nat \<Rightarrow> byte list" where
  "le_encode 0 v = []"
| "le_encode (Suc n) v = word_of_nat (v mod 256) # le_encode n (v div 256)"

subsection \<open>Numbers and their bytes\<close>

lemma be_encode_rev: "be_encode n v = rev (le_encode n v)"
  by (induction n arbitrary: v) auto

lemma le_encode_length [simp, length_simps]: "length (le_encode n v) = n"
  by (induction n arbitrary: v) auto

lemma be_encode_length [simp, length_simps]: "length (be_encode n v) = n"
  by (simp add: be_encode_rev)

lemma encode_numeral:
  "be_encode (numeral k) v =
    be_encode (pred_numeral k) (v div 256) @ [word_of_nat (v mod 256)]"
  "le_encode (numeral k) v =
    word_of_nat (v mod 256) # le_encode (pred_numeral k) (v div 256)"
  unfolding numeral_eq_Suc [of k] by simp_all

lemma read_be_rev: "read_be (rev bs) = read_le bs"
  by (simp add: read_be_def read_le_def foldl_conv_foldr mult.commute add.commute)

lemma read_le_encode [simp]: "read_le (le_encode n v) = v mod 256 ^ n"
proof (induction n arbitrary: v)
  case 0
  then show ?case by (simp add: read_le_def)
next
  case (Suc n)
  have "read_le (le_encode (Suc n) v) = v mod 256 + 256 * read_le (le_encode n (v div 256))"
    by (simp add: read_le_def unat_of_nat)
  also have "\<dots> = v mod 256 ^ Suc n"
    by (simp add: Suc mod_mult2_eq add.commute)
  finally show ?case .
qed

lemma read_be_encode [simp]: "read_be (be_encode n v) = v mod 256 ^ n"
  by (simp add: be_encode_rev read_be_rev)

lemma le_encode_map: "le_encode n v = map (\<lambda>i. word_of_nat (v div 256 ^ i)) [0..<n]"
proof (induction n arbitrary: v)
  case 0
  then show ?case by simp
next
  case (Suc n)
  have "word_of_nat (v mod 256) = (word_of_nat v :: byte)"
    by (simp add: word_unat_eq_iff unat_of_nat)
  with Suc show ?case
    by (simp add: map_upt_Suc div_mult2_eq del: upt_Suc)
qed

lemma bytes_le_encode: "bytes_le (w :: 'a::len word) = le_encode (LENGTH('a) div 8) (unat w)"
proof -
  have "ucast (drop_bit (8 * i) w) = (word_of_nat (unat w div 256 ^ i) :: byte)" for i
  proof -
    have "unat (drop_bit (8 * i) w) = unat w div 256 ^ i"
      unfolding unat_drop_bit_eq by (simp add: drop_bit_eq_div power_mult)
    then show ?thesis
      by (simp add: word_unat_eq_iff unsigned_ucast_eq take_bit_eq_mod unat_of_nat)
  qed
  then show ?thesis
    by (simp add: bytes_le_def le_encode_map)
qed

lemma bytes_le_length: "length (bytes_le (w :: 'a::len word)) = LENGTH('a) div 8"
  by (simp add: bytes_le_def)

text \<open>Joining bytes to a word and taking the word apart again.\<close>

lemma bit_word_rcat_bytes:
  assumes "LENGTH('a::len) = 8 * length bs" and "n < 8" and "i < length bs"
  shows "bit (word_rcat (bs :: byte list) :: 'a word) (8 * i + n) = bit (rev bs ! i) n"
proof -
  have "(8 * i + n) div 8 = i" and "(8 * i + n) mod 8 = n" and "8 * i + n < LENGTH('a)"
    using assms by auto
  then show ?thesis
    using assms bit_horner_sum_uint_exp_iff [of "rev bs" "8 * i + n"]
    by (simp add: word_rcat_def bit_simps)
qed

lemma bytes_le_word_rcat:
  assumes "LENGTH('a::len) = 8 * length bs"
  shows "bytes_le (word_rcat bs :: 'a word) = rev bs"
proof (rule nth_equalityI)
  show len: "length (bytes_le (word_rcat bs :: 'a word)) = length (rev bs)"
    using assms by (simp add: bytes_le_length)
  fix i
  assume "i < length (bytes_le (word_rcat bs :: 'a word))"
  with len have i: "i < length bs" by simp
  have "ucast (drop_bit (8 * i) (word_rcat bs :: 'a word)) = rev bs ! i"
    by (rule bit_word_eqI)
      (use assms i in \<open>simp add: bit_ucast_iff bit_drop_bit_eq bit_word_rcat_bytes\<close>)
  with i assms show "bytes_le (word_rcat bs :: 'a word) ! i = rev bs ! i"
    by (simp add: bytes_le_def)
qed

lemma bytes_le_byteswap:
  assumes "8 dvd LENGTH('a::len)"
  shows "bytes_le (byteswap (w :: 'a word)) = rev (bytes_le w)"
  using assms by (auto simp: byteswap_def bytes_le_word_rcat bytes_le_length)

lemma pow256_width:
  assumes "8 dvd LENGTH('a::len)"
  shows "(256 :: nat) ^ (LENGTH('a) div 8) = 2 ^ LENGTH('a)"
proof -
  have "(256 :: nat) ^ (LENGTH('a) div 8) = 2 ^ (8 * (LENGTH('a) div 8))"
    by (simp add: power_mult)
  with assms show ?thesis by simp
qed

lemma bytes_le_inject:
  assumes "8 dvd LENGTH('a::len)"
  shows "bytes_le (v :: 'a word) = bytes_le w \<longleftrightarrow> v = w"
proof
  assume eq: "bytes_le v = bytes_le w"
  have "unat v mod 256 ^ (LENGTH('a) div 8) = unat w mod 256 ^ (LENGTH('a) div 8)"
    using arg_cong [OF eq, of read_le] by (simp add: bytes_le_encode)
  then have "unat v = unat w"
    by (simp add: pow256_width [OF assms] unsigned_less)
  then show "v = w" by (simp add: word_unat_eq_iff)
qed simp

subsection \<open>Integers on the wire\<close>

text \<open>The two ways in which the code encodes an integer.\<close>

abbreviation net_bytes :: "endian \<Rightarrow> 'a::len word \<Rightarrow> byte list" where
  "net_bytes native w \<equiv> to_byte_array native (to_bigendian native w)"

abbreviation lsb_bytes :: "endian \<Rightarrow> 'a::len word \<Rightarrow> byte list" where
  "lsb_bytes native w \<equiv> to_byte_array native (to_littleendian native w)"

lemma net_bytes_encode:
  assumes "8 dvd LENGTH('a::len)"
  shows "net_bytes native (w :: 'a word) = be_encode (LENGTH('a) div 8) (unat w)"
  using assms
  by (cases native)
    (simp_all add: to_byte_array_def to_bigendian_def bytes_le_byteswap be_encode_rev
      flip: bytes_le_encode)

lemma read_net_bytes:
  assumes "8 dvd LENGTH('a::len)"
  shows "read_be (net_bytes native (w :: 'a word)) = unat w"
  by (simp add: net_bytes_encode pow256_width assms unsigned_less)

lemma lsb_bytes_encode:
  assumes "8 dvd LENGTH('a::len)"
  shows "lsb_bytes native (w :: 'a word) = le_encode (LENGTH('a) div 8) (unat w)"
  using assms
  by (cases native)
    (simp_all add: to_byte_array_def to_littleendian_def bytes_le_byteswap
      flip: bytes_le_encode)

lemma read_lsb_bytes:
  assumes "8 dvd LENGTH('a::len)"
  shows "read_le (lsb_bytes native (w :: 'a word)) = unat w"
  by (simp add: lsb_bytes_encode pow256_width assms unsigned_less)

text \<open>
  What a reader of the packet relies on: an encoded integer takes a fixed number of bytes, and
  reading these bytes gives the integer back. A field in the middle of a packet can then be read
  at its offset, and two packets with the same bytes there carry the same integer.
\<close>

locale int_codec =
  fixes enc :: "'a::len word \<Rightarrow> byte list"
    and dec :: "byte list \<Rightarrow> nat"
    and width :: nat
  assumes enc_length: "length (enc w) = width"
    and dec_enc: "dec (enc w) = unat w"
begin

lemma read_field: "length xs = off \<Longrightarrow> dec (subrange off width (xs @ enc w @ ys)) = unat w"
  using enc_length [of w] by (simp add: subrange_def dec_enc)

lemma enc_inject: "enc v = enc w \<longleftrightarrow> v = w"
  using dec_enc by (metis word_unat_eq_iff)

lemma field_inject:
  assumes "length xs = length xs'" and "xs @ enc v @ ys = xs' @ enc w @ ys'"
  shows "v = w"
  using assms enc_length by (metis append_eq_append_conv enc_inject)

end

interpretation net8: int_codec "net_bytes native :: u8 \<Rightarrow> byte list" read_be 1 for native
  by unfold_locales (simp add: net_bytes_encode, simp add: read_net_bytes)

interpretation net16: int_codec "net_bytes native :: u16 \<Rightarrow> byte list" read_be 2 for native
  by unfold_locales (simp add: net_bytes_encode, simp add: read_net_bytes)

interpretation net32: int_codec "net_bytes native :: u32 \<Rightarrow> byte list" read_be 4 for native
  by unfold_locales (simp add: net_bytes_encode, simp add: read_net_bytes)

interpretation net64: int_codec "net_bytes native :: u64 \<Rightarrow> byte list" read_be 8 for native
  by unfold_locales (simp add: net_bytes_encode, simp add: read_net_bytes)

interpretation lsb16: int_codec "lsb_bytes native :: u16 \<Rightarrow> byte list" read_le 2 for native
  by unfold_locales (simp add: lsb_bytes_encode, simp add: read_lsb_bytes)

lemmas wire_lengths [simp, length_simps] =
  net8.enc_length net16.enc_length net32.enc_length net64.enc_length lsb16.enc_length

lemmas wire_reads [simp] =
  net8.dec_enc net16.dec_enc net32.dec_enc net64.dec_enc lsb16.dec_enc

subsection \<open>Writing into the socket address storage\<close>

text \<open>
  Both functions write a family, a port, four bytes that are passed over, and the address into a
  zeroed array of 128 bytes.
\<close>

definition storage_image :: "nat \<Rightarrow> nat \<Rightarrow> byte list \<Rightarrow> byte list" where
  "storage_image family port addr =
     le_encode 2 family @ be_encode 2 port @ zeros 4 @ addr @ zeros (120 - length addr)"

lemma storage_image_length [simp]:
  "length addr \<le> 120 \<Longrightarrow> length (storage_image family port addr) = 128"
  by (simp add: storage_image_def)

lemma storage_steps:
  assumes "length fam = 2" and "length prt = 2" and "length addr \<le> 120"
  shows "bindO (copy_to fam (zeros 128) 0) (\<lambda>(result, it).
         bindO (copy_to prt result it) (\<lambda>(result, it).
         bindO (advance result it 4) (\<lambda>it.
         bindO (copy_to addr result it) (\<lambda>(result, _). Val result)))) =
    Val (fam @ prt @ zeros 4 @ addr @ zeros (120 - length addr))"
proof -
  have 1: "copy_to fam (zeros 128) 0 = Val (fam @ zeros 126, 2)"
    using assms by (simp add: copy_to_def)
  have 2: "copy_to prt (fam @ zeros 126) 2 = Val ((fam @ prt) @ zeros 124, 4)"
    using assms by (simp add: copy_to_def)
  have 3: "advance ((fam @ prt) @ zeros 124) 4 4 = Val 8"
    using assms by (simp add: advance_def)
  have "(fam @ prt) @ zeros 124 = (fam @ prt @ zeros 4) @ zeros 120"
    by (simp flip: zeros_add)
  then have 4: "copy_to addr ((fam @ prt) @ zeros 124) 8 =
      Val ((fam @ prt @ zeros 4) @ addr @ zeros (120 - length addr), 8 + length addr)"
    using assms by (simp add: copy_to_def)
  show ?thesis by (simp only: 1 2 3 4 bindO.simps prod.case) simp
qed

lemma ipv6_storage:
  "length addr \<le> 120 \<Longrightarrow>
    ipv6_to_sockaddr_storage native addr port = Val (storage_image 10 (unat port) addr)"
  by (simp add: ipv6_to_sockaddr_storage_def storage_steps storage_image_def)
    (simp add: net_bytes_encode lsb_bytes_encode)

lemma ipv4_storage:
  "length addr \<le> 120 \<Longrightarrow>
    ipv4_to_sockaddr_storage native addr port = Val (storage_image 2 (unat port) addr)"
  by (simp add: ipv4_to_sockaddr_storage_def storage_steps storage_image_def)
    (simp add: net_bytes_encode lsb_bytes_encode)

subsection \<open>Properties\<close>

text \<open>
  C15: The byte orders of the wire, on little-endian and on big-endian hosts alike and for every
  integer type whose width is a whole number of bytes. \<open>to_bigendian\<close> followed by
  \<open>to_byte_array\<close> yields the bytes of the value, most significant first, and \<open>to_littleendian\<close>
  yields them least significant first; reading them in that order gives the value back; and
  either conversion is its own inverse.
\<close>

theorem network_byte_order:
  assumes "8 dvd LENGTH('a::len)"
  shows "to_byte_array native (to_bigendian native (w :: 'a word)) =
      be_encode (LENGTH('a) div 8) (unat w)
    \<and> read_be (to_byte_array native (to_bigendian native w)) = unat w
    \<and> to_byte_array native (to_littleendian native w) = le_encode (LENGTH('a) div 8) (unat w)
    \<and> read_le (to_byte_array native (to_littleendian native w)) = unat w
    \<and> to_bigendian native (to_bigendian native w) = w
    \<and> to_littleendian native (to_littleendian native w) = w"
proof -
  have "bytes_le (byteswap (byteswap w)) = bytes_le w"
    using assms by (simp add: bytes_le_byteswap)
  then have "byteswap (byteswap w) = w"
    using assms by (simp add: bytes_le_inject)
  then have "to_bigendian native (to_bigendian native w) = w"
    and "to_littleendian native (to_littleendian native w) = w"
    by (simp_all add: to_bigendian_def to_littleendian_def)
  then show ?thesis
    using net_bytes_encode [OF assms, of native w] lsb_bytes_encode [OF assms, of native w]
      read_net_bytes [OF assms, of native w] read_lsb_bytes [OF assms, of native w] by simp
qed

theorem network_byte_order_witness:
  "to_byte_array Little (to_bigendian Little (0x01020304 :: u32)) = [1, 2, 3, 4]
    \<and> to_byte_array Big (to_bigendian Big (0x01020304 :: u32)) = [1, 2, 3, 4]
    \<and> to_byte_array Big (to_littleendian Big (0x01020304 :: u32)) = [4, 3, 2, 1]"
proof -
  have h: "8 dvd LENGTH(32)" by simp
  show ?thesis
    using network_byte_order [OF h, of Little "0x01020304"]
      network_byte_order [OF h, of Big "0x01020304"]
    by (simp add: encode_numeral)
qed

end
