(* ===== verification/Asio_Address.thy ===== *)
theory Asio_Address
  imports Network_Serialization
begin

text \<open>
  \<open>boost::asio::ip::address\<close>, which the sources use and do not define. The operations they call
  are the fields of a record, an argument of every definition that handles an address; what the
  documentation of Boost.Asio promises of them is the predicate \<open>asio_laws\<close>, a named hypothesis
  where a property depends on it. An instance that satisfies the laws closes the theory; the
  witnesses use it.
\<close>

subsection \<open>The operations\<close>

text \<open>
  \<open>'a\<close> is the type \<open>address\<close>, \<open>'v4\<close> and \<open>'v6\<close> are \<open>address_v4\<close> and \<open>address_v6\<close>. The
  conversions and \<open>make_address\<close> throw on an address of the other kind and on a string that is
  no address.
\<close>

record ('a, 'v4, 'v6) asio =
  is_v4 :: "'a \<Rightarrow> bool"
  is_v6 :: "'a \<Rightarrow> bool"
  to_v4 :: "'a \<Rightarrow> 'v4 outcome"
  to_v6 :: "'a \<Rightarrow> 'v6 outcome"
  v4_to_bytes :: "'v4 \<Rightarrow> byte list"
  v6_to_bytes :: "'v6 \<Rightarrow> byte list"
  default_address :: 'a
  make_address :: "string \<Rightarrow> 'a outcome"

definition asio_laws :: "('a, 'v4, 'v6) asio \<Rightarrow> bool" where
  "asio_laws A \<longleftrightarrow>
     (\<forall>a. is_v4 A a \<noteq> is_v6 A a)
   \<and> (\<forall>a. is_v4 A a \<longrightarrow> is_val (to_v4 A a))
   \<and> (\<forall>a. is_v6 A a \<longrightarrow> is_val (to_v6 A a))
   \<and> (\<forall>v. length (v4_to_bytes A v) = 4)
   \<and> (\<forall>v. length (v6_to_bytes A v) = 16)"

text \<open>The bytes of an address, of either kind, and the family under which it is sent.\<close>

definition address_bytes :: "('a, 'v4, 'v6) asio \<Rightarrow> 'a \<Rightarrow> byte list" where
  "address_bytes A a =
     (if is_v6 A a then (case to_v6 A a of Val v \<Rightarrow> v6_to_bytes A v | _ \<Rightarrow> [])
      else (case to_v4 A a of Val v \<Rightarrow> v4_to_bytes A v | _ \<Rightarrow> []))"

definition address_family :: "('a, 'v4, 'v6) asio \<Rightarrow> 'a \<Rightarrow> nat" where
  "address_family A a = (if is_v6 A a then 10 else 2)"

subsection \<open>An instance\<close>

datatype ip_address = IPv4 u32 | IPv6 "128 word"

definition sample_asio :: "(ip_address, u32, 128 word) asio" where
  "sample_asio = \<lparr>
     is_v4 = (\<lambda>a. case a of IPv4 _ \<Rightarrow> True | IPv6 _ \<Rightarrow> False),
     is_v6 = (\<lambda>a. case a of IPv4 _ \<Rightarrow> False | IPv6 _ \<Rightarrow> True),
     to_v4 = (\<lambda>a. case a of IPv4 w \<Rightarrow> Val w | IPv6 _ \<Rightarrow> Throw (LibraryError ''bad_address_cast'')),
     to_v6 = (\<lambda>a. case a of IPv6 w \<Rightarrow> Val w | IPv4 _ \<Rightarrow> Throw (LibraryError ''bad_address_cast'')),
     v4_to_bytes = (\<lambda>w. be_encode 4 (unat w)),
     v6_to_bytes = (\<lambda>w. be_encode 16 (unat w)),
     default_address = IPv4 0,
     make_address = (\<lambda>s.
       if s = ''ff2e::42'' then Val (IPv6 0xff2e0000000000000000000000000042)
       else if s = ''::1'' then Val (IPv6 1)
       else if s = ''127.0.0.1'' then Val (IPv4 0x7f000001)
       else Throw (LibraryError ''make_address: Invalid argument''))\<rparr>"

lemma sample_asio_laws: "asio_laws sample_asio"
  by (simp add: asio_laws_def sample_asio_def split: ip_address.splits)

lemma sample_asio_simps [simp]:
  "is_v4 sample_asio (IPv4 w)" "\<not> is_v6 sample_asio (IPv4 w)"
  "is_v6 sample_asio (IPv6 x)" "\<not> is_v4 sample_asio (IPv6 x)"
  "address_bytes sample_asio (IPv4 w) = be_encode 4 (unat w)"
  "address_bytes sample_asio (IPv6 x) = be_encode 16 (unat x)"
  "address_family sample_asio (IPv4 w) = 2"
  "address_family sample_asio (IPv6 x) = 10"
  "default_address sample_asio = IPv4 0"
  by (simp_all add: sample_asio_def address_bytes_def address_family_def)

subsection \<open>Consequences of the laws\<close>

lemma asio_laws_cases:
  assumes "asio_laws A"
  obtains (v6) v where "is_v6 A a" "\<not> is_v4 A a" "to_v6 A a = Val v"
      "address_bytes A a = v6_to_bytes A v" "length (v6_to_bytes A v) = 16"
  | (v4) v where "is_v4 A a" "\<not> is_v6 A a" "to_v4 A a = Val v"
      "address_bytes A a = v4_to_bytes A v" "length (v4_to_bytes A v) = 4"
  using assms by (cases "is_v6 A a") (auto simp: asio_laws_def address_bytes_def is_val_iff)

lemma address_bytes_length:
  assumes "asio_laws A"
  shows "length (address_bytes A a) = (if is_v6 A a then 16 else 4)"
  using assms by (rule asio_laws_cases [of A a]) simp_all

end
