(* ===== verification/MPing_State.thy ===== *)
theory MPing_State
  imports Asio_Address
begin

text \<open>
  \<open>src/mping_state.hpp\<close> and \<open>src/mping_state.cpp\<close>: the state a sender keeps between two packets
  and its serialization. The members are the fields of a record. The time of the last packet is
  the count of a \<open>std::chrono::steady_clock\<close> time point: nanoseconds in a signed 64-bit integer,
  as in the C++ standard libraries of GCC and Clang. The random number drawn by the second
  constructor and the clock value read by \<open>set_current_time\<close> are arguments.
\<close>

subsection \<open>Model\<close>

datatype MPING_STATE_TYPE = SENDER | RECEIVER

fun to_underlying :: "MPING_STATE_TYPE \<Rightarrow> byte" where
  "to_underlying SENDER = of_char (CHR ''s'')"
| "to_underlying RECEIVER = of_char (CHR ''r'')"

record 'a mping_state =
  m_type :: MPING_STATE_TYPE
  m_ttl :: u8
  m_src_host :: 'a
  m_src_port :: u16
  m_dest_host :: 'a
  m_dest_port :: u16
  m_sequence_number :: u32
  m_pid :: u32
  m_tv :: u64

definition MPingState_default :: "('a, 'v4, 'v6) asio \<Rightarrow> 'a mping_state" where
  "MPingState_default A = \<lparr>m_type = SENDER, m_ttl = 0,
     m_src_host = default_address A, m_src_port = 0,
     m_dest_host = default_address A, m_dest_port = 0,
     m_sequence_number = 0, m_pid = 0, m_tv = 0\<rparr>"

definition MPingState_new ::
    "u32 \<Rightarrow> MPING_STATE_TYPE \<Rightarrow> u8 \<Rightarrow> 'a \<Rightarrow> u16 \<Rightarrow> 'a \<Rightarrow> u16 \<Rightarrow> 'a mping_state" where
  "MPingState_new random type ttl src_host src_port dest_host dest_port =
     \<lparr>m_type = type, m_ttl = ttl, m_src_host = src_host, m_src_port = src_port,
      m_dest_host = dest_host, m_dest_port = dest_port,
      m_sequence_number = 0, m_pid = random, m_tv = 0\<rparr>"

definition MPingState_full ::
    "MPING_STATE_TYPE \<Rightarrow> u8 \<Rightarrow> 'a \<Rightarrow> u16 \<Rightarrow> 'a \<Rightarrow> u16 \<Rightarrow> u32 \<Rightarrow> u32 \<Rightarrow> u64 \<Rightarrow> 'a mping_state" where
  "MPingState_full type ttl src_host src_port dest_host dest_port sequence_number pid tv =
     \<lparr>m_type = type, m_ttl = ttl, m_src_host = src_host, m_src_port = src_port,
      m_dest_host = dest_host, m_dest_port = dest_port,
      m_sequence_number = sequence_number, m_pid = pid, m_tv = tv\<rparr>"

definition next_seq_no :: "'a mping_state \<Rightarrow> 'a mping_state" where
  "next_seq_no st =
     (if m_sequence_number st = 4294967295 then st\<lparr>m_sequence_number := 0\<rparr>
      else st\<lparr>m_sequence_number := m_sequence_number st + 1\<rparr>)"

definition set_current_time :: "u64 \<Rightarrow> 'a mping_state \<Rightarrow> 'a mping_state" where
  "set_current_time now st = st\<lparr>m_tv := now\<rparr>"

text \<open>The accessors.\<close>

definition get_type :: "'a mping_state \<Rightarrow> MPING_STATE_TYPE" where
  "get_type st = m_type st"

definition get_ttl :: "'a mping_state \<Rightarrow> u8" where
  "get_ttl st = m_ttl st"

definition get_src_host :: "'a mping_state \<Rightarrow> 'a" where
  "get_src_host st = m_src_host st"

definition get_src_port :: "'a mping_state \<Rightarrow> u16" where
  "get_src_port st = m_src_port st"

definition get_dest_host :: "'a mping_state \<Rightarrow> 'a" where
  "get_dest_host st = m_dest_host st"

definition get_dest_port :: "'a mping_state \<Rightarrow> u16" where
  "get_dest_port st = m_dest_port st"

definition get_sequence_number :: "'a mping_state \<Rightarrow> u32" where
  "get_sequence_number st = m_sequence_number st"

definition get_pid :: "'a mping_state \<Rightarrow> u32" where
  "get_pid st = m_pid st"

definition get_tv :: "'a mping_state \<Rightarrow> u64" where
  "get_tv st = m_tv st"

text \<open>\<open>std::chrono::duration_cast\<close> divides and rounds towards zero.\<close>

definition duration_cast :: "int \<Rightarrow> int \<Rightarrow> int" where
  "duration_cast period count = count sdiv period"

definition get_seconds :: "'a mping_state \<Rightarrow> int" where
  "get_seconds st = duration_cast 1000000000 (sint (m_tv st))"

definition get_microseconds :: "'a mping_state \<Rightarrow> int" where
  "get_microseconds st =
     (let duration = sint (m_tv st);
          seconds = duration_cast 1000000000 duration;
          remaining = duration - seconds * 1000000000
      in duration_cast 1000 remaining)"

text \<open>
  The two blocks of \<open>serialize\<close> that append a host differ in the member they read and in the
  message of the exception.
\<close>

definition host_storage ::
    "endian \<Rightarrow> ('a, 'v4, 'v6) asio \<Rightarrow> 'a \<Rightarrow> u16 \<Rightarrow> string \<Rightarrow> byte list outcome" where
  "host_storage native A host port error =
     (if is_v6 A host
      then bindO (to_v6 A host) (\<lambda>v. ipv6_to_sockaddr_storage native (v6_to_bytes A v) port)
      else if is_v4 A host
      then bindO (to_v4 A host) (\<lambda>v. ipv4_to_sockaddr_storage native (v4_to_bytes A v) port)
      else Throw (InvalidArgument error))"

definition mstate_version :: "byte list" where
  "mstate_version = map of_char ''2.0'' @ [0]"

definition serialize :: "endian \<Rightarrow> ('a, 'v4, 'v6) asio \<Rightarrow> 'a mping_state \<Rightarrow> byte list outcome" where
  "serialize native A st =
     (let result = mstate_version;
          result = result @ [to_underlying (m_type st)];
          result = result @ to_byte_array native (to_bigendian native (m_ttl st));
          result = result @ [0, 0]
      in bindO (host_storage native A (m_src_host st) (m_src_port st)
                  ''Invalid source address'') (\<lambda>source.
      let result = result @ source
      in bindO (host_storage native A (m_dest_host st) (m_dest_port st)
                  ''Invalid destination address'') (\<lambda>destination.
      let result = result @ destination;
          result = result @ to_byte_array native (to_bigendian native (m_sequence_number st));
          result = result @ to_byte_array native (to_bigendian native (m_pid st));
          result = result @ to_byte_array native
            (to_bigendian native (word_of_int (get_seconds st) :: u64));
          result = result @ to_byte_array native
            (to_bigendian native (word_of_int (get_microseconds st) :: u64))
      in Val result)))"

subsection \<open>The sequence number\<close>

lemma next_seq_no_eq: "next_seq_no st = st\<lparr>m_sequence_number := m_sequence_number st + 1\<rparr>"
proof (cases "m_sequence_number st = 4294967295")
  case True
  moreover have "(4294967295 :: u32) + 1 = 0" by simp
  ultimately show ?thesis by (simp add: next_seq_no_def)
qed (simp add: next_seq_no_def)

lemma next_seq_no_funpow:
  "(next_seq_no ^^ n) st = st\<lparr>m_sequence_number := m_sequence_number st + of_nat n\<rparr>"
  by (induction n) (simp_all add: next_seq_no_eq add.assoc)

subsection \<open>The time of a packet\<close>

lemma split_nanoseconds:
  fixes d :: int
  assumes "0 \<le> d"
  shows "d div 1000000000 * 1000000 + (d - d div 1000000000 * 1000000000) div 1000 = d div 1000"
    and "0 \<le> (d - d div 1000000000 * 1000000000) div 1000"
    and "(d - d div 1000000000 * 1000000000) div 1000 < 1000000"
proof -
  have rest: "d - d div 1000000000 * 1000000000 = d mod 1000000000"
    by (simp add: minus_div_mult_eq_mod)
  have "(q * 1000000000 + r) div 1000 = q * 1000000 + r div 1000" for q r :: int
    using div_mult_self1 [of 1000 r "q * 1000000"] by (simp add: add.commute)
  from this [of "d div 1000000000" "d mod 1000000000"]
  show "d div 1000000000 * 1000000 + (d - d div 1000000000 * 1000000000) div 1000
      = d div 1000"
    using rest by simp
  have "0 \<le> d mod 1000000000" and "d mod 1000000000 < 1000000000" by simp_all
  then show "0 \<le> (d - d div 1000000000 * 1000000000) div 1000"
    and "(d - d div 1000000000 * 1000000000) div 1000 < 1000000"
    unfolding rest by linarith+
qed

lemma get_times_nonneg:
  assumes "0 \<le> sint (m_tv st)"
  shows "get_seconds st = sint (m_tv st) div 1000000000"
    and "get_microseconds st =
      (sint (m_tv st) - sint (m_tv st) div 1000000000 * 1000000000) div 1000"
  using assms
  by (simp_all add: get_seconds_def get_microseconds_def duration_cast_def Let_def
      signed_divide_int_def sgn_if)

subsection \<open>The packet in closed form\<close>

definition host_image :: "('a, 'v4, 'v6) asio \<Rightarrow> 'a \<Rightarrow> u16 \<Rightarrow> byte list" where
  "host_image A host port =
     storage_image (address_family A host) (unat port) (address_bytes A host)"

definition wire_seconds :: "'a mping_state \<Rightarrow> u64" where
  "wire_seconds st = word_of_int (get_seconds st)"

definition wire_microseconds :: "'a mping_state \<Rightarrow> u64" where
  "wire_microseconds st = word_of_int (get_microseconds st)"

definition packet_image :: "('a, 'v4, 'v6) asio \<Rightarrow> 'a mping_state \<Rightarrow> byte list" where
  "packet_image A st =
     [50, 46, 48, 0] @ [to_underlying (m_type st)] @ be_encode 1 (unat (m_ttl st)) @ [0, 0]
   @ host_image A (m_src_host st) (m_src_port st)
   @ host_image A (m_dest_host st) (m_dest_port st)
   @ be_encode 4 (unat (m_sequence_number st)) @ be_encode 4 (unat (m_pid st))
   @ be_encode 8 (unat (wire_seconds st)) @ be_encode 8 (unat (wire_microseconds st))"

lemma host_image_length [simp, length_simps]:
  "asio_laws A \<Longrightarrow> length (host_image A host port) = 128"
  by (simp add: host_image_def address_bytes_length)

lemma host_storage_image:
  assumes "asio_laws A"
  shows "host_storage native A host port error = Val (host_image A host port)"
  using assms
  by (rule asio_laws_cases [of A host])
    (simp_all add: host_storage_def host_image_def address_family_def ipv6_storage ipv4_storage)

lemma serialize_image:
  assumes "asio_laws A"
  shows "serialize native A st = Val (packet_image A st)"
  using assms
  by (simp add: serialize_def packet_image_def host_storage_image net_bytes_encode
      mstate_version_def wire_seconds_def wire_microseconds_def Let_def of_char_def)

lemma packet_image_length:
  "asio_laws A \<Longrightarrow> length (packet_image A st) = 288"
  by (simp add: packet_image_def)

subsection \<open>Properties\<close>

text \<open>
  C13: With Boost's documented address operations \<open>serialize\<close> never throws and never runs into
  undefined behaviour: for every state and every host it returns a packet of exactly 288 bytes,
  the size the string reserves, and the bytes do not depend on the host's byte order.
\<close>

theorem serialize_total:
  assumes "asio_laws A"
  shows "\<exists>packet. serialize native A st = Val packet \<and> length packet = 288
    \<and> serialize Little A st = Val packet \<and> serialize Big A st = Val packet"
  using assms by (simp add: serialize_image packet_image_length)

theorem serialize_total_witness:
  "\<exists>packet. serialize Little sample_asio (MPingState_default sample_asio) = Val packet
    \<and> length packet = 288"
  using serialize_total [OF sample_asio_laws, of Little "MPingState_default sample_asio"]
  by blast

text \<open>
  C25: \<open>next_seq_no\<close> counts modulo \<open>2 ^ 32\<close> without ever leaving the range of the member: after
  \<open>n\<close> calls the sequence number has advanced by \<open>n\<close>, wrapping to 0 after 4294967295, and every
  other member is as before.
\<close>

theorem next_seq_no_counts:
  "unat (get_sequence_number ((next_seq_no ^^ n) st)) =
      (unat (get_sequence_number st) + n) mod 4294967296
    \<and> (next_seq_no ^^ n) st =
      st\<lparr>m_sequence_number := get_sequence_number ((next_seq_no ^^ n) st)\<rparr>"
  by (simp add: next_seq_no_funpow get_sequence_number_def unat_word_ariths unat_of_nat
      mod_add_right_eq)

text \<open>
  C26: \<open>get_seconds\<close> and \<open>get_microseconds\<close> split the time stamp without loss above the
  microsecond: for a clock that does not run before its epoch, the two recombine to the whole
  microseconds of the stamp, the microseconds stay below a million, and both are carried
  unchanged by the unsigned 64-bit fields of the packet.
\<close>

theorem timestamp_split:
  assumes "0 \<le> sint (get_tv st)"
  shows "get_seconds st * 1000000 + get_microseconds st = sint (get_tv st) div 1000
    \<and> 0 \<le> get_seconds st \<and> 0 \<le> get_microseconds st \<and> get_microseconds st < 1000000
    \<and> uint (wire_seconds st) = get_seconds st
    \<and> uint (wire_microseconds st) = get_microseconds st"
proof -
  have nn: "0 \<le> sint (m_tv st)" using assms by (simp add: get_tv_def)
  note times = get_times_nonneg [OF nn] and split = split_nanoseconds [OF nn]
  have "sint (m_tv st) < 2 ^ 63"
    using sint_lt [of "m_tv st"] by simp
  then have "get_seconds st < 2 ^ 64" and "0 \<le> get_seconds st"
    using nn times by (simp_all add: pos_imp_zdiv_nonneg_iff)
  then show ?thesis
    using split times
    by (simp add: get_tv_def wire_seconds_def wire_microseconds_def uint_word_of_int)
qed

theorem timestamp_split_witness:
  "let st = MPingState_full SENDER 1 (IPv6 1) 0 (IPv6 2) 4321 3 417936 163169553889000
   in get_seconds st * 1000000 + get_microseconds st = 163169553889
    \<and> get_microseconds st < 1000000"
proof -
  let ?st = "MPingState_full SENDER 1 (IPv6 1) 0 (IPv6 2) 4321 3 417936 163169553889000"
  have tv: "sint (get_tv ?st) = 163169553889000"
    by (simp add: MPingState_full_def get_tv_def)
  then show ?thesis
    using timestamp_split [of ?st] by (simp add: Let_def)
qed

end
