(* ===== verification/Wire_Format.thy ===== *)
theory Wire_Format
  imports MPing_State
begin

text \<open>
  The packet format as the comment above \<open>serialize\<close> in \<open>src/mping_state.cpp\<close> draws it (the same
  drawing opens \<open>wireshark/mping.lua\<close>): the specification that the serializer is held against.
  \<open>doc_packet\<close> writes a packet from its fields, \<open>parse_packet\<close> reads the fields of a packet.
\<close>

subsection \<open>Specification\<close>

record host_field =
  h_family :: nat
  h_port :: nat
  h_address :: "byte list"

record packet =
  pk_type :: byte
  pk_ttl :: nat
  pk_source :: host_field
  pk_destination :: host_field
  pk_sequence_number :: nat
  pk_pid :: nat
  pk_seconds :: nat
  pk_microseconds :: nat

text \<open>
  ``IPv6 Host'': 10, the port, four zero bytes, the address; ``IPv4 Host'': 2, the port, the
  address.
\<close>

definition doc_host :: "host_field \<Rightarrow> byte list" where
  "doc_host h = le_encode 2 (h_family h) @ be_encode 2 (h_port h)
     @ (if h_family h = 10 then zeros 4 @ h_address h @ zeros 104
        else h_address h @ zeros 120)"

definition doc_packet :: "packet \<Rightarrow> byte list" where
  "doc_packet p = [50, 46, 48, 0] @ [pk_type p] @ be_encode 1 (pk_ttl p) @ [0, 0]
     @ doc_host (pk_source p) @ doc_host (pk_destination p)
     @ be_encode 4 (pk_sequence_number p) @ be_encode 4 (pk_pid p)
     @ be_encode 8 (pk_seconds p) @ be_encode 8 (pk_microseconds p)"

definition parse_host :: "byte list \<Rightarrow> host_field option" where
  "parse_host bs =
     (let family = read_le (subrange 0 2 bs); port = read_be (subrange 2 2 bs)
      in if family = 10
         then Some \<lparr>h_family = family, h_port = port, h_address = subrange 8 16 bs\<rparr>
         else if family = 2
         then Some \<lparr>h_family = family, h_port = port, h_address = subrange 4 4 bs\<rparr>
         else None)"

definition parse_packet :: "byte list \<Rightarrow> packet option" where
  "parse_packet bs =
     (if length bs \<noteq> 288 \<or> subrange 0 4 bs \<noteq> [50, 46, 48, 0] \<or> subrange 6 2 bs \<noteq> [0, 0]
         \<or> subrange 4 1 bs \<notin> {[115], [114]}
      then None
      else case (parse_host (subrange 8 128 bs), parse_host (subrange 136 128 bs)) of
        (Some source, Some destination) \<Rightarrow> Some
          \<lparr>pk_type = hd (subrange 4 1 bs), pk_ttl = read_be (subrange 5 1 bs),
           pk_source = source, pk_destination = destination,
           pk_sequence_number = read_be (subrange 264 4 bs), pk_pid = read_be (subrange 268 4 bs),
           pk_seconds = read_be (subrange 272 8 bs), pk_microseconds = read_be (subrange 280 8 bs)\<rparr>
      | _ \<Rightarrow> None)"

text \<open>The fields a state stands for.\<close>

definition host_of :: "('a, 'v4, 'v6) asio \<Rightarrow> 'a \<Rightarrow> u16 \<Rightarrow> host_field" where
  "host_of A host port =
     \<lparr>h_family = address_family A host, h_port = unat port, h_address = address_bytes A host\<rparr>"

definition packet_of :: "('a, 'v4, 'v6) asio \<Rightarrow> 'a mping_state \<Rightarrow> packet" where
  "packet_of A st = \<lparr>pk_type = to_underlying (get_type st), pk_ttl = unat (get_ttl st),
     pk_source = host_of A (get_src_host st) (get_src_port st),
     pk_destination = host_of A (get_dest_host st) (get_dest_port st),
     pk_sequence_number = unat (get_sequence_number st), pk_pid = unat (get_pid st),
     pk_seconds = unat (wire_seconds st), pk_microseconds = unat (wire_microseconds st)\<rparr>"

subsection \<open>Reading what the serializer writes\<close>

lemmas get_defs =
  get_type_def get_ttl_def get_src_host_def get_src_port_def get_dest_host_def
  get_dest_port_def get_sequence_number_def get_pid_def get_tv_def

lemma unat_field_mod [simp]:
  "unat (b :: u8) mod 256 = unat b"
  "unat (p :: u16) mod 65536 = unat p"
  "unat (q :: u32) mod 4294967296 = unat q"
  "unat (t :: u64) mod 18446744073709551616 = unat t"
proof -
  have "unat b < 2 ^ LENGTH(8)" and "unat p < 2 ^ LENGTH(16)" and "unat q < 2 ^ LENGTH(32)"
    and "unat t < 2 ^ LENGTH(64)"
    by (rule unsigned_less)+
  then show "unat b mod 256 = unat b" and "unat p mod 65536 = unat p"
    and "unat q mod 4294967296 = unat q" and "unat t mod 18446744073709551616 = unat t"
    by simp_all
qed

text \<open>What a reader of a host finds in the storage, whatever address was written.\<close>

lemma parse_host_image:
  assumes "asio_laws A"
  shows "parse_host (host_image A host port) = Some
    ((host_of A host port)\<lparr>h_address := if is_v6 A host then address_bytes A host else zeros 4\<rparr>)"
  using address_bytes_length [OF assms, of host]
  by (simp add: parse_host_def host_image_def storage_image_def host_of_def address_family_def
      layout_simps Let_def)

lemma packet_image_fields:
  assumes "asio_laws A"
  shows "subrange 0 4 (packet_image A st) = [50, 46, 48, 0]"
    and "subrange 4 1 (packet_image A st) = [to_underlying (m_type st)]"
    and "subrange 5 1 (packet_image A st) = be_encode 1 (unat (m_ttl st))"
    and "subrange 6 2 (packet_image A st) = [0, 0]"
    and "subrange 8 128 (packet_image A st) = host_image A (m_src_host st) (m_src_port st)"
    and "subrange 136 128 (packet_image A st) = host_image A (m_dest_host st) (m_dest_port st)"
    and "subrange 264 4 (packet_image A st) = be_encode 4 (unat (m_sequence_number st))"
    and "subrange 268 4 (packet_image A st) = be_encode 4 (unat (m_pid st))"
    and "subrange 272 8 (packet_image A st) = be_encode 8 (unat (wire_seconds st))"
    and "subrange 280 8 (packet_image A st) = be_encode 8 (unat (wire_microseconds st))"
  using assms by (simp_all add: packet_image_def subrange_def)

lemma parse_packet_image:
  assumes "asio_laws A"
  shows "parse_packet (packet_image A st) = Some ((packet_of A st)
    \<lparr>pk_source := (host_of A (m_src_host st) (m_src_port st))
       \<lparr>h_address := if is_v6 A (m_src_host st) then address_bytes A (m_src_host st) else zeros 4\<rparr>,
     pk_destination := (host_of A (m_dest_host st) (m_dest_port st))
       \<lparr>h_address := if is_v6 A (m_dest_host st) then address_bytes A (m_dest_host st) else zeros 4\<rparr>\<rparr>)"
proof -
  have "[to_underlying (m_type st)] \<in> {[115], [114]}"
    by (cases "m_type st") (simp_all add: of_char_def)
  then show ?thesis
    using assms
    by (simp add: parse_packet_def packet_image_length packet_image_fields parse_host_image
        packet_of_def get_defs del: One_nat_def)
qed

lemma host_image_inject:
  assumes "asio_laws A" and eq: "host_image A a p = host_image A b q"
  shows "host_of A a p = host_of A b q"
proof -
  have "parse_host (host_image A a p) = parse_host (host_image A b q)"
    using eq by simp
  then have fam: "address_family A a = address_family A b" and port: "unat p = unat q"
    by (simp_all add: parse_host_image assms(1) host_of_def)
  then have "length (address_bytes A a) = length (address_bytes A b)"
    by (simp add: address_bytes_length assms(1) address_family_def split: if_splits)
  then have "address_bytes A a = address_bytes A b"
    using eq fam port by (simp add: host_image_def storage_image_def)
  with fam port show ?thesis by (simp add: host_of_def)
qed

text \<open>The packet is a function of the fields that it has.\<close>

lemma packet_image_of_fields:
  "packet_image A st =
     (\<lambda>p. [50, 46, 48, 0] @ [pk_type p] @ be_encode 1 (pk_ttl p) @ [0, 0]
        @ (let h = pk_source p in storage_image (h_family h) (h_port h) (h_address h))
        @ (let h = pk_destination p in storage_image (h_family h) (h_port h) (h_address h))
        @ be_encode 4 (pk_sequence_number p) @ be_encode 4 (pk_pid p)
        @ be_encode 8 (pk_seconds p) @ be_encode 8 (pk_microseconds p)) (packet_of A st)"
  by (simp add: packet_image_def packet_of_def host_of_def host_image_def get_defs)

lemma doc_host_v6:
  assumes "asio_laws A" and "is_v6 A host"
  shows "doc_host (host_of A host port) = host_image A host port"
  using assms
  by (simp add: doc_host_def host_of_def host_image_def storage_image_def address_family_def
      address_bytes_length)

text \<open>The storage of an IPv4 host has its address four bytes behind the place in the drawing.\<close>

lemma storage_image_v4_doc:
  assumes "length addr = 4"
  shows "storage_image 2 port addr = doc_host \<lparr>h_family = 2, h_port = port, h_address = addr\<rparr>
    \<longleftrightarrow> addr = zeros 4"
proof -
  have "zeros 120 = zeros 4 @ zeros 116" by (simp flip: zeros_add)
  with assms show ?thesis by (auto simp: doc_host_def storage_image_def)
qed

lemma doc_host_v4:
  assumes "asio_laws A" and "is_v4 A host"
  shows "host_image A host port = doc_host (host_of A host port)
    \<longleftrightarrow> address_bytes A host = zeros 4"
proof -
  have "\<not> is_v6 A host" using assms by (simp add: asio_laws_def)
  then have "length (address_bytes A host) = 4" and "address_family A host = 2"
    using assms by (simp_all add: address_bytes_length address_family_def)
  then show ?thesis
    using storage_image_v4_doc by (simp add: host_of_def host_image_def)
qed

subsection \<open>Properties\<close>

text \<open>
  C4: Round trip for IPv6: the packet that \<open>serialize\<close> writes is byte for byte the documented
  one, and a receiver that follows the documented format reads from it exactly the type, TTL,
  hosts, ports, sequence number, PID and time of the state.
\<close>

theorem serialize_parse_roundtrip:
  assumes "asio_laws A" and "is_v6 A (get_src_host st)" and "is_v6 A (get_dest_host st)"
  shows "\<exists>bs. serialize native A st = Val bs
    \<and> bs = doc_packet (packet_of A st)
    \<and> parse_packet bs = Some (packet_of A st)"
proof -
  have "packet_image A st = doc_packet (packet_of A st)"
    using assms
    by (simp add: packet_image_def doc_packet_def packet_of_def get_defs doc_host_v6)
  moreover have "parse_packet (packet_image A st) = Some (packet_of A st)"
    using assms by (simp add: parse_packet_image packet_of_def get_defs host_of_def)
  ultimately show ?thesis
    using assms(1) by (simp add: serialize_image)
qed

theorem serialize_parse_roundtrip_witness:
  "\<exists>bs. serialize Little sample_asio (MPingState_new 7 SENDER 64 (IPv6 1) 4321 (IPv6 66) 4321) = Val bs
    \<and> parse_packet bs =
      Some (packet_of sample_asio (MPingState_new 7 SENDER 64 (IPv6 1) 4321 (IPv6 66) 4321))"
proof -
  let ?st = "MPingState_new 7 SENDER 64 (IPv6 1) 4321 (IPv6 66) 4321"
  have "is_v6 sample_asio (get_src_host ?st)" "is_v6 sample_asio (get_dest_host ?st)"
    by (simp_all add: MPingState_new_def get_defs)
  from serialize_parse_roundtrip [OF sample_asio_laws this, of Little] show ?thesis by blast
qed

text \<open>
  C27: For an IPv4 source the format is not kept. The address lands four bytes behind its
  documented place, so a receiver that follows the format reads the address 0.0.0.0 there, and
  the packet differs from the documented one for every other address.
\<close>

theorem ipv4_source_misplaced:
  assumes "asio_laws A" and "is_v4 A (get_src_host st)"
  shows "\<exists>bs p. serialize native A st = Val bs
    \<and> parse_packet bs = Some p \<and> h_address (pk_source p) = zeros 4
    \<and> (address_bytes A (get_src_host st) \<noteq> zeros 4 \<longrightarrow> bs \<noteq> doc_packet (packet_of A st))"
proof -
  let ?src = "host_of A (m_src_host st) (m_src_port st)"
  have v4: "is_v4 A (m_src_host st)" and nv6: "\<not> is_v6 A (m_src_host st)"
    using assms by (simp_all add: get_defs asio_laws_def)
  have len: "length (doc_host ?src) = 128"
    using nv6 assms(1) by (simp add: doc_host_def host_of_def address_family_def address_bytes_length)
  have "address_bytes A (m_src_host st) = zeros 4"
    if "packet_image A st = doc_packet (packet_of A st)"
  proof -
    have "subrange 8 128 (doc_packet (packet_of A st)) = doc_host ?src"
      using len by (simp add: doc_packet_def packet_of_def get_defs subrange_def)
    then have "host_image A (m_src_host st) (m_src_port st) = doc_host ?src"
      using that packet_image_fields(5) [OF assms(1), of st] by simp
    then show ?thesis using doc_host_v4 [OF assms(1) v4, of "m_src_port st"] by simp
  qed
  then show ?thesis
    using assms(1) nv6 by (auto simp: serialize_image parse_packet_image get_defs)
qed

theorem ipv4_source_misplaced_witness:
  "\<exists>bs p. serialize Little sample_asio (MPingState_new 7 SENDER 64 (IPv4 0x7f000001) 4321 (IPv6 66) 4321) = Val bs
    \<and> parse_packet bs = Some p \<and> h_address (pk_source p) = zeros 4
    \<and> bs \<noteq> doc_packet (packet_of sample_asio
        (MPingState_new 7 SENDER 64 (IPv4 0x7f000001) 4321 (IPv6 66) 4321))"
proof -
  let ?st = "MPingState_new 7 SENDER 64 (IPv4 0x7f000001) 4321 (IPv6 66) 4321"
  have v4: "is_v4 sample_asio (get_src_host ?st)"
    and nz: "address_bytes sample_asio (get_src_host ?st) \<noteq> zeros 4"
    by (simp_all add: MPingState_new_def get_defs encode_numeral zeros_numeral)
  from ipv4_source_misplaced [OF sample_asio_laws v4, of Little] nz show ?thesis by blast
qed

text \<open>
  C24: What a packet determines, exactly. Two states, whatever the kinds of their addresses and
  whatever hosts serialize them, give the same packet if and only if they agree in type, TTL,
  family and address bytes of both hosts, both ports, sequence number, PID and the seconds and
  microseconds of their time. What has no field, such as the scope of
  an IPv6 address or the nanoseconds below a microsecond, is not carried. This holds for IPv4 as well, although
  the address is misplaced there.
\<close>

theorem serialize_injective:
  assumes "asio_laws A"
  shows "serialize native A st = serialize native' A st' \<longleftrightarrow> packet_of A st = packet_of A st'"
proof -
  have "packet_of A st = packet_of A st'" if eq: "packet_image A st = packet_image A st'"
  proof -
    note fields = packet_image_fields [OF assms(1)]
    have "host_image A (m_src_host st) (m_src_port st) = host_image A (m_src_host st') (m_src_port st')"
      and "host_image A (m_dest_host st) (m_dest_port st) = host_image A (m_dest_host st') (m_dest_port st')"
      using eq fields(5,6) by metis+
    then have "host_of A (m_src_host st) (m_src_port st) = host_of A (m_src_host st') (m_src_port st')"
      and "host_of A (m_dest_host st) (m_dest_port st) = host_of A (m_dest_host st') (m_dest_port st')"
      using host_image_inject [OF assms(1)] by blast+
    moreover have "parse_packet (packet_image A st) = parse_packet (packet_image A st')"
      using eq by simp
    ultimately show ?thesis
      using assms(1) by (simp add: parse_packet_image packet_of_def get_defs)
  qed
  moreover have "packet_image A st = packet_image A st'" if "packet_of A st = packet_of A st'"
    using that by (simp add: packet_image_of_fields)
  ultimately have "packet_image A st = packet_image A st' \<longleftrightarrow> packet_of A st = packet_of A st'"
    by blast
  with assms show ?thesis by (simp add: serialize_image)
qed

theorem serialize_injective_witness:
  "serialize Little sample_asio (MPingState_full SENDER 1 (IPv6 1) 0 (IPv6 2) 4321 3 7 1000) =
      serialize Big sample_asio (MPingState_full SENDER 1 (IPv6 1) 0 (IPv6 2) 4321 3 7 1999)
    \<and> serialize Little sample_asio (MPingState_full SENDER 1 (IPv4 1) 0 (IPv6 2) 4321 3 7 1000) \<noteq>
      serialize Little sample_asio (MPingState_full SENDER 1 (IPv4 2) 0 (IPv6 2) 4321 3 7 1000)"
proof -
  let ?st = "\<lambda>src tv. MPingState_full SENDER 1 src 0 (IPv6 2) 4321 3 7 tv"
  have "packet_of sample_asio (?st (IPv6 1) 1000) = packet_of sample_asio (?st (IPv6 1) 1999)"
    by (simp add: packet_of_def get_defs MPingState_full_def wire_seconds_def
        wire_microseconds_def get_seconds_def get_microseconds_def duration_cast_def
        signed_divide_int_def)
  moreover have "h_address (pk_source (packet_of sample_asio (?st (IPv4 1) 1000))) \<noteq>
      h_address (pk_source (packet_of sample_asio (?st (IPv4 2) 1000)))"
    by (simp add: packet_of_def host_of_def get_defs MPingState_full_def encode_numeral)
  ultimately show ?thesis
    using serialize_injective [OF sample_asio_laws] by metis
qed

text \<open>
  C30: The two host fields, against their drawings. For an address of 16 or of 4 bytes the two
  functions stay inside their array of 128 bytes, on every host. For IPv6 the result is the
  drawing ``IPv6 Host''. For IPv4 it is not the drawing ``IPv4 Host'', which has the address
  right after the port, at offset 4: the function writes four zero bytes there and the address at
  offset 8, so only the address 0.0.0.0 gives the drawing.
\<close>

theorem sockaddr_storage_layout:
  assumes "length addr6 = 16" and "length addr4 = 4"
  shows "ipv6_to_sockaddr_storage native addr6 port =
      Val (doc_host \<lparr>h_family = 10, h_port = unat port, h_address = addr6\<rparr>)
    \<and> ipv4_to_sockaddr_storage native addr4 port =
      Val ([2, 0] @ be_encode 2 (unat port) @ zeros 4 @ addr4 @ zeros 116)
    \<and> (ipv4_to_sockaddr_storage native addr4 port =
         Val (doc_host \<lparr>h_family = 2, h_port = unat port, h_address = addr4\<rparr>)
       \<longleftrightarrow> addr4 = zeros 4)"
  using assms storage_image_v4_doc [OF assms(2)]
  by (simp add: ipv6_storage ipv4_storage)
    (simp add: storage_image_def doc_host_def encode_numeral)

theorem sockaddr_storage_layout_witness:
  "ipv6_to_sockaddr_storage Little (replicate 15 0 @ [1]) 4321 =
      Val (doc_host \<lparr>h_family = 10, h_port = 4321, h_address = replicate 15 0 @ [1]\<rparr>)
    \<and> ipv4_to_sockaddr_storage Little [224, 0, 0, 1] 4321 \<noteq>
      Val (doc_host \<lparr>h_family = 2, h_port = 4321, h_address = [224, 0, 0, 1]\<rparr>)"
proof -
  have h: "length (replicate 15 0 @ [1 :: byte]) = 16" "length [224, 0, 0, 1 :: byte] = 4"
    by simp_all
  have port: "unat (4321 :: u16) = 4321" and "[224, 0, 0, 1 :: byte] \<noteq> zeros 4"
    by (simp_all add: zeros_numeral)
  with sockaddr_storage_layout [OF h, of Little 4321, unfolded port] show ?thesis by blast
qed

text \<open>
  The packet of the unit test \<open>Serialization\<close> in \<open>tests/mping_state_test.cpp\<close>: the model
  computes exactly the 288 bytes that the test expects of the program.
\<close>

lemma serialize_test_vector:
  "serialize Little sample_asio
     (MPingState_full SENDER 1 (IPv6 0xfd008e13ce5d000e0000000000000001) 0
       (IPv6 0xff2e0000000000000000000000000042) 4321 3 417936 163169553889000) =
   Val ([50, 46, 48, 0, 115, 1, 0, 0, 10, 0, 0, 0, 0, 0, 0, 0, 253, 0, 142, 19, 206, 93, 0, 14, 0, 0, 0, 0, 0, 0, 0, 1]
      @ zeros 104
      @ [10, 0, 16, 225, 0, 0, 0, 0, 255, 46]
      @ zeros 13
      @ [66]
      @ zeros 107
      @ [3, 0, 6, 96, 144, 0, 0, 0, 0, 0, 2, 125, 97, 0, 0, 0, 0, 0, 8, 115, 161])"
  by (simp add: serialize_image sample_asio_laws packet_image_def host_image_def storage_image_def
      MPingState_full_def wire_seconds_def wire_microseconds_def get_seconds_def get_microseconds_def duration_cast_def
      signed_divide_int_def encode_numeral zeros_numeral of_char_def)

end
