(* ===== verification/Dissector.thy ===== *)
theory Dissector
  imports Wire_Format
begin

text \<open>
  \<open>wireshark/mping.lua\<close>: the reader of the packets that the repository ships, a dissector for
  Wireshark. The buffer is the list of its bytes, \<open>buffer(offset, n)\<close> a subrange; the methods by
  which Wireshark reads a value from a range are arguments, with their documented meaning in
  \<open>ws_laws\<close>. What the dissector adds to the tree is the list of the items, in order, each with the
  subtree it belongs to.
\<close>

subsection \<open>Model\<close>

datatype subtree = T_mping | T_source | T_destination | T_timestamp

datatype field =
    F_version | F_type | F_ttl
  | F_host_family subtree | F_host_port subtree | F_host_ipv4 subtree | F_host_ipv6 subtree
  | F_sequence_number | F_pid | F_seconds | F_microseconds

text \<open>The types with which the plugin declares its fields, and the width a type reads.\<close>

datatype field_type = FT_stringz | FT_char | FT_uint8 | FT_uint16 | FT_uint64 | FT_ipv4 | FT_ipv6

fun proto_field :: "field \<Rightarrow> field_type" where
  "proto_field F_version = FT_stringz"
| "proto_field F_type = FT_char"
| "proto_field F_ttl = FT_uint8"
| "proto_field (F_host_family t) = FT_uint16"
| "proto_field (F_host_ipv4 t) = FT_ipv4"
| "proto_field (F_host_ipv6 t) = FT_ipv6"
| "proto_field (F_host_port t) = FT_uint16"
| "proto_field F_sequence_number = FT_uint16"
| "proto_field F_pid = FT_uint16"
| "proto_field F_seconds = FT_uint64"
| "proto_field F_microseconds = FT_uint64"

fun type_width :: "field_type \<Rightarrow> nat option" where
  "type_width FT_stringz = None"
| "type_width FT_char = Some 1"
| "type_width FT_uint8 = Some 1"
| "type_width FT_uint16 = Some 2"
| "type_width FT_uint64 = Some 8"
| "type_width FT_ipv4 = Some 4"
| "type_width FT_ipv6 = Some 16"

datatype expert =
    E_depracated_version | E_invalid_type
  | E_invalid_host_family subtree | E_mismatch_host_address subtree | E_mismatch_host_port subtree

datatype 'addr tree_value = Str string | Num nat | Addr 'addr | From_range "byte list"

datatype 'addr item =
    Open_tree subtree nat nat
  | Field subtree field nat nat "'addr tree_value"
  | Expert_info subtree expert
  | Absolute_time subtree nat nat

record 'addr wireshark =
  ws_stringz :: "byte list \<Rightarrow> string"
  ws_uint :: "byte list \<Rightarrow> nat"
  ws_le_uint :: "byte list \<Rightarrow> nat"
  ws_uint64 :: "byte list \<Rightarrow> nat"
  ws_ipv4 :: "byte list \<Rightarrow> 'addr"
  ws_ipv6 :: "byte list \<Rightarrow> 'addr"

text \<open>The addresses and ports of the headers below the packet.\<close>

record 'addr pinfo =
  pi_src :: 'addr
  pi_dst :: 'addr
  pi_src_port :: nat
  pi_dst_port :: nat

definition AF_INET :: nat where
  "AF_INET = 2"

definition AF_INET6 :: nat where
  "AF_INET6 = 10"

definition max_uint64 :: nat where
  "max_uint64 = 2 ^ 63 - 1"

text \<open>
  The blocks for the two hosts differ in the subtree, the offset of the host and the address and
  port they compare with.
\<close>

definition dissect_host ::
    "'addr wireshark \<Rightarrow> subtree \<Rightarrow> nat \<Rightarrow> 'addr \<Rightarrow> nat \<Rightarrow> byte list \<Rightarrow> 'addr item list" where
  "dissect_host W t off address port buffer =
     (let family = ws_le_uint W (subrange off 2 buffer)
      in [Open_tree t off 128, Field t (F_host_family t) off 2 (Num family)]
       @ (if family = AF_INET6 \<or> family = AF_INET
          then
            (let host_port = ws_uint W (subrange (off + 2) 2 buffer)
             in [Field t (F_host_port t) (off + 2) 2 (Num host_port)]
              @ (if host_port \<noteq> port then [Expert_info t (E_mismatch_host_port t)] else [])
              @ (if family = AF_INET6
                 then
                   (let host_ipv6 = ws_ipv6 W (subrange (off + 8) 16 buffer)
                    in [Field t (F_host_ipv6 t) (off + 8) 16 (Addr host_ipv6)]
                     @ (if host_ipv6 \<noteq> address
                        then [Expert_info t (E_mismatch_host_address t)] else []))
                 else if family = AF_INET
                 then
                   (let host_ipv4 = ws_ipv4 W (subrange (off + 4) 4 buffer)
                    in [Field t (F_host_ipv4 t) (off + 4) 4 (Addr host_ipv4)]
                     @ (if host_ipv4 \<noteq> address
                        then [Expert_info t (E_mismatch_host_address t)] else []))
                 else []))
          else [Expert_info t (E_invalid_host_family t)]))"

definition dissect_timestamp :: "'addr wireshark \<Rightarrow> byte list \<Rightarrow> 'addr item list" where
  "dissect_timestamp W buffer =
     (let seconds = ws_uint64 W (subrange 272 8 buffer);
          microseconds = ws_uint64 W (subrange 280 8 buffer)
      in [Open_tree T_timestamp 272 16,
          Field T_timestamp F_seconds 272 8 (Num seconds),
          Field T_timestamp F_microseconds 280 8 (Num microseconds)]
       @ (if seconds < max_uint64 \<and> microseconds < max_uint64
          then [Absolute_time T_timestamp seconds microseconds] else []))"

definition dissector ::
    "'addr wireshark \<Rightarrow> byte list \<Rightarrow> 'addr pinfo \<Rightarrow> 'addr item list" where
  "dissector W buffer pinfo =
     (if length buffer < 288 then []
      else
        (let version = ws_stringz W (subrange 0 4 buffer)
         in [Open_tree T_mping 0 (length buffer), Field T_mping F_version 0 4 (Str version)]
          @ (if version \<noteq> ''2.0'' then []
             else
               (let type = ws_uint W (subrange 4 1 buffer)
                in [Field T_mping F_type 4 1 (Num type)]
                 @ (if type \<noteq> of_char (CHR ''s'') \<and> type \<noteq> of_char (CHR ''r'')
                    then [Expert_info T_mping E_depracated_version] else [])
                 @ [Field T_mping F_ttl 5 1 (From_range (subrange 5 1 buffer))]
                 @ dissect_host W T_source 8 (pi_src pinfo) (pi_src_port pinfo) buffer
                 @ dissect_host W T_destination 136 (pi_dst pinfo) (pi_dst_port pinfo) buffer
                 @ [Field T_mping F_sequence_number 264 4 (From_range (subrange 264 4 buffer)),
                    Field T_mping F_pid 268 4 (From_range (subrange 268 4 buffer))]
                 @ dissect_timestamp W buffer))))"

subsection \<open>Specification: what Wireshark promises\<close>

definition ws_laws :: "'addr wireshark \<Rightarrow> bool" where
  "ws_laws W \<longleftrightarrow>
     (\<forall>bs. ws_stringz W bs = map (\<lambda>b. char_of (unat b)) (takeWhile (\<lambda>b. b \<noteq> 0) bs))
   \<and> (\<forall>bs. length bs \<le> 4 \<longrightarrow> ws_uint W bs = read_be bs)
   \<and> (\<forall>bs. length bs \<le> 4 \<longrightarrow> ws_le_uint W bs = read_le bs)
   \<and> (\<forall>bs. length bs = 8 \<longrightarrow> ws_uint64 W bs = read_be bs)"

definition sample_wireshark :: "byte list wireshark" where
  "sample_wireshark = \<lparr>ws_stringz = (\<lambda>bs. map (\<lambda>b. char_of (unat b)) (takeWhile (\<lambda>b. b \<noteq> 0) bs)),
     ws_uint = read_be, ws_le_uint = read_le, ws_uint64 = read_be,
     ws_ipv4 = (\<lambda>bs. bs), ws_ipv6 = (\<lambda>bs. bs)\<rparr>"

lemma sample_ws_laws: "ws_laws sample_wireshark"
  by (simp add: ws_laws_def sample_wireshark_def)

subsection \<open>Reading a packet\<close>

lemma ws_lawsD:
  assumes "ws_laws W"
  shows "ws_stringz W bs = map (\<lambda>b. char_of (unat b)) (takeWhile (\<lambda>b. b \<noteq> 0) bs)"
    and "length bs \<le> 4 \<Longrightarrow> ws_uint W bs = read_be bs"
    and "length bs \<le> 4 \<Longrightarrow> ws_le_uint W bs = read_le bs"
    and "length bs = 8 \<Longrightarrow> ws_uint64 W bs = read_be bs"
  using assms by (simp_all add: ws_laws_def)

text \<open>What the host block finds in the storage that the serializer writes.\<close>

lemma host_image_reads:
  assumes "asio_laws A"
  shows "subrange 0 2 (host_image A host port) = le_encode 2 (address_family A host)"
    and "subrange 2 2 (host_image A host port) = be_encode 2 (unat port)"
    and "subrange 4 4 (host_image A host port) = zeros 4"
    and "is_v6 A host \<Longrightarrow> subrange 8 16 (host_image A host port) = address_bytes A host"
  using address_bytes_length [OF assms, of host]
  by (simp_all add: host_image_def storage_image_def layout_simps)

definition host_items ::
    "'addr wireshark \<Rightarrow> ('a, 'v4, 'v6) asio \<Rightarrow> subtree \<Rightarrow> nat \<Rightarrow> 'addr \<Rightarrow> nat \<Rightarrow> 'a \<Rightarrow> u16 \<Rightarrow> 'addr item list"
    where
  "host_items W A t off address port host host_port =
     [Open_tree t off 128, Field t (F_host_family t) off 2 (Num (address_family A host)),
      Field t (F_host_port t) (off + 2) 2 (Num (unat host_port))]
   @ (if unat host_port \<noteq> port then [Expert_info t (E_mismatch_host_port t)] else [])
   @ (if is_v6 A host
      then
        Field t (F_host_ipv6 t) (off + 8) 16 (Addr (ws_ipv6 W (address_bytes A host)))
        # (if ws_ipv6 W (address_bytes A host) \<noteq> address
           then [Expert_info t (E_mismatch_host_address t)] else [])
      else
        Field t (F_host_ipv4 t) (off + 4) 4 (Addr (ws_ipv4 W (zeros 4)))
        # (if ws_ipv4 W (zeros 4) \<noteq> address
           then [Expert_info t (E_mismatch_host_address t)] else []))"

lemma dissect_host_image:
  assumes "ws_laws W" and "asio_laws A"
    and "subrange off 128 buffer = host_image A host host_port"
  shows "dissect_host W t off address port buffer = host_items W A t off address port host host_port"
proof -
  have sub: "subrange (off + k) n buffer = subrange k n (host_image A host host_port)"
    if "k + n \<le> 128" for k n
    using subrange_subrange [of k n 128 off buffer] that assms(3) by simp
  note reads = host_image_reads [OF assms(2), of host host_port]
  have "address_family A host mod 65536 = address_family A host"
    and fam: "address_family A host = (if is_v6 A host then 10 else 2)"
    by (simp_all add: address_family_def)
  then have "ws_le_uint W (subrange off 2 buffer) = address_family A host"
    and "ws_uint W (subrange (off + 2) 2 buffer) = unat host_port"
    using sub [of 0 2] sub [of 2 2] reads(1,2) ws_lawsD(2,3) [OF assms(1)] by simp_all
  moreover have "subrange (off + 4) 4 buffer = zeros 4"
    and "is_v6 A host \<Longrightarrow> subrange (off + 8) 16 buffer = address_bytes A host"
    using sub [of 4 4] sub [of 8 16] reads(3,4) by simp_all
  ultimately show ?thesis
    by (simp add: dissect_host_def host_items_def fam AF_INET_def AF_INET6_def)
qed

lemma dissector_packet_image:
  assumes "ws_laws W" and "asio_laws A"
  shows "dissector W (packet_image A st) pinfo =
     [Open_tree T_mping 0 288, Field T_mping F_version 0 4 (Str ''2.0''),
      Field T_mping F_type 4 1 (Num (unat (to_underlying (m_type st)))),
      Field T_mping F_ttl 5 1 (From_range (be_encode 1 (unat (m_ttl st))))]
   @ host_items W A T_source 8 (pi_src pinfo) (pi_src_port pinfo) (m_src_host st) (m_src_port st)
   @ host_items W A T_destination 136 (pi_dst pinfo) (pi_dst_port pinfo) (m_dest_host st) (m_dest_port st)
   @ [Field T_mping F_sequence_number 264 4 (From_range (be_encode 4 (unat (m_sequence_number st)))),
      Field T_mping F_pid 268 4 (From_range (be_encode 4 (unat (m_pid st)))),
      Open_tree T_timestamp 272 16,
      Field T_timestamp F_seconds 272 8 (Num (unat (wire_seconds st))),
      Field T_timestamp F_microseconds 280 8 (Num (unat (wire_microseconds st)))]
   @ (if unat (wire_seconds st) < max_uint64 \<and> unat (wire_microseconds st) < max_uint64
      then [Absolute_time T_timestamp (unat (wire_seconds st)) (unat (wire_microseconds st))] else [])"
proof -
  note fields = packet_image_fields [OF assms(2), of st]
  have "ws_stringz W [50, 46, 48, 0] = ''2.0''"
    by (simp add: ws_lawsD(1) [OF assms(1)] char_of_def bit_0)
  moreover have "ws_uint W [to_underlying (m_type st)] = unat (to_underlying (m_type st))"
    by (simp add: ws_lawsD(2) [OF assms(1)] read_be_def)
  moreover have "unat (to_underlying (m_type st)) = of_char (CHR ''s'')
      \<or> unat (to_underlying (m_type st)) = of_char (CHR ''r'')"
    by (cases "m_type st") (simp_all add: of_char_def bit_0)
  moreover have "dissect_timestamp W (packet_image A st) =
     [Open_tree T_timestamp 272 16,
      Field T_timestamp F_seconds 272 8 (Num (unat (wire_seconds st))),
      Field T_timestamp F_microseconds 280 8 (Num (unat (wire_microseconds st)))]
   @ (if unat (wire_seconds st) < max_uint64 \<and> unat (wire_microseconds st) < max_uint64
      then [Absolute_time T_timestamp (unat (wire_seconds st)) (unat (wire_microseconds st))] else [])"
    by (simp add: dissect_timestamp_def fields ws_lawsD(4) [OF assms(1)] Let_def)
  ultimately show ?thesis
    using dissect_host_image [OF assms fields(5)] dissect_host_image [OF assms fields(6)]
    by (auto simp add: dissector_def packet_image_length assms(2) fields Let_def simp del: One_nat_def)
qed

text \<open>No item of a host block, and none of a packet, is the expert info of an invalid type.\<close>

lemma dissect_host_experts:
  "Expert_info t' e \<in> set (dissect_host W t off address port buffer) \<Longrightarrow>
    e \<in> {E_invalid_host_family t, E_mismatch_host_address t, E_mismatch_host_port t}"
  by (auto simp: dissect_host_def Let_def split: if_splits)

subsection \<open>Properties\<close>

text \<open>
  C12: Two implementations of the format agree on the places of the fields. Of every IPv6 packet
  of the serializer, captured between the hosts and ports it names, the dissector of the
  repository makes exactly this tree, in this order, without any expert info: each field has the
  value of the state, or is left to Wireshark with the bytes of the state. Each field of a fixed
  width gets a range of the width of its declared type, except two: the sequence number and the
  PID have four bytes in the packet and are declared as 16-bit fields, so what Wireshark displays
  for them does not follow from the plugin.
\<close>

theorem dissector_reads_sender:
  assumes "ws_laws W" and "asio_laws A"
    and "is_v6 A (get_src_host st)" and "is_v6 A (get_dest_host st)"
    and "serialize native A st = Val buffer"
    and "pi_src pinfo = ws_ipv6 W (address_bytes A (get_src_host st))"
    and "pi_src_port pinfo = unat (get_src_port st)"
    and "pi_dst pinfo = ws_ipv6 W (address_bytes A (get_dest_host st))"
    and "pi_dst_port pinfo = unat (get_dest_port st)"
  shows "dissector W buffer pinfo =
       [Open_tree T_mping 0 288,
        Field T_mping F_version 0 4 (Str ''2.0''),
        Field T_mping F_type 4 1 (Num (unat (to_underlying (get_type st)))),
        Field T_mping F_ttl 5 1 (From_range (be_encode 1 (unat (get_ttl st)))),
        Open_tree T_source 8 128,
        Field T_source (F_host_family T_source) 8 2 (Num 10),
        Field T_source (F_host_port T_source) 10 2 (Num (unat (get_src_port st))),
        Field T_source (F_host_ipv6 T_source) 16 16 (Addr (pi_src pinfo)),
        Open_tree T_destination 136 128,
        Field T_destination (F_host_family T_destination) 136 2 (Num 10),
        Field T_destination (F_host_port T_destination) 138 2 (Num (unat (get_dest_port st))),
        Field T_destination (F_host_ipv6 T_destination) 144 16 (Addr (pi_dst pinfo)),
        Field T_mping F_sequence_number 264 4
          (From_range (be_encode 4 (unat (get_sequence_number st)))),
        Field T_mping F_pid 268 4 (From_range (be_encode 4 (unat (get_pid st)))),
        Open_tree T_timestamp 272 16,
        Field T_timestamp F_seconds 272 8 (Num (unat (wire_seconds st))),
        Field T_timestamp F_microseconds 280 8 (Num (unat (wire_microseconds st)))]
     @ (if unat (wire_seconds st) < max_uint64 \<and> unat (wire_microseconds st) < max_uint64
        then [Absolute_time T_timestamp (unat (wire_seconds st)) (unat (wire_microseconds st))]
        else [])
    \<and> (\<forall>t f off n v w. Field t f off n v \<in> set (dissector W buffer pinfo) \<longrightarrow>
        type_width (proto_field f) = Some w \<longrightarrow> (n = w \<longleftrightarrow> f \<notin> {F_sequence_number, F_pid}))"
    (is "_ = ?items \<and> _")
proof -
  have "buffer = packet_image A st" using assms(2,5) by (simp add: serialize_image)
  then have items: "dissector W buffer pinfo = ?items"
    using assms by (simp add: dissector_packet_image host_items_def get_defs address_family_def)
  show ?thesis unfolding items by (auto split: if_splits)
qed

theorem dissector_reads_sender_witness:
  "\<exists>buffer. serialize Little sample_asio (MPingState_new 7 SENDER 64 (IPv6 1) 4321 (IPv6 66) 4321) = Val buffer
    \<and> (\<forall>t e. Expert_info t e \<notin> set (dissector sample_wireshark buffer
        \<lparr>pi_src = be_encode 16 1, pi_dst = be_encode 16 66, pi_src_port = 4321, pi_dst_port = 4321\<rparr>))"
proof -
  let ?st = "MPingState_new 7 SENDER 64 (IPv6 1) 4321 (IPv6 66) 4321"
  let ?pinfo = "\<lparr>pi_src = be_encode 16 1, pi_dst = be_encode 16 66, pi_src_port = 4321, pi_dst_port = 4321\<rparr>"
  obtain buffer where b: "serialize Little sample_asio ?st = Val buffer"
    using sample_asio_laws by (simp add: serialize_image)
  have "is_v6 sample_asio (get_src_host ?st)" and "is_v6 sample_asio (get_dest_host ?st)"
    and "pi_src ?pinfo = ws_ipv6 sample_wireshark (address_bytes sample_asio (get_src_host ?st))"
    and "pi_src_port ?pinfo = unat (get_src_port ?st)"
    and "pi_dst ?pinfo = ws_ipv6 sample_wireshark (address_bytes sample_asio (get_dest_host ?st))"
    and "pi_dst_port ?pinfo = unat (get_dest_port ?st)"
    by (simp_all add: sample_wireshark_def MPingState_new_def get_defs)
  from dissector_reads_sender [OF sample_ws_laws sample_asio_laws this(1,2) b this(3-)] b
  show ?thesis by auto
qed

text \<open>
  C28: On an IPv4 packet the two implementations disagree: the dissector shows the source address
  0.0.0.0 and, captured from any other address, reports a mismatch with the header below.
\<close>

theorem dissector_flags_ipv4_sender:
  assumes "ws_laws W" and "asio_laws A" and "is_v4 A (get_src_host st)"
    and "serialize native A st = Val buffer" and "pi_src pinfo \<noteq> ws_ipv4 W (zeros 4)"
  shows "Field T_source (F_host_ipv4 T_source) 12 4 (Addr (ws_ipv4 W (zeros 4)))
      \<in> set (dissector W buffer pinfo)
    \<and> Expert_info T_source (E_mismatch_host_address T_source) \<in> set (dissector W buffer pinfo)"
proof -
  have "buffer = packet_image A st" using assms(2,4) by (simp add: serialize_image)
  moreover have "\<not> is_v6 A (m_src_host st)" using assms(2,3) by (simp add: asio_laws_def get_defs)
  ultimately show ?thesis
    using assms by (simp add: dissector_packet_image host_items_def)
qed

theorem dissector_flags_ipv4_sender_witness:
  "\<exists>buffer. serialize Little sample_asio (MPingState_new 7 SENDER 64 (IPv4 0x7f000001) 4321 (IPv6 66) 4321)
      = Val buffer
    \<and> Expert_info T_source (E_mismatch_host_address T_source) \<in> set (dissector sample_wireshark buffer
        \<lparr>pi_src = [127, 0, 0, 1], pi_dst = be_encode 16 66, pi_src_port = 4321, pi_dst_port = 4321\<rparr>)"
proof -
  let ?st = "MPingState_new 7 SENDER 64 (IPv4 0x7f000001) 4321 (IPv6 66) 4321"
  let ?pinfo = "\<lparr>pi_src = [127, 0, 0, 1], pi_dst = be_encode 16 66, pi_src_port = 4321, pi_dst_port = 4321\<rparr>"
  obtain buffer where b: "serialize Little sample_asio ?st = Val buffer"
    using sample_asio_laws by (simp add: serialize_image)
  have "is_v4 sample_asio (get_src_host ?st)"
    by (simp add: MPingState_new_def get_defs)
  moreover have "pi_src ?pinfo \<noteq> ws_ipv4 sample_wireshark (zeros 4)"
    by (simp add: sample_wireshark_def zeros_numeral)
  ultimately show ?thesis
    using dissector_flags_ipv4_sender [OF sample_ws_laws sample_asio_laws _ b] b by blast
qed

text \<open>
  C29: What the dissector does with other traffic on the port. A datagram shorter than 288 bytes
  is left alone; one of another version is shown with its version only; and a packet with a type
  that is neither sender nor receiver is reported as one of a deprecated version, while the expert
  info for an invalid type, which the plugin declares, is added to no packet whatever.
\<close>

theorem dissector_other_traffic:
  "(length buffer < 288 \<longrightarrow> dissector W buffer pinfo = [])
    \<and> (length buffer \<ge> 288 \<and> ws_stringz W (subrange 0 4 buffer) \<noteq> ''2.0'' \<longrightarrow>
        dissector W buffer pinfo = [Open_tree T_mping 0 (length buffer),
          Field T_mping F_version 0 4 (Str (ws_stringz W (subrange 0 4 buffer)))])
    \<and> (length buffer \<ge> 288 \<and> ws_stringz W (subrange 0 4 buffer) = ''2.0'' \<longrightarrow>
        (Expert_info T_mping E_depracated_version \<in> set (dissector W buffer pinfo) \<longleftrightarrow>
         ws_uint W (subrange 4 1 buffer) \<notin> {115, 114}))
    \<and> Expert_info t E_invalid_type \<notin> set (dissector W buffer pinfo)"
  by (auto simp: dissector_def dissect_timestamp_def Let_def of_char_def
      dest: dissect_host_experts)

theorem dissector_other_traffic_witness:
  "let W = sample_wireshark;
       pinfo = \<lparr>pi_src = [], pi_dst = [], pi_src_port = 0, pi_dst_port = 0\<rparr>;
       invalid = [50, 46, 48, 0, 120] @ replicate 283 0
   in dissector W (replicate 287 0) pinfo = []
    \<and> dissector W ([49, 46, 48, 0] @ replicate 284 0) pinfo =
        [Open_tree T_mping 0 288, Field T_mping F_version 0 4 (Str ''1.0'')]
    \<and> Expert_info T_mping E_depracated_version \<in> set (dissector W invalid pinfo)
    \<and> Expert_info T_mping E_invalid_type \<notin> set (dissector W invalid pinfo)"
proof -
  let ?p = "\<lparr>pi_src = [], pi_dst = [], pi_src_port = 0, pi_dst_port = 0\<rparr> :: byte list pinfo"
  let ?invalid = "[50, 46, 48, 0, 120] @ replicate 283 0 :: byte list"
  have str: "ws_stringz sample_wireshark (subrange 0 4 ([49, 46, 48, 0] @ replicate 284 0)) = ''1.0''"
    "ws_stringz sample_wireshark (subrange 0 4 ?invalid) = ''2.0''"
    "ws_uint sample_wireshark (subrange 4 1 ?invalid) \<notin> {115, 114}"
    by (simp_all add: sample_wireshark_def subrange_def char_of_def bit_0 read_be_def)
  from dissector_other_traffic [of "replicate 287 0" sample_wireshark ?p]
    dissector_other_traffic [of "[49, 46, 48, 0] @ replicate 284 0" sample_wireshark ?p]
    dissector_other_traffic [of ?invalid sample_wireshark ?p T_mping] str
  show ?thesis by (simp add: Let_def)
qed

end
