(* ===== verification/Host_System.thy ===== *)
theory Host_System
  imports MPing_Prelude
begin

text \<open>
  What the program runs on: the build (which macros the headers and \<open>meson.build\<close> define) and the
  libraries and system calls it uses. Neither is under \<open>src/\<close>, so both are arguments of the model.
  Every call of a library goes through \<open>ext\<close>, which appends the call, with its arguments, to
  the \<open>calls\<close> of the machine: the order in which the program turns to its surroundings is part
  of the state and can be stated and proved.
\<close>

subsection \<open>The build\<close>

text \<open>
  \<open>sys_defined\<close> tells whether \<open>SYS_x\<close> is defined for the system call named \<open>x\<close>, \<open>scmp_sys\<close> is
  \<open>SCMP_SYS(x)\<close>, and \<open>landlock_const\<close> gives the values of the macros of \<open>linux/landlock.h\<close>.
\<close>

record build =
  have_libcapng :: bool
  have_landlock :: bool
  have_seccomp :: bool
  no_landlock_create_ruleset :: bool
  no_landlock_add_rule :: bool
  no_landlock_restrict_self :: bool
  is_clang :: bool
  sys_defined :: "string \<Rightarrow> bool"
  scmp_sys :: "string \<Rightarrow> int"
  scmp_act_allow :: u32
  scmp_act_kill :: u32
  landlock_const :: "string \<Rightarrow> u64"
  landlock_attr_size :: nat

subsection \<open>Calls\<close>

record landlock_ruleset_attr =
  handled_access_fs :: u64
  handled_access_net :: u64
  scoped :: u64

record landlock_path_beneath_attr =
  allowed_access :: u64
  parent_fd :: int

datatype sock_opt =
    Reuse_address bool
  | Outbound_interface int
  | Enable_loopback bool
  | Multicast_hops u8
  | Receive_buffer_size int

text \<open>\<open>boost::log::trivial::severity_level\<close>\<close>

datatype severity_level = trace | debug | info | warning | error | fatal

datatype 'a call =
    Capng_have_capability string string
  | Capng_lock
  | Capng_clear string
  | Capng_apply string
  | Landlock_create_ruleset "landlock_ruleset_attr option" nat u32
  | Landlock_add_rule int u64 landlock_path_beneath_attr u32
  | Landlock_restrict_self int u32
  | Seccomp_init u32
  | Seccomp_rule_add nat u32 int
  | Seccomp_load nat
  | Seccomp_reset nat u32
  | Seccomp_release nat
  | Set_log_filter severity_level
  | Random_number
  | If_nametoindex string
  | Socket_open 'a
  | Socket_set_option sock_opt
  | Socket_bind 'a u16

text \<open>Calls that touch the network: a socket is created, configured or bound.\<close>

fun network_call :: "'a call \<Rightarrow> bool" where
  "network_call (If_nametoindex _) = True"
| "network_call (Socket_open _) = True"
| "network_call (Socket_set_option _) = True"
| "network_call (Socket_bind _ _) = True"
| "network_call _ = False"

text \<open>Calls that confine the process.\<close>

fun sandbox_call :: "'a call \<Rightarrow> bool" where
  "sandbox_call (Capng_have_capability _ _) = True"
| "sandbox_call Capng_lock = True"
| "sandbox_call (Capng_clear _) = True"
| "sandbox_call (Capng_apply _) = True"
| "sandbox_call (Landlock_create_ruleset _ _ _) = True"
| "sandbox_call (Landlock_add_rule _ _ _ _) = True"
| "sandbox_call (Landlock_restrict_self _ _) = True"
| "sandbox_call (Seccomp_init _) = True"
| "sandbox_call (Seccomp_rule_add _ _ _) = True"
| "sandbox_call (Seccomp_load _) = True"
| "sandbox_call (Seccomp_reset _ _) = True"
| "sandbox_call (Seccomp_release _) = True"
| "sandbox_call _ = False"

subsection \<open>The libraries\<close>

text \<open>
  \<open>'w\<close> is the state of everything outside the program. A function of a C library returns an
  integer or a pointer (\<open>None\<close> is \<open>nullptr\<close>); \<open>os_errno\<close> is the value of \<open>errno\<close> afterwards. A
  function of Boost returns a value or throws. \<open>syscall_landlock_*\<close> are the results of
  \<open>syscall\<close>, which returns a \<open>long\<close>. The macros of \<open>cap-ng.h\<close> that the code passes on are
  given by their names; \<open>'a\<close> is the type of an address. \<open>random_number\<close> stands for the seeding of
  the generator from \<open>std::random_device\<close>, which may throw, and the draw of a PID from it.
\<close>

record ('w, 'a) os =
  os_errno :: "'w \<Rightarrow> int"
  capng_have_capability :: "string \<Rightarrow> string \<Rightarrow> 'w \<Rightarrow> int \<times> 'w"
  capng_lock :: "'w \<Rightarrow> int \<times> 'w"
  capng_clear :: "string \<Rightarrow> 'w \<Rightarrow> unit \<times> 'w"
  capng_apply :: "string \<Rightarrow> 'w \<Rightarrow> int \<times> 'w"
  libc_landlock_create_ruleset ::
    "landlock_ruleset_attr option \<Rightarrow> nat \<Rightarrow> u32 \<Rightarrow> 'w \<Rightarrow> int \<times> 'w"
  syscall_landlock_create_ruleset ::
    "landlock_ruleset_attr option \<Rightarrow> nat \<Rightarrow> u32 \<Rightarrow> 'w \<Rightarrow> int \<times> 'w"
  libc_landlock_add_rule :: "int \<Rightarrow> u64 \<Rightarrow> landlock_path_beneath_attr \<Rightarrow> u32 \<Rightarrow> 'w \<Rightarrow> int \<times> 'w"
  syscall_landlock_add_rule ::
    "int \<Rightarrow> u64 \<Rightarrow> landlock_path_beneath_attr \<Rightarrow> u32 \<Rightarrow> 'w \<Rightarrow> int \<times> 'w"
  libc_landlock_restrict_self :: "int \<Rightarrow> u32 \<Rightarrow> 'w \<Rightarrow> int \<times> 'w"
  syscall_landlock_restrict_self :: "int \<Rightarrow> u32 \<Rightarrow> 'w \<Rightarrow> int \<times> 'w"
  seccomp_init :: "u32 \<Rightarrow> 'w \<Rightarrow> nat option \<times> 'w"
  seccomp_rule_add :: "nat \<Rightarrow> u32 \<Rightarrow> int \<Rightarrow> 'w \<Rightarrow> int \<times> 'w"
  seccomp_load :: "nat \<Rightarrow> 'w \<Rightarrow> int \<times> 'w"
  seccomp_reset :: "nat \<Rightarrow> u32 \<Rightarrow> 'w \<Rightarrow> int \<times> 'w"
  seccomp_release :: "nat \<Rightarrow> 'w \<Rightarrow> unit \<times> 'w"
  random_number :: "'w \<Rightarrow> u32 outcome \<times> 'w"
  steady_clock_now :: "'w \<Rightarrow> u64"
  os_if_nametoindex :: "string \<Rightarrow> 'w \<Rightarrow> int \<times> 'w"
  socket_open :: "'a \<Rightarrow> 'w \<Rightarrow> nat outcome \<times> 'w"
  socket_set_option :: "nat \<Rightarrow> sock_opt \<Rightarrow> 'w \<Rightarrow> unit outcome \<times> 'w"
  socket_bind :: "nat \<Rightarrow> 'a \<Rightarrow> u16 \<Rightarrow> 'w \<Rightarrow> unit outcome \<times> 'w"

record ('w, 'a) machine =
  world :: 'w
  calls :: "'a call list"

definition ext :: "'a call \<Rightarrow> ('w \<Rightarrow> 'r \<times> 'w) \<Rightarrow> (('w, 'a) machine, 'r) prog" where
  "ext c f = (\<lambda>m. let (r, w) = f (world m) in (Val r, m\<lparr>world := w, calls := calls m @ [c]\<rparr>))"

text \<open>A call of a library function that may throw.\<close>

definition ext_throwing :: "'a call \<Rightarrow> ('w \<Rightarrow> 'r outcome \<times> 'w) \<Rightarrow> (('w, 'a) machine, 'r) prog" where
  "ext_throwing c f = bindM (ext c f) liftM"

text \<open>\<open>throw std::system_error(errno, ...)\<close>\<close>

definition throw_errno :: "('w, 'a) os \<Rightarrow> string \<Rightarrow> (('w, 'a) machine, 'r) prog" where
  "throw_errno os what = (\<lambda>m. (Throw (SystemError (os_errno os (world m)) what), m))"

lemma ext_app:
  "ext c f m = (Val (fst (f (world m))),
     m\<lparr>world := snd (f (world m)), calls := calls m @ [c]\<rparr>)"
  by (simp add: ext_def Let_def split: prod.split)

lemma bind_ext_app:
  "bindM (ext c f) g m =
     g (fst (f (world m))) (m\<lparr>world := snd (f (world m)), calls := calls m @ [c]\<rparr>)"
  by (simp add: bindM_def ext_app)

lemma throw_errno_not_Val [simp]: "throw_errno os what m \<noteq> (Val x, m')"
  by (simp add: throw_errno_def)

subsection \<open>Traces only grow\<close>

text \<open>
  \<open>appends P f\<close>: whatever state it starts in, \<open>f\<close> only appends calls to the trace, and all the
  calls it appends satisfy \<open>P\<close>. The rules follow the sequencing operators.
\<close>

definition appends :: "('a call \<Rightarrow> bool) \<Rightarrow> (('w, 'a) machine, 'r) prog \<Rightarrow> bool" where
  "appends P f \<longleftrightarrow>
     (\<forall>m. \<exists>cs. calls (snd (f m)) = calls m @ cs \<and> list_all P cs)"

named_theorems appends_intros \<open>which calls a program makes\<close>

lemma appendsE:
  assumes "appends P f"
  obtains cs where "calls (snd (f m)) = calls m @ cs" and "list_all P cs"
  using assms by (auto simp: appends_def)

lemma appends_returnM [appends_intros]: "appends P (returnM x)"
  by (simp add: appends_def)

lemma appends_throwM [appends_intros]: "appends P (throwM e)"
  by (simp add: appends_def)

lemma appends_exitM [appends_intros]: "appends P (exitM c)"
  by (simp add: appends_def)

lemma appends_liftM [appends_intros]: "appends P (liftM r)"
  by (simp add: appends_def)

lemma appends_throw_errno [appends_intros]: "appends P (throw_errno os what)"
  by (simp add: appends_def throw_errno_def)

lemma appends_ext [appends_intros]: "P c \<Longrightarrow> appends P (ext c f)"
  by (auto simp: appends_def ext_def Let_def split: prod.splits)

lemma appends_bindM [appends_intros]:
  assumes "appends P f" and "\<And>x. appends P (g x)"
  shows "appends P (bindM f g)"
  unfolding appends_def
proof
  fix m
  obtain cs where cs: "calls (snd (f m)) = calls m @ cs" "list_all P cs"
    using assms(1) by (rule appendsE)
  show "\<exists>cs. calls (snd (bindM f g m)) = calls m @ cs \<and> list_all P cs"
  proof (cases "f m")
    case (Pair r m')
    show ?thesis
    proof (cases r)
      case (Val x)
      obtain ds where "calls (snd (g x m')) = calls m' @ ds" "list_all P ds"
        using assms(2) by (rule appendsE)
      with cs Pair Val show ?thesis by (auto simp: bindM_def)
    qed (use cs Pair in \<open>auto simp: bindM_def\<close>)
  qed
qed

lemma appends_thenM [appends_intros]:
  "appends P f \<Longrightarrow> appends P g \<Longrightarrow> appends P (thenM f g)"
  by (simp add: thenM_def appends_bindM)

lemma appends_if [appends_intros]:
  "(b \<Longrightarrow> appends P f) \<Longrightarrow> (\<not> b \<Longrightarrow> appends P g) \<Longrightarrow> appends P (if b then f else g)"
  by simp

lemma appends_ext_throwing [appends_intros]: "P c \<Longrightarrow> appends P (ext_throwing c f)"
  by (simp add: ext_throwing_def appends_intros)

lemma appends_seqM [appends_intros]: "(\<And>f. f \<in> set fs \<Longrightarrow> appends P f) \<Longrightarrow> appends P (seqM fs)"
  by (induction fs) (simp_all add: appends_intros)

lemma appends_mono: "appends P f \<Longrightarrow> (\<And>c. P c \<Longrightarrow> Q c) \<Longrightarrow> appends Q f"
  unfolding appends_def by (metis list.pred_mono_strong)

subsection \<open>Programs that return or throw\<close>

text \<open>
  \<open>ends_well f\<close>: \<open>f\<close> neither exits nor runs into undefined behaviour. The rules are those of
  \<open>appends\<close>.
\<close>

definition ends_well :: "('s, 'r) prog \<Rightarrow> bool" where
  "ends_well f \<longleftrightarrow> (\<forall>s. value_or_throw (fst (f s)))"

named_theorems ends_well_intros \<open>programs that return or throw\<close>

lemma ends_wellD: "ends_well f \<Longrightarrow> value_or_throw (fst (f s))"
  by (simp add: ends_well_def)

lemma ends_well_basic [ends_well_intros]:
  "ends_well (returnM x)" "ends_well (throwM e)" "ends_well (throw_errno os what)"
  "ends_well (ext c f)"
  by (simp_all add: ends_well_def throw_errno_def ext_app)

lemma ends_well_liftM [ends_well_intros]: "value_or_throw r \<Longrightarrow> ends_well (liftM r)"
  by (simp add: ends_well_def)

lemma ends_well_bindM [ends_well_intros]:
  assumes "ends_well f" and "\<And>x. ends_well (g x)"
  shows "ends_well (bindM f g)"
  unfolding ends_well_def
proof
  fix s
  show "value_or_throw (fst (bindM f g s))"
    using ends_wellD [OF assms(1), of s] ends_wellD [OF assms(2)]
    by (auto simp: bindM_def split: prod.split outcome.split)
qed

lemma ends_well_thenM [ends_well_intros]: "ends_well f \<Longrightarrow> ends_well g \<Longrightarrow> ends_well (thenM f g)"
  by (simp add: thenM_def ends_well_bindM)

lemma ends_well_if [ends_well_intros]:
  "(b \<Longrightarrow> ends_well f) \<Longrightarrow> (\<not> b \<Longrightarrow> ends_well g) \<Longrightarrow> ends_well (if b then f else g)"
  by simp

lemma ends_well_seqM [ends_well_intros]: "(\<And>f. f \<in> set fs \<Longrightarrow> ends_well f) \<Longrightarrow> ends_well (seqM fs)"
  by (induction fs) (simp_all add: ends_well_intros)

lemma ends_well_ext_throwing [ends_well_intros]:
  assumes "\<And>w. value_or_throw (fst (f w))"
  shows "ends_well (ext_throwing c f)"
  using assms by (simp add: ends_well_def ext_throwing_def bind_ext_app)

end
