(* ===== verification/Capability_Managment.thy ===== *)
theory Capability_Managment
  imports Host_System
begin

text \<open>
  \<open>src/capability_managment.cpp\<close>: the three functions by which the process gives up its Linux
  capabilities through libcap-ng.
\<close>

subsection \<open>Model\<close>

definition lock :: "('w, 'a) os \<Rightarrow> (('w, 'a) machine, unit) prog" where
  "lock os =
     bindM (ext Capng_lock (capng_lock os)) (\<lambda>r.
     if r \<noteq> 0 then throw_errno os ''Failed to lock capabilities''
     else returnM ())"

definition check_for_capabilites :: "('w, 'a) os \<Rightarrow> (('w, 'a) machine, unit) prog" where
  "check_for_capabilites os =
     bindM (ext (Capng_have_capability ''CAPNG_PERMITTED'' ''CAP_SETPCAP'')
              (capng_have_capability os ''CAPNG_PERMITTED'' ''CAP_SETPCAP'')) (\<lambda>r.
     if r \<noteq> 1 then throwM (RuntimeError ''Missing CAP_SETPCAP capability'')
     else returnM ())"

definition drop_all_capabilies :: "('w, 'a) os \<Rightarrow> (('w, 'a) machine, unit) prog" where
  "drop_all_capabilies os =
     thenM (ext (Capng_clear ''CAPNG_SELECT_ALL'') (capng_clear os ''CAPNG_SELECT_ALL''))
     (bindM (ext (Capng_apply ''CAPNG_SELECT_ALL'') (capng_apply os ''CAPNG_SELECT_ALL'')) (\<lambda>r.
      if r \<noteq> 0 then throw_errno os ''Failed to apply capabilities''
      else returnM ()))"

subsection \<open>Which calls are made\<close>

lemma appends_capability_managment [appends_intros]:
  "appends sandbox_call (lock os)"
  "appends sandbox_call (check_for_capabilites os)"
  "appends sandbox_call (drop_all_capabilies os)"
  by (simp_all add: lock_def check_for_capabilites_def drop_all_capabilies_def appends_intros)

subsection \<open>When they succeed\<close>

lemma lock_Val:
  "lock os m = (Val u, m') \<longleftrightarrow>
     (\<exists>w. capng_lock os (world m) = (0, w)
        \<and> m' = m\<lparr>world := w, calls := calls m @ [Capng_lock]\<rparr>)"
  by (cases "capng_lock os (world m)") (auto simp: lock_def bind_ext_app)

lemma check_for_capabilites_Val:
  "check_for_capabilites os m = (Val u, m') \<longleftrightarrow>
     (\<exists>w. capng_have_capability os ''CAPNG_PERMITTED'' ''CAP_SETPCAP'' (world m) = (1, w)
        \<and> m' = m\<lparr>world := w,
             calls := calls m @ [Capng_have_capability ''CAPNG_PERMITTED'' ''CAP_SETPCAP'']\<rparr>)"
  by (cases "capng_have_capability os ''CAPNG_PERMITTED'' ''CAP_SETPCAP'' (world m)")
    (auto simp: check_for_capabilites_def bind_ext_app)

lemma drop_all_capabilies_Val:
  "drop_all_capabilies os m = (Val u, m') \<longleftrightarrow>
     (\<exists>w. capng_apply os ''CAPNG_SELECT_ALL''
            (snd (capng_clear os ''CAPNG_SELECT_ALL'' (world m))) = (0, w)
        \<and> m' = m\<lparr>world := w, calls := calls m @
             [Capng_clear ''CAPNG_SELECT_ALL'', Capng_apply ''CAPNG_SELECT_ALL'']\<rparr>)"
  by (cases "capng_apply os ''CAPNG_SELECT_ALL''
        (snd (capng_clear os ''CAPNG_SELECT_ALL'' (world m)))")
    (auto simp: drop_all_capabilies_def thenM_def bind_ext_app)

end
