(* ===== verification/Landlock.thy ===== *)
theory Landlock
  imports Host_System
begin

text \<open>
  \<open>src/landlock.hpp\<close> and \<open>src/landlock.cpp\<close>: the wrapper around the three Landlock system calls.
  Where the C library lacks a function (\<open>NO_LANDLOCK_*\<close>, set by \<open>meson.build\<close>), the header
  defines it by \<open>syscall\<close>, whose \<open>long\<close> it converts to \<open>int\<close>.
\<close>

subsection \<open>Model\<close>

definition cast_int :: "int \<Rightarrow> int" where
  "cast_int r = sint (word_of_int r :: 32 word)"

definition cast_result :: "('w \<Rightarrow> int \<times> 'w) \<Rightarrow> 'w \<Rightarrow> int \<times> 'w" where
  "cast_result f = (\<lambda>w. let (r, w') = f w in (cast_int r, w'))"

definition create_ruleset_fn ::
    "build \<Rightarrow> ('w, 'a) os \<Rightarrow> landlock_ruleset_attr option \<Rightarrow> nat \<Rightarrow> u32 \<Rightarrow> 'w \<Rightarrow> int \<times> 'w" where
  "create_ruleset_fn B os attr sz flags =
     (if no_landlock_create_ruleset B
      then cast_result (syscall_landlock_create_ruleset os attr sz flags)
      else libc_landlock_create_ruleset os attr sz flags)"

definition add_rule_fn ::
    "build \<Rightarrow> ('w, 'a) os \<Rightarrow> int \<Rightarrow> u64 \<Rightarrow> landlock_path_beneath_attr \<Rightarrow> u32 \<Rightarrow> 'w \<Rightarrow> int \<times> 'w" where
  "add_rule_fn B os ruleset_fd rule_type rule_attr flags =
     (if no_landlock_add_rule B
      then cast_result (syscall_landlock_add_rule os ruleset_fd rule_type rule_attr flags)
      else libc_landlock_add_rule os ruleset_fd rule_type rule_attr flags)"

definition restrict_self_fn ::
    "build \<Rightarrow> ('w, 'a) os \<Rightarrow> int \<Rightarrow> u32 \<Rightarrow> 'w \<Rightarrow> int \<times> 'w" where
  "restrict_self_fn B os ruleset_fd flags =
     (if no_landlock_restrict_self B
      then cast_result (syscall_landlock_restrict_self os ruleset_fd flags)
      else libc_landlock_restrict_self os ruleset_fd flags)"

definition landlock_create_ruleset ::
    "build \<Rightarrow> ('w, 'a) os \<Rightarrow> landlock_ruleset_attr option \<Rightarrow> nat \<Rightarrow> u32
      \<Rightarrow> (('w, 'a) machine, int) prog" where
  "landlock_create_ruleset B os attr sz flags =
     ext (Landlock_create_ruleset attr sz flags) (create_ruleset_fn B os attr sz flags)"

definition landlock_add_rule ::
    "build \<Rightarrow> ('w, 'a) os \<Rightarrow> int \<Rightarrow> u64 \<Rightarrow> landlock_path_beneath_attr \<Rightarrow> u32
      \<Rightarrow> (('w, 'a) machine, int) prog" where
  "landlock_add_rule B os ruleset_fd rule_type rule_attr flags =
     ext (Landlock_add_rule ruleset_fd rule_type rule_attr flags)
       (add_rule_fn B os ruleset_fd rule_type rule_attr flags)"

definition landlock_restrict_self ::
    "build \<Rightarrow> ('w, 'a) os \<Rightarrow> int \<Rightarrow> u32 \<Rightarrow> (('w, 'a) machine, int) prog" where
  "landlock_restrict_self B os ruleset_fd flags =
     ext (Landlock_restrict_self ruleset_fd flags) (restrict_self_fn B os ruleset_fd flags)"

record landlock_ruleset =
  ruleset :: int

definition abi_version :: "build \<Rightarrow> ('w, 'a) os \<Rightarrow> (('w, 'a) machine, int) prog" where
  "abi_version B os =
     landlock_create_ruleset B os None 0 (ucast (landlock_const B ''LANDLOCK_CREATE_RULESET_VERSION''))"

text \<open>
  The designated initializer leaves the members it does not name, here \<open>scoped\<close>, zero.
\<close>

definition LandlockRuleset ::
    "build \<Rightarrow> ('w, 'a) os \<Rightarrow> u64 \<Rightarrow> u64 \<Rightarrow> (('w, 'a) machine, landlock_ruleset) prog" where
  "LandlockRuleset B os handled_fs handled_net =
     bindM (abi_version B os) (\<lambda>v.
     if v < 6 then throwM (RuntimeError ''Landlock is too old.'')
     else
       let attr = \<lparr>handled_access_fs = handled_fs, handled_access_net = handled_net, scoped = 0\<rparr>
       in bindM (landlock_create_ruleset B os (Some attr) (landlock_attr_size B) 0) (\<lambda>fd.
          if fd = -1 then throwM (RuntimeError ''Failed to create landlock ruleset.'')
          else returnM \<lparr>ruleset = fd\<rparr>))"

definition add_path_beneath_rule ::
    "build \<Rightarrow> ('w, 'a) os \<Rightarrow> landlock_ruleset \<Rightarrow> u64 \<Rightarrow> int \<Rightarrow> (('w, 'a) machine, unit) prog" where
  "add_path_beneath_rule B os this access fd =
     (let attr = \<lparr>allowed_access = access, parent_fd = fd\<rparr>
      in bindM (landlock_add_rule B os (ruleset this)
                  (landlock_const B ''LANDLOCK_RULE_PATH_BENEATH'') attr 0) (\<lambda>r.
         if r \<noteq> 0 then throwM (RuntimeError ''Failed to add rule.'')
         else returnM ()))"

definition restrict_self ::
    "build \<Rightarrow> ('w, 'a) os \<Rightarrow> landlock_ruleset \<Rightarrow> (('w, 'a) machine, unit) prog" where
  "restrict_self B os this =
     bindM (landlock_restrict_self B os (ruleset this) 0) (\<lambda>r.
     if r \<noteq> 0 then throwM (RuntimeError ''Failed to restrict self via landlock.'')
     else returnM ())"

subsection \<open>Which calls are made\<close>

lemma appends_landlock_functions [appends_intros]:
  "appends sandbox_call (landlock_create_ruleset B os attr sz flags)"
  "appends sandbox_call (landlock_add_rule B os fd type rule flags)"
  "appends sandbox_call (landlock_restrict_self B os fd flags)"
  by (simp_all add: landlock_create_ruleset_def landlock_add_rule_def landlock_restrict_self_def
      appends_intros)

lemma appends_landlock [appends_intros]:
  "appends sandbox_call (abi_version B os)"
  "appends sandbox_call (LandlockRuleset B os fs net)"
  "appends sandbox_call (add_path_beneath_rule B os this access fd)"
  "appends sandbox_call (restrict_self B os this)"
  by (simp_all add: abi_version_def LandlockRuleset_def add_path_beneath_rule_def
      restrict_self_def Let_def appends_intros)

subsection \<open>When they succeed\<close>

abbreviation version_query :: "build \<Rightarrow> ('w, 'a) os \<Rightarrow> 'w \<Rightarrow> int \<times> 'w" where
  "version_query B os \<equiv>
     create_ruleset_fn B os None 0 (ucast (landlock_const B ''LANDLOCK_CREATE_RULESET_VERSION''))"

abbreviation ruleset_attr :: "u64 \<Rightarrow> u64 \<Rightarrow> landlock_ruleset_attr" where
  "ruleset_attr fs net \<equiv> \<lparr>handled_access_fs = fs, handled_access_net = net, scoped = 0\<rparr>"

lemma LandlockRuleset_Val:
  "LandlockRuleset B os fs net m = (Val this, m') \<longleftrightarrow>
     (\<exists>v w1 w2. version_query B os (world m) = (v, w1) \<and> 6 \<le> v
        \<and> create_ruleset_fn B os (Some (ruleset_attr fs net)) (landlock_attr_size B) 0 w1 =
            (ruleset this, w2)
        \<and> ruleset this \<noteq> -1
        \<and> m' = m\<lparr>world := w2, calls := calls m @
             [Landlock_create_ruleset None 0 (ucast (landlock_const B ''LANDLOCK_CREATE_RULESET_VERSION'')),
              Landlock_create_ruleset (Some (ruleset_attr fs net)) (landlock_attr_size B) 0]\<rparr>)"
proof -
  obtain v w1 where v: "version_query B os (world m) = (v, w1)" by fastforce
  obtain fd w2 where
    fd: "create_ruleset_fn B os (Some (ruleset_attr fs net)) (landlock_attr_size B) 0 w1 = (fd, w2)"
    by fastforce
  show ?thesis
    by (cases this)
      (auto simp: LandlockRuleset_def abi_version_def landlock_create_ruleset_def Let_def
        bind_ext_app v fd)
qed

lemma restrict_self_Val:
  "restrict_self B os this m = (Val u, m') \<longleftrightarrow>
     (\<exists>w. restrict_self_fn B os (ruleset this) 0 (world m) = (0, w)
        \<and> m' = m\<lparr>world := w, calls := calls m @ [Landlock_restrict_self (ruleset this) 0]\<rparr>)"
  by (cases "restrict_self_fn B os (ruleset this) 0 (world m)")
    (auto simp: restrict_self_def landlock_restrict_self_def bind_ext_app)

end
