(* ===== verification/Host_Sample.thy ===== *)
theory Host_Sample
  imports Host_System
begin

text \<open>
  The part of the outside world that the confinement of the process is about, and one instance
  of the libraries on it, in which every call succeeds; only a rule that a filter already has is
  refused. The laws of the libraries are stated over
  this view; the witnesses use the instance.
\<close>

subsection \<open>The view\<close>

text \<open>
  The part of the world that matters for the confinement: the capabilities the process has and
  those libcap-ng will apply next, whether it can gain privileges, the Landlock rulesets by file
  descriptor and the ones enforced, the filter contexts of libseccomp (default action and rules)
  and the filters loaded.
\<close>

type_synonym filter = "u32 \<times> (u32 \<times> int) list"

record sec_view =
  caps :: "string set"
  pending_caps :: "string set"
  no_new_privs :: bool
  rulesets :: "int \<rightharpoonup> landlock_ruleset_attr"
  domains :: "landlock_ruleset_attr list"
  contexts :: "nat \<rightharpoonup> filter"
  loaded :: "filter list"

subsection \<open>An instance\<close>

text \<open>A world that is its own view.\<close>

definition sample_create_ruleset ::
    "landlock_ruleset_attr option \<Rightarrow> nat \<Rightarrow> u32 \<Rightarrow> sec_view \<Rightarrow> int \<times> sec_view" where
  "sample_create_ruleset attr _ _ w =
     (case attr of None \<Rightarrow> (7, w) | Some a \<Rightarrow> (3, w\<lparr>rulesets := (rulesets w)(3 \<mapsto> a)\<rparr>))"

definition sample_restrict_self :: "int \<Rightarrow> u32 \<Rightarrow> sec_view \<Rightarrow> int \<times> sec_view" where
  "sample_restrict_self fd _ w =
     (if no_new_privs w \<or> ''CAP_SYS_ADMIN'' \<in> caps w
      then (case rulesets w fd of None \<Rightarrow> (-1, w) | Some a \<Rightarrow> (0, w\<lparr>domains := a # domains w\<rparr>))
      else (-1, w))"

definition sample_os :: "(sec_view, 'a) os" where
  "sample_os = \<lparr>
     os_errno = (\<lambda>_. 0),
     capng_have_capability = (\<lambda>_ cap w. (if cap \<in> caps w then 1 else 0, w)),
     capng_lock = (\<lambda>w. (0, w\<lparr>no_new_privs := True\<rparr>)),
     capng_clear = (\<lambda>_ w. ((), w\<lparr>pending_caps := {}\<rparr>)),
     capng_apply = (\<lambda>_ w. (0, w\<lparr>caps := pending_caps w\<rparr>)),
     libc_landlock_create_ruleset = sample_create_ruleset,
     syscall_landlock_create_ruleset = sample_create_ruleset,
     libc_landlock_add_rule = (\<lambda>_ _ _ _ w. (0, w)),
     syscall_landlock_add_rule = (\<lambda>_ _ _ _ w. (0, w)),
     libc_landlock_restrict_self = sample_restrict_self,
     syscall_landlock_restrict_self = sample_restrict_self,
     seccomp_init = (\<lambda>def w. (Some 5, w\<lparr>contexts := (contexts w)(5 \<mapsto> (def, []))\<rparr>)),
     seccomp_rule_add = (\<lambda>c action n w. case contexts w c of
         None \<Rightarrow> (-22, w)
       | Some (def, rules) \<Rightarrow>
           if (action, n) \<in> set rules then (-17, w)
           else (0, w\<lparr>contexts := (contexts w)(c \<mapsto> (def, rules @ [(action, n)]))\<rparr>)),
     seccomp_load = (\<lambda>c w. case contexts w c of None \<Rightarrow> (-1, w)
       | Some f \<Rightarrow> (0, w\<lparr>loaded := f # loaded w, no_new_privs := True\<rparr>)),
     seccomp_reset = (\<lambda>c def w. (0, w\<lparr>contexts := (contexts w)(c \<mapsto> (def, []))\<rparr>)),
     seccomp_release = (\<lambda>c w. ((), w\<lparr>contexts := (contexts w)(c := None)\<rparr>)),
     random_number = (\<lambda>w. (Val 417936, w)),
     steady_clock_now = (\<lambda>_. 0),
     os_if_nametoindex = (\<lambda>name w. (if name = ''eth0'' then 2 else 0, w)),
     socket_open = (\<lambda>_ w. (Val 4, w)),
     socket_set_option = (\<lambda>_ _ w. (Val (), w)),
     socket_bind = (\<lambda>_ _ _ w. (Val (), w))\<rparr>"

definition sample_world :: sec_view where
  "sample_world = \<lparr>caps = {''CAP_SETPCAP''}, pending_caps = {}, no_new_privs = False,
     rulesets = Map.empty, domains = [], contexts = Map.empty, loaded = []\<rparr>"

text \<open>All features compiled in, on a platform that has two system calls of the black list.\<close>

definition sample_build :: build where
  "sample_build = \<lparr>have_libcapng = True, have_landlock = True, have_seccomp = True,
     no_landlock_create_ruleset = False, no_landlock_add_rule = False,
     no_landlock_restrict_self = False, is_clang = False,
     sys_defined = (\<lambda>name. name \<in> {''ptrace'', ''chown''}),
     scmp_sys = (\<lambda>name. if name = ''ptrace'' then 101 else if name = ''chown'' then 92 else -1),
     scmp_act_allow = 0x7fff0000, scmp_act_kill = 0,
     landlock_const = (\<lambda>_. 1), landlock_attr_size = 24\<rparr>"

definition sample_machine :: "(sec_view, 'a) machine" where
  "sample_machine = \<lparr>world = sample_world, calls = []\<rparr>"

lemma sample_build_simps [simp]:
  "have_libcapng sample_build" "have_landlock sample_build" "have_seccomp sample_build"
  by (simp_all add: sample_build_def)

end
