(* ===== verification/Seccomp.thy ===== *)
theory Seccomp
  imports Host_Sample
begin

text \<open>
  \<open>src/seccomp.hpp\<close> and \<open>src/seccomp.cpp\<close>: the wrapper around a libseccomp filter context and the
  groups of system calls it forbids. Each line of a group is compiled only if the platform has
  the system call (\<open>#ifdef SYS_x\<close>). The object holds one pointer, null once it is released.
\<close>

subsection \<open>Model\<close>

record seccomp_filter_context =
  ctx :: "nat option"

definition is_useable :: "seccomp_filter_context \<Rightarrow> bool" where
  "is_useable this = (ctx this \<noteq> None)"

abbreviation not_useable :: exn where
  "not_useable \<equiv> RuntimeError ''seccomp filter context not useable.''"

definition SeccompFilterContext ::
    "('w, 'a) os \<Rightarrow> u32 \<Rightarrow> (('w, 'a) machine, seccomp_filter_context) prog" where
  "SeccompFilterContext os def_action =
     bindM (ext (Seccomp_init def_action) (seccomp_init os def_action)) (\<lambda>c.
     case c of
       None \<Rightarrow> throw_errno os ''Failed to initialize seccomp.''
     | Some _ \<Rightarrow> returnM \<lparr>ctx = c\<rparr>)"

text \<open>The result of \<open>seccomp_rule_add\<close> is not looked at.\<close>

definition rule_add ::
    "('w, 'a) os \<Rightarrow> seccomp_filter_context \<Rightarrow> u32 \<Rightarrow> int \<Rightarrow> (('w, 'a) machine, unit) prog" where
  "rule_add os this action sysno =
     (case ctx this of
       None \<Rightarrow> throwM not_useable
     | Some c \<Rightarrow>
         bindM (ext (Seccomp_rule_add c action sysno) (seccomp_rule_add os c action sysno))
           (\<lambda>_. returnM ()))"

definition allow ::
    "build \<Rightarrow> ('w, 'a) os \<Rightarrow> seccomp_filter_context \<Rightarrow> int \<Rightarrow> (('w, 'a) machine, unit) prog" where
  "allow B os this sysno = rule_add os this (scmp_act_allow B) sysno"

definition kill ::
    "build \<Rightarrow> ('w, 'a) os \<Rightarrow> seccomp_filter_context \<Rightarrow> int \<Rightarrow> (('w, 'a) machine, unit) prog" where
  "kill B os this sysno = rule_add os this (scmp_act_kill B) sysno"

text \<open>\<open>#ifdef SYS_x\<close>, \<open>this->kill(SCMP_SYS(x));\<close>, \<open>#endif\<close>, for each name of a list.\<close>

definition kill_ifdef ::
    "build \<Rightarrow> ('w, 'a) os \<Rightarrow> seccomp_filter_context \<Rightarrow> string \<Rightarrow> (('w, 'a) machine, unit) prog" where
  "kill_ifdef B os this name =
     (if sys_defined B name then kill B os this (scmp_sys B name) else returnM ())"

definition kill_each ::
    "build \<Rightarrow> ('w, 'a) os \<Rightarrow> seccomp_filter_context \<Rightarrow> string list
      \<Rightarrow> (('w, 'a) machine, unit) prog" where
  "kill_each B os this names = seqM (map (kill_ifdef B os this) names)"

definition chown_syscalls :: "string list" where
  "chown_syscalls =
     [''chown'', ''chown32'', ''fchown'', ''fchown32'', ''fchownat'', ''lchown'', ''lchown32'']"

definition kill_chown ::
    "build \<Rightarrow> ('w, 'a) os \<Rightarrow> seccomp_filter_context \<Rightarrow> (('w, 'a) machine, unit) prog" where
  "kill_chown B os this = kill_each B os this chown_syscalls"

definition clock_syscalls :: "string list" where
  "clock_syscalls =
     [''adjtimex'', ''clock_adjtime'', ''clock_settime'', ''settimeofday'', ''stime'']"

definition kill_clock ::
    "build \<Rightarrow> ('w, 'a) os \<Rightarrow> seccomp_filter_context \<Rightarrow> (('w, 'a) machine, unit) prog" where
  "kill_clock B os this = kill_each B os this clock_syscalls"

definition cpu_emulation_syscalls :: "string list" where
  "cpu_emulation_syscalls =
     [''modify_ldt'', ''subpage_prot'', ''switch_endian'', ''vm86'', ''vm86old'']"

definition kill_cpu_emulation ::
    "build \<Rightarrow> ('w, 'a) os \<Rightarrow> seccomp_filter_context \<Rightarrow> (('w, 'a) machine, unit) prog" where
  "kill_cpu_emulation B os this = kill_each B os this cpu_emulation_syscalls"

definition debug_syscalls :: "string list" where
  "debug_syscalls =
     [''lookup_dcookie'', ''perf_event_open'', ''pidfd_getfd'', ''process_vm_writev'',
      ''rtas'', ''s390_runtime_instr'', ''sys_debug_setcontext'']"

definition kill_debug ::
    "build \<Rightarrow> ('w, 'a) os \<Rightarrow> seccomp_filter_context \<Rightarrow> (('w, 'a) machine, unit) prog" where
  "kill_debug B os this = kill_each B os this debug_syscalls"

definition others_syscalls :: "string list" where
  "others_syscalls =
     [''open_by_handle_at'', ''name_to_handle_at'', ''ioprio_set'', ''ni_syscall'',
      ''syslog'', ''fanotify_init'', ''add_key'', ''request_key'', ''mbind'',
      ''migrate_pages'', ''move_pages'', ''keyctl'', ''io_setup'', ''io_destroy'',
      ''io_getevents'', ''io_submit'', ''io_cancel'', ''remap_file_pages'',
      ''set_mempolicyvmsplice'', ''userfaultfd'', ''acct'', ''bpf'', ''nfsservctl'',
      ''setdomainname'', ''sethostname'', ''vhangup'', ''ptrace'', ''personality'',
      ''process_vm_readv'']"

definition kill_others ::
    "build \<Rightarrow> ('w, 'a) os \<Rightarrow> seccomp_filter_context \<Rightarrow> (('w, 'a) machine, unit) prog" where
  "kill_others B os this = kill_each B os this others_syscalls"

definition ipc_syscalls :: "string list" where
  "ipc_syscalls =
     [''ipc'', ''memfd_create'', ''mq_getsetattr'', ''mq_notify'', ''mq_open'',
      ''mq_timedreceive'', ''mq_timedsend'', ''mq_unlink'', ''msgctl'', ''msgget'',
      ''msgrcv'', ''msgsnd'', ''process_madvise'', ''process_vm_readv'',
      ''process_vm_writev'', ''semctl'', ''semget'', ''semop'', ''semtimedop'', ''shmat'',
      ''shmctl'', ''shmdt'', ''pipe'', ''pipe2'']"

definition kill_ipc ::
    "build \<Rightarrow> ('w, 'a) os \<Rightarrow> seccomp_filter_context \<Rightarrow> (('w, 'a) machine, unit) prog" where
  "kill_ipc B os this = kill_each B os this ipc_syscalls"

definition keyring_syscalls :: "string list" where
  "keyring_syscalls =
     [''add_key'', ''keyctl'', ''request_key'']"

definition kill_keyring ::
    "build \<Rightarrow> ('w, 'a) os \<Rightarrow> seccomp_filter_context \<Rightarrow> (('w, 'a) machine, unit) prog" where
  "kill_keyring B os this = kill_each B os this keyring_syscalls"

definition memlock_syscalls :: "string list" where
  "memlock_syscalls =
     [''mlock'', ''mlock2'', ''mlockall'', ''munlock'', ''munlockall'']"

definition kill_memlock ::
    "build \<Rightarrow> ('w, 'a) os \<Rightarrow> seccomp_filter_context \<Rightarrow> (('w, 'a) machine, unit) prog" where
  "kill_memlock B os this = kill_each B os this memlock_syscalls"

definition module_syscalls :: "string list" where
  "module_syscalls =
     [''delete_module'', ''finit_module'', ''init_module'']"

definition kill_module ::
    "build \<Rightarrow> ('w, 'a) os \<Rightarrow> seccomp_filter_context \<Rightarrow> (('w, 'a) machine, unit) prog" where
  "kill_module B os this = kill_each B os this module_syscalls"

definition mount_syscalls :: "string list" where
  "mount_syscalls =
     [''chroot'', ''fsconfig'', ''fsmount'', ''fsopen'', ''fspick'', ''mount'',
      ''move_mount'', ''open_tree'', ''pivot_root'', ''umount'', ''umount2'']"

definition kill_mount ::
    "build \<Rightarrow> ('w, 'a) os \<Rightarrow> seccomp_filter_context \<Rightarrow> (('w, 'a) machine, unit) prog" where
  "kill_mount B os this = kill_each B os this mount_syscalls"

definition obsolete_syscalls :: "string list" where
  "obsolete_syscalls =
     [''_sysctl'', ''afs_syscall'', ''bdflush'', ''break'', ''create_module'', ''ftime'',
      ''get_kernel_syms'', ''getpmsg'', ''gtty'', ''idle'', ''lock'', ''mpx'', ''prof'',
      ''profil'', ''putpmsg'', ''query_module'', ''security'', ''sgetmask'', ''ssetmask'',
      ''stty'', ''sysfs'', ''tuxcall'', ''ulimit'', ''uselib'', ''ustat'', ''vserver'']"

definition kill_obsolete ::
    "build \<Rightarrow> ('w, 'a) os \<Rightarrow> seccomp_filter_context \<Rightarrow> (('w, 'a) machine, unit) prog" where
  "kill_obsolete B os this = kill_each B os this obsolete_syscalls"

definition privileged_syscalls :: "string list" where
  "privileged_syscalls =
     [''_sysctl'', ''acct'', ''bpf'', ''chroot'', ''fanotify_init'', ''mount'',
      ''nfsservctl'', ''open_by_handle_at'', ''pivot_root'', ''quotactl'', ''setdomainname'',
      ''setfsuid'', ''setfsuid32'', ''setgroups'', ''setgroups32'', ''sethostname'',
      ''setresuid'', ''setresuid32'', ''setreuid'', ''setreuid32'', ''setuid'', ''setuid32'',
      ''umount2'', ''vhangup'']"

definition kill_privileged ::
    "build \<Rightarrow> ('w, 'a) os \<Rightarrow> seccomp_filter_context \<Rightarrow> (('w, 'a) machine, unit) prog" where
  "kill_privileged B os this = kill_each B os this privileged_syscalls"

definition rawio_syscalls :: "string list" where
  "rawio_syscalls =
     [''ioperm'', ''iopl'', ''pciconfig_iobase'', ''pciconfig_read'', ''pciconfig_write'',
      ''s390_pci_mmio_read'', ''s390_pci_mmio_write'']"

definition kill_rawio ::
    "build \<Rightarrow> ('w, 'a) os \<Rightarrow> seccomp_filter_context \<Rightarrow> (('w, 'a) machine, unit) prog" where
  "kill_rawio B os this = kill_each B os this rawio_syscalls"

definition reboot_syscalls :: "string list" where
  "reboot_syscalls =
     [''kexec_load'', ''kexec_file_load'', ''reboot'']"

definition kill_reboot ::
    "build \<Rightarrow> ('w, 'a) os \<Rightarrow> seccomp_filter_context \<Rightarrow> (('w, 'a) machine, unit) prog" where
  "kill_reboot B os this = kill_each B os this reboot_syscalls"

definition resources_syscalls :: "string list" where
  "resources_syscalls =
     [''ioprio_set'', ''mbind'', ''migrate_pages'', ''move_pages'', ''nice'',
      ''sched_setaffinity'', ''sched_setattr'', ''sched_setparam'', ''sched_setscheduler'',
      ''set_mempolicy'']"

definition kill_resources ::
    "build \<Rightarrow> ('w, 'a) os \<Rightarrow> seccomp_filter_context \<Rightarrow> (('w, 'a) machine, unit) prog" where
  "kill_resources B os this = kill_each B os this resources_syscalls"

definition setuid_syscalls :: "string list" where
  "setuid_syscalls =
     [''setgid'', ''setgid32'', ''setgroups'', ''setgroups32'', ''setregid'', ''setregid32'',
      ''setresgid'', ''setresgid32'', ''setresuid'', ''setresuid32'', ''setreuid'',
      ''setreuid32'', ''setuid'', ''setuid32'']"

definition kill_setuid ::
    "build \<Rightarrow> ('w, 'a) os \<Rightarrow> seccomp_filter_context \<Rightarrow> (('w, 'a) machine, unit) prog" where
  "kill_setuid B os this = kill_each B os this setuid_syscalls"

definition signal_syscalls :: "string list" where
  "signal_syscalls =
     [''rt_sigaction'', ''rt_sigpending'', ''rt_sigprocmask'', ''rt_sigsuspend'',
      ''rt_sigtimedwait'', ''sigaction'', ''sigaltstack'', ''signal'', ''signalfd'',
      ''signalfd4'', ''sigpending'', ''sigprocmask'', ''sigsuspend'']"

definition kill_signal ::
    "build \<Rightarrow> ('w, 'a) os \<Rightarrow> seccomp_filter_context \<Rightarrow> (('w, 'a) machine, unit) prog" where
  "kill_signal B os this = kill_each B os this signal_syscalls"

definition swap_syscalls :: "string list" where
  "swap_syscalls =
     [''swapon'', ''swapoff'']"

definition kill_swap ::
    "build \<Rightarrow> ('w, 'a) os \<Rightarrow> seccomp_filter_context \<Rightarrow> (('w, 'a) machine, unit) prog" where
  "kill_swap B os this = kill_each B os this swap_syscalls"

definition sync_syscalls :: "string list" where
  "sync_syscalls =
     [''fdatasync'', ''fsync'', ''msync'', ''sync'', ''sync_file_range'',
      ''sync_file_range2'', ''syncfs'']"

definition kill_sync ::
    "build \<Rightarrow> ('w, 'a) os \<Rightarrow> seccomp_filter_context \<Rightarrow> (('w, 'a) machine, unit) prog" where
  "kill_sync B os this = kill_each B os this sync_syscalls"

definition system_service_syscalls :: "string list" where
  "system_service_syscalls =
     [''copy_file_range'', ''fadvise64'', ''fadvise64_64'', ''flock'', ''get_mempolicy'',
      ''getcpu'', ''getpriority'', ''ioprio_get'', ''kcmp'', ''madvise'', ''mremap'',
      ''name_to_handle_at'', ''oldolduname'', ''olduname'', ''personality'', ''readahead'',
      ''readdir'', ''remap_file_pages'', ''sched_get_priority_max'',
      ''sched_get_priority_min'', ''sched_getaffinity'', ''sched_getattr'',
      ''sched_getparam'', ''sched_getscheduler'', ''sched_rr_get_interval'', ''sched_yield'',
      ''sendfile'', ''sendfile64'', ''setfsgid'', ''setfsgid32'', ''setfsuid'',
      ''setfsuid32'', ''setpgid'', ''setsid'', ''splice'', ''sysinfo'', ''tee'', ''umask'',
      ''uname'', ''userfaultfd'', ''vmsplice'']"

definition kill_system_service ::
    "build \<Rightarrow> ('w, 'a) os \<Rightarrow> seccomp_filter_context \<Rightarrow> (('w, 'a) machine, unit) prog" where
  "kill_system_service B os this = kill_each B os this system_service_syscalls"

definition load ::
    "('w, 'a) os \<Rightarrow> seccomp_filter_context \<Rightarrow> (('w, 'a) machine, unit) prog" where
  "load os this =
     (case ctx this of
       None \<Rightarrow> throwM not_useable
     | Some c \<Rightarrow>
         bindM (ext (Seccomp_load c) (seccomp_load os c)) (\<lambda>r.
         if r \<noteq> 0 then throw_errno os ''Failed to load seccomp filter.''
         else returnM ()))"

definition reset ::
    "('w, 'a) os \<Rightarrow> seccomp_filter_context \<Rightarrow> u32 \<Rightarrow> (('w, 'a) machine, unit) prog" where
  "reset os this def_action =
     (case ctx this of
       None \<Rightarrow> throwM not_useable
     | Some c \<Rightarrow>
         bindM (ext (Seccomp_reset c def_action) (seccomp_reset os c def_action)) (\<lambda>r.
         if r \<noteq> 0 then throw_errno os ''Failed to reset seccomp filter.''
         else returnM ()))"

text \<open>The only method that changes the object: it returns the object afterwards.\<close>

definition release ::
    "('w, 'a) os \<Rightarrow> seccomp_filter_context
      \<Rightarrow> (('w, 'a) machine, seccomp_filter_context) prog" where
  "release os this =
     (case ctx this of
       None \<Rightarrow> throwM not_useable
     | Some c \<Rightarrow>
         bindM (ext (Seccomp_release c) (seccomp_release os c)) (\<lambda>_.
         returnM (this\<lparr>ctx := None\<rparr>)))"

subsection \<open>A group of system calls\<close>

text \<open>The calls of libseccomp that forbid the named system calls the platform has.\<close>

definition kill_rules :: "build \<Rightarrow> nat \<Rightarrow> string list \<Rightarrow> 'a call list" where
  "kill_rules B c names =
     map (\<lambda>name. Seccomp_rule_add c (scmp_act_kill B) (scmp_sys B name))
       (filter (sys_defined B) names)"

text \<open>What they do to the world outside, whatever libseccomp answers.\<close>

definition kill_effect :: "build \<Rightarrow> ('w, 'a) os \<Rightarrow> nat \<Rightarrow> string list \<Rightarrow> 'w \<Rightarrow> 'w" where
  "kill_effect B os c names =
     fold (\<lambda>name w. snd (seccomp_rule_add os c (scmp_act_kill B) (scmp_sys B name) w))
       (filter (sys_defined B) names)"

lemma kill_each_simps [simp]:
  "kill_each B os this [] = returnM ()"
  "kill_each B os this (n # ns) = thenM (kill_ifdef B os this n) (kill_each B os this ns)"
  by (simp_all add: kill_each_def)

lemma kill_each_append:
  "kill_each B os this (ns @ ks) = thenM (kill_each B os this ns) (kill_each B os this ks)"
  by (simp add: kill_each_def seqM_append)

lemma kill_each_useable:
  assumes "ctx this = Some c"
  shows "kill_each B os this names m =
    (Val (), m\<lparr>world := kill_effect B os c names (world m),
               calls := calls m @ kill_rules B c names\<rparr>)"
proof (induction names arbitrary: m)
  case Nil
  then show ?case by (simp add: kill_effect_def kill_rules_def)
next
  case (Cons n ns)
  show ?case
    using assms
    by (simp add: thenM_def kill_ifdef_def kill_def rule_add_def ext_def Cons bindM_def Let_def
        kill_effect_def kill_rules_def split: prod.split)
qed

lemma kill_each_not_useable:
  assumes "ctx this = None"
  shows "kill_each B os this names m =
    (if list_ex (sys_defined B) names then (Throw not_useable, m) else (Val (), m))"
  using assms
  by (induction names)
    (simp_all add: thenM_def kill_ifdef_def kill_def rule_add_def bindM_def)

lemma appends_rule_add [appends_intros]: "appends sandbox_call (rule_add os this action n)"
  by (simp add: rule_add_def appends_intros split: option.split)

lemma appends_kill_each [appends_intros]: "appends sandbox_call (kill_each B os this names)"
  unfolding kill_each_def kill_ifdef_def kill_def
  by (rule appends_seqM) (auto intro!: appends_intros)

lemma appends_seccomp [appends_intros]:
  "appends sandbox_call (SeccompFilterContext os def_action)"
  "appends sandbox_call (load os this)"
  by (auto simp: SeccompFilterContext_def load_def split: option.split intro!: appends_intros)

text \<open>
  The contract of a group: it is the sequence of conditional \<open>kill\<close> calls for its system calls.
  What follows is proved once, and holds of each of the twenty groups.
\<close>

locale kill_group =
  fixes group ::
    "build \<Rightarrow> ('w, 'a) os \<Rightarrow> seccomp_filter_context \<Rightarrow> (('w, 'a) machine, unit) prog"
    and names :: "string list"
  assumes group_eq: "group B os this = kill_each B os this names"
begin

lemma group_useable:
  "ctx this = Some c \<Longrightarrow> group B os this m =
    (Val (), m\<lparr>world := kill_effect B os c names (world m),
               calls := calls m @ kill_rules B c names\<rparr>)"
  by (simp add: group_eq kill_each_useable)

lemma group_not_useable:
  "ctx this = None \<Longrightarrow> list_ex (sys_defined B) names \<Longrightarrow>
    group B os this m = (Throw not_useable, m)"
  by (simp add: group_eq kill_each_not_useable)

lemma group_then:
  "thenM (group B os this) (kill_each B os this ns) = kill_each B os this (names @ ns)"
  by (simp add: group_eq kill_each_append)

end

interpretation chown_group: kill_group kill_chown chown_syscalls
  by unfold_locales (simp add: kill_chown_def)

interpretation clock_group: kill_group kill_clock clock_syscalls
  by unfold_locales (simp add: kill_clock_def)

interpretation cpu_emulation_group: kill_group kill_cpu_emulation cpu_emulation_syscalls
  by unfold_locales (simp add: kill_cpu_emulation_def)

interpretation debug_group: kill_group kill_debug debug_syscalls
  by unfold_locales (simp add: kill_debug_def)

interpretation others_group: kill_group kill_others others_syscalls
  by unfold_locales (simp add: kill_others_def)

interpretation ipc_group: kill_group kill_ipc ipc_syscalls
  by unfold_locales (simp add: kill_ipc_def)

interpretation keyring_group: kill_group kill_keyring keyring_syscalls
  by unfold_locales (simp add: kill_keyring_def)

interpretation memlock_group: kill_group kill_memlock memlock_syscalls
  by unfold_locales (simp add: kill_memlock_def)

interpretation module_group: kill_group kill_module module_syscalls
  by unfold_locales (simp add: kill_module_def)

interpretation mount_group: kill_group kill_mount mount_syscalls
  by unfold_locales (simp add: kill_mount_def)

interpretation obsolete_group: kill_group kill_obsolete obsolete_syscalls
  by unfold_locales (simp add: kill_obsolete_def)

interpretation privileged_group: kill_group kill_privileged privileged_syscalls
  by unfold_locales (simp add: kill_privileged_def)

interpretation rawio_group: kill_group kill_rawio rawio_syscalls
  by unfold_locales (simp add: kill_rawio_def)

interpretation reboot_group: kill_group kill_reboot reboot_syscalls
  by unfold_locales (simp add: kill_reboot_def)

interpretation resources_group: kill_group kill_resources resources_syscalls
  by unfold_locales (simp add: kill_resources_def)

interpretation setuid_group: kill_group kill_setuid setuid_syscalls
  by unfold_locales (simp add: kill_setuid_def)

interpretation signal_group: kill_group kill_signal signal_syscalls
  by unfold_locales (simp add: kill_signal_def)

interpretation swap_group: kill_group kill_swap swap_syscalls
  by unfold_locales (simp add: kill_swap_def)

interpretation sync_group: kill_group kill_sync sync_syscalls
  by unfold_locales (simp add: kill_sync_def)

interpretation system_service_group: kill_group kill_system_service system_service_syscalls
  by unfold_locales (simp add: kill_system_service_def)

lemmas group_eqs =
  chown_group.group_eq clock_group.group_eq cpu_emulation_group.group_eq
  debug_group.group_eq others_group.group_eq ipc_group.group_eq keyring_group.group_eq
  memlock_group.group_eq module_group.group_eq mount_group.group_eq obsolete_group.group_eq
  privileged_group.group_eq rawio_group.group_eq reboot_group.group_eq
  resources_group.group_eq setuid_group.group_eq signal_group.group_eq swap_group.group_eq
  sync_group.group_eq system_service_group.group_eq

subsection \<open>Properties\<close>

text \<open>
  C33: After \<open>release\<close> the context is dead: every operation on it throws without a call to
  libseccomp, so the freed pointer is never used again and never freed twice.
\<close>

theorem released_context_rejected:
  assumes "release os this m = (Val this', m')"
  shows "\<not> is_useable this'
    \<and> rule_add os' this' action n s = (Throw not_useable, s)
    \<and> load os' this' s = (Throw not_useable, s)
    \<and> reset os' this' def_action s = (Throw not_useable, s)
    \<and> release os' this' s = (Throw not_useable, s)
    \<and> (list_ex (sys_defined B) names \<longrightarrow> kill_each B os' this' names s = (Throw not_useable, s))"
proof -
  have "ctx this' = None"
    using assms by (auto simp: release_def bind_ext_app split: option.splits)
  then show ?thesis
    by (simp add: is_useable_def rule_add_def load_def reset_def release_def
        kill_each_not_useable)
qed

theorem released_context_rejected_witness:
  "load sample_os \<lparr>ctx = None\<rparr> (sample_machine :: (sec_view, nat) machine) =
     (Throw not_useable, sample_machine)"
proof -
  obtain m' where "release sample_os \<lparr>ctx = Some 5\<rparr> (sample_machine :: (sec_view, nat) machine) =
      (Val \<lparr>ctx = None\<rparr>, m')"
    by (simp add: release_def bind_ext_app)
  from released_context_rejected [OF this] show ?thesis by blast
qed

end
