(* ===== verification/Sandbox.thy ===== *)
theory Sandbox
  imports Capability_Managment Landlock Seccomp
begin

text \<open>
  The first part of \<open>main\<close> in \<open>src/main.cpp\<close>: giving up capabilities, restricting the process with
  Landlock and loading the seccomp filter, each only if it was compiled in. The call
  \<open>restrict_self(LANDLOCK_RESTRICT_SELF_LOG_NEW_EXEC_ON)\<close> has no model: \<open>LandlockRuleset\<close> declares
  no such overload, so a build that reaches it does not compile.
\<close>

subsection \<open>Model\<close>

definition main_handled_fs :: "build \<Rightarrow> u64" where
  "main_handled_fs B =
     landlock_const B ''LANDLOCK_ACCESS_FS_EXECUTE'' OR
     landlock_const B ''LANDLOCK_ACCESS_FS_WRITE_FILE'' OR
     landlock_const B ''LANDLOCK_ACCESS_FS_READ_FILE'' OR
     landlock_const B ''LANDLOCK_ACCESS_FS_TRUNCATE'' OR
     landlock_const B ''LANDLOCK_ACCESS_FS_READ_DIR'' OR
     landlock_const B ''LANDLOCK_ACCESS_FS_REMOVE_DIR'' OR
     landlock_const B ''LANDLOCK_ACCESS_FS_REMOVE_FILE'' OR
     landlock_const B ''LANDLOCK_ACCESS_FS_MAKE_CHAR'' OR
     landlock_const B ''LANDLOCK_ACCESS_FS_MAKE_DIR'' OR
     landlock_const B ''LANDLOCK_ACCESS_FS_MAKE_REG'' OR
     landlock_const B ''LANDLOCK_ACCESS_FS_MAKE_SOCK'' OR
     landlock_const B ''LANDLOCK_ACCESS_FS_MAKE_FIFO'' OR
     landlock_const B ''LANDLOCK_ACCESS_FS_MAKE_BLOCK'' OR
     landlock_const B ''LANDLOCK_ACCESS_FS_MAKE_SYM'' OR
     landlock_const B ''LANDLOCK_ACCESS_FS_REFER''"

definition main_handled_net :: "build \<Rightarrow> u64" where
  "main_handled_net B =
     landlock_const B ''LANDLOCK_ACCESS_NET_BIND_TCP'' OR
     landlock_const B ''LANDLOCK_ACCESS_NET_CONNECT_TCP''"

definition main_capabilities :: "build \<Rightarrow> ('w, 'a) os \<Rightarrow> (('w, 'a) machine, unit) prog" where
  "main_capabilities B os =
     (if have_libcapng B
      then seqM [check_for_capabilites os, lock os, drop_all_capabilies os]
      else returnM ())"

definition main_landlock :: "build \<Rightarrow> ('w, 'a) os \<Rightarrow> (('w, 'a) machine, unit) prog" where
  "main_landlock B os =
     (if have_landlock B
      then bindM (LandlockRuleset B os (main_handled_fs B) (main_handled_net B))
             (\<lambda>ruleset_init. restrict_self B os ruleset_init)
      else returnM ())"

definition main_seccomp :: "build \<Rightarrow> ('w, 'a) os \<Rightarrow> (('w, 'a) machine, unit) prog" where
  "main_seccomp B os =
     (if have_seccomp B
      then bindM (SeccompFilterContext os (scmp_act_allow B)) (\<lambda>scontext. seqM
        [kill_chown B os scontext,
         kill_clock B os scontext,
         kill_cpu_emulation B os scontext,
         kill_debug B os scontext,
         kill_others B os scontext,
         kill_ipc B os scontext,
         kill_keyring B os scontext,
         kill_memlock B os scontext,
         kill_module B os scontext,
         kill_obsolete B os scontext,
         kill_privileged B os scontext,
         kill_rawio B os scontext,
         kill_reboot B os scontext,
         kill_resources B os scontext,
         kill_setuid B os scontext,
         kill_swap B os scontext,
         kill_sync B os scontext,
         kill_system_service B os scontext,
         kill_signal B os scontext,
         load os scontext])
      else returnM ())"

definition sandbox :: "build \<Rightarrow> ('w, 'a) os \<Rightarrow> (('w, 'a) machine, unit) prog" where
  "sandbox B os = seqM [main_capabilities B os, main_landlock B os, main_seccomp B os]"

text \<open>The names of all the system calls that \<open>main\<close> forbids, in its order.\<close>

definition main_blacklist :: "string list" where
  "main_blacklist =
     chown_syscalls @ clock_syscalls @ cpu_emulation_syscalls @ debug_syscalls @ others_syscalls
   @ ipc_syscalls @ keyring_syscalls @ memlock_syscalls @ module_syscalls @ obsolete_syscalls
   @ privileged_syscalls @ rawio_syscalls @ reboot_syscalls @ resources_syscalls
   @ setuid_syscalls @ swap_syscalls @ sync_syscalls @ system_service_syscalls
   @ signal_syscalls"

subsection \<open>Specification: what the libraries promise\<close>

text \<open>
  The documented effect of each successful call, on a view of the world. A call that fails may do
  anything, except that a rule which libseccomp refuses leaves the filter as it was.
\<close>

definition capng_laws :: "('w, 'a) os \<Rightarrow> ('w \<Rightarrow> sec_view) \<Rightarrow> bool" where
  "capng_laws os view \<longleftrightarrow>
     (\<forall>set cap w. view (snd (capng_have_capability os set cap w)) = view w)
   \<and> (\<forall>w w'. capng_lock os w = (0, w') \<longrightarrow> view w' = (view w)\<lparr>no_new_privs := True\<rparr>)
   \<and> (\<forall>w. view (snd (capng_clear os ''CAPNG_SELECT_ALL'' w)) = (view w)\<lparr>pending_caps := {}\<rparr>)
   \<and> (\<forall>w w'. capng_apply os ''CAPNG_SELECT_ALL'' w = (0, w') \<longrightarrow>
        view w' = (view w)\<lparr>caps := pending_caps (view w)\<rparr>)"

definition landlock_laws :: "build \<Rightarrow> ('w, 'a) os \<Rightarrow> ('w \<Rightarrow> sec_view) \<Rightarrow> bool" where
  "landlock_laws B os view \<longleftrightarrow>
     (\<forall>n flags w. view (snd (create_ruleset_fn B os None n flags w)) = view w)
   \<and> (\<forall>attr w fd w'.
        create_ruleset_fn B os (Some attr) (landlock_attr_size B) 0 w = (fd, w') \<longrightarrow> fd \<noteq> -1 \<longrightarrow>
        view w' = (view w)\<lparr>rulesets := (rulesets (view w))(fd \<mapsto> attr)\<rparr>)
   \<and> (\<forall>fd attr w w'. restrict_self_fn B os fd 0 w = (0, w') \<longrightarrow>
        rulesets (view w) fd = Some attr \<longrightarrow>
        view w' = (view w)\<lparr>domains := attr # domains (view w)\<rparr>)"

definition seccomp_laws :: "('w, 'a) os \<Rightarrow> ('w \<Rightarrow> sec_view) \<Rightarrow> bool" where
  "seccomp_laws os view \<longleftrightarrow>
     (\<forall>def w c w'. seccomp_init os def w = (Some c, w') \<longrightarrow>
        view w' = (view w)\<lparr>contexts := (contexts (view w))(c \<mapsto> (def, []))\<rparr>)
   \<and> (\<forall>c action n w r w' def rules. seccomp_rule_add os c action n w = (r, w') \<longrightarrow>
        contexts (view w) c = Some (def, rules) \<longrightarrow>
        view w' = (if r = 0
          then (view w)\<lparr>contexts := (contexts (view w))(c \<mapsto> (def, rules @ [(action, n)]))\<rparr>
          else view w))
   \<and> (\<forall>c w w' f. seccomp_load os c w = (0, w') \<longrightarrow> contexts (view w) c = Some f \<longrightarrow>
        view w' = (view w)\<lparr>loaded := f # loaded (view w), no_new_privs := True\<rparr>)"

text \<open>
  libseccomp may refuse a rule for many reasons. In the good case it refuses only what the filter
  has already: the black list names some system calls twice.
\<close>

definition refuses_only_duplicates :: "('w, 'a) os \<Rightarrow> ('w \<Rightarrow> sec_view) \<Rightarrow> bool" where
  "refuses_only_duplicates os view \<longleftrightarrow>
     (\<forall>c action n w def rules. contexts (view w) c = Some (def, rules) \<longrightarrow>
        fst (seccomp_rule_add os c action n w) \<noteq> 0 \<longrightarrow> (action, n) \<in> set rules)"

text \<open>The rules that libseccomp accepts while it is given those for the named system calls.\<close>

fun accepted_rules ::
    "build \<Rightarrow> ('w, 'a) os \<Rightarrow> nat \<Rightarrow> string list \<Rightarrow> 'w \<Rightarrow> (u32 \<times> int) list" where
  "accepted_rules B os c [] w = []"
| "accepted_rules B os c (name # names) w =
     (if sys_defined B name
      then
        (let (r, w') = seccomp_rule_add os c (scmp_act_kill B) (scmp_sys B name) w
         in (if r = 0 then [(scmp_act_kill B, scmp_sys B name)] else [])
          @ accepted_rules B os c names w')
      else accepted_rules B os c names w)"

text \<open>Those it accepts while \<open>main\<close> fills its filter.\<close>

definition seccomp_accepted ::
    "build \<Rightarrow> ('w, 'a) os \<Rightarrow> ('w, 'a) machine \<Rightarrow> (u32 \<times> int) list" where
  "seccomp_accepted B os m =
     (case seccomp_init os (scmp_act_allow B) (world m) of
        (Some c, w) \<Rightarrow> accepted_rules B os c main_blacklist w
      | _ \<Rightarrow> [])"

definition before_seccomp :: "build \<Rightarrow> ('w, 'a) os \<Rightarrow> ('w, 'a) machine \<Rightarrow> ('w, 'a) machine" where
  "before_seccomp B os m = snd (thenM (main_capabilities B os) (main_landlock B os) m)"

text \<open>
  The Linux kernel refuses Landlock to a process that could still gain privileges, unless it has
  \<open>CAP_SYS_ADMIN\<close>.
\<close>

definition landlock_needs_nnp :: "build \<Rightarrow> ('w, 'a) os \<Rightarrow> ('w \<Rightarrow> sec_view) \<Rightarrow> bool" where
  "landlock_needs_nnp B os view \<longleftrightarrow>
     (\<forall>fd w. \<not> no_new_privs (view w) \<and> ''CAP_SYS_ADMIN'' \<notin> caps (view w) \<longrightarrow>
        fst (restrict_self_fn B os fd 0 w) \<noteq> 0)"

text \<open>The action a loaded filter takes on a system call: that of its rule, else the default.\<close>

fun decision :: "filter \<Rightarrow> int \<Rightarrow> u32" where
  "decision (def, rules) n =
     (case find (\<lambda>(_, k). k = n) rules of Some (action, _) \<Rightarrow> action | None \<Rightarrow> def)"

subsection \<open>The instance satisfies the laws\<close>

lemma sample_laws:
  "capng_laws sample_os id" "landlock_laws sample_build sample_os id"
  "seccomp_laws sample_os id" "refuses_only_duplicates sample_os id"
  "landlock_needs_nnp sample_build sample_os id"
  by (auto simp: capng_laws_def landlock_laws_def seccomp_laws_def refuses_only_duplicates_def
      landlock_needs_nnp_def sample_os_def create_ruleset_fn_def restrict_self_fn_def
      sample_build_def sample_create_ruleset_def sample_restrict_self_def split: option.splits if_splits)

subsection \<open>The calls of a completed sandbox\<close>

lemma appends_sandbox [appends_intros]: "appends sandbox_call (sandbox B os)"
proof -
  have "appends sandbox_call (main_capabilities B os)"
    and "appends sandbox_call (main_landlock B os)"
    and "appends sandbox_call (main_seccomp B os)"
    by (auto simp: main_capabilities_def main_landlock_def main_seccomp_def group_eqs
        intro!: appends_intros)
  then show ?thesis
    by (auto simp: sandbox_def intro!: appends_intros)
qed

lemma thenM_assoc: "thenM (thenM f g) h = thenM f (thenM g h)"
  by (simp add: thenM_def bindM_assoc)

text \<open>The nineteen groups are one list of conditional kills.\<close>

lemma main_seccomp_eq:
  "main_seccomp B os =
     (if have_seccomp B
      then bindM (SeccompFilterContext os (scmp_act_allow B)) (\<lambda>scontext.
             thenM (kill_each B os scontext main_blacklist) (load os scontext))
      else returnM ())"
proof -
  have "thenM (load os scontext) (returnM ()) = load os scontext" for scontext
    by (rule ext)
      (auto simp: thenM_def load_def bindM_def ext_app throw_errno_def
        split: option.split prod.split outcome.split)
  then show ?thesis
    by (simp add: main_seccomp_def main_blacklist_def group_eqs kill_each_append thenM_assoc)
qed

lemma main_seccomp_Val:
  assumes "have_seccomp B"
  shows "main_seccomp B os m = (Val u, m') \<longleftrightarrow>
    (\<exists>c w1 w2. seccomp_init os (scmp_act_allow B) (world m) = (Some c, w1)
       \<and> seccomp_load os c (kill_effect B os c main_blacklist w1) = (0, w2)
       \<and> m' = m\<lparr>world := w2, calls := calls m @ Seccomp_init (scmp_act_allow B)
            # kill_rules B c main_blacklist @ [Seccomp_load c]\<rparr>)"
proof (cases "seccomp_init os (scmp_act_allow B) (world m)")
  case (Pair r w1)
  show ?thesis
  proof (cases r)
    case None
    with Pair assms show ?thesis
      by (simp add: main_seccomp_eq SeccompFilterContext_def bindM_assoc bind_ext_app)
        (simp add: bindM_def throw_errno_def)
  next
    case (Some c)
    obtain l w2 where "seccomp_load os c (kill_effect B os c main_blacklist w1) = (l, w2)"
      by fastforce
    with Pair Some assms show ?thesis
      by (auto simp: main_seccomp_eq SeccompFilterContext_def bindM_assoc bind_ext_app
          outcome_simps thenM_def kill_each_useable load_def)
  qed
qed

lemma main_capabilities_Val:
  assumes "have_libcapng B" and "main_capabilities B os m = (Val u, m')"
  obtains w1 w2 w3 where
    "capng_have_capability os ''CAPNG_PERMITTED'' ''CAP_SETPCAP'' (world m) = (1, w1)"
    and "capng_lock os w1 = (0, w2)"
    and "capng_apply os ''CAPNG_SELECT_ALL'' (snd (capng_clear os ''CAPNG_SELECT_ALL'' w2)) = (0, w3)"
    and "m' = m\<lparr>world := w3, calls := calls m @
      [Capng_have_capability ''CAPNG_PERMITTED'' ''CAP_SETPCAP'', Capng_lock,
       Capng_clear ''CAPNG_SELECT_ALL'', Capng_apply ''CAPNG_SELECT_ALL'']\<rparr>"
  using assms
  by (auto simp: main_capabilities_def thenM_eq_Val check_for_capabilites_Val lock_Val
      drop_all_capabilies_Val)

lemma main_landlock_Val:
  assumes "have_landlock B" and "main_landlock B os m = (Val u, m')"
  obtains v w1 fd w2 w3 where
    "version_query B os (world m) = (v, w1)" and "6 \<le> v"
    and "create_ruleset_fn B os (Some (ruleset_attr (main_handled_fs B) (main_handled_net B)))
           (landlock_attr_size B) 0 w1 = (fd, w2)" and "fd \<noteq> -1"
    and "restrict_self_fn B os fd 0 w2 = (0, w3)"
    and "m' = m\<lparr>world := w3, calls := calls m @
      [Landlock_create_ruleset None 0 (ucast (landlock_const B ''LANDLOCK_CREATE_RULESET_VERSION'')),
       Landlock_create_ruleset (Some (ruleset_attr (main_handled_fs B) (main_handled_net B)))
         (landlock_attr_size B) 0,
       Landlock_restrict_self fd 0]\<rparr>"
  using assms
  by (auto simp: main_landlock_def bindM_eq_Val LandlockRuleset_Val restrict_self_Val)

subsection \<open>The confinement\<close>

lemma kill_effect_Cons:
  "kill_effect B os c (name # names) w =
     (if sys_defined B name
      then kill_effect B os c names (snd (seccomp_rule_add os c (scmp_act_kill B) (scmp_sys B name) w))
      else kill_effect B os c names w)"
  by (simp add: kill_effect_def)

lemma kill_effect_view:
  assumes "seccomp_laws os view" and "contexts (view w) c = Some (def, rules)"
  shows "view (kill_effect B os c names w) = (view w)\<lparr>contexts := (contexts (view w))(c \<mapsto>
    (def, rules @ accepted_rules B os c names w))\<rparr>"
  using assms(2)
proof (induction names arbitrary: w rules)
  case Nil
  then show ?case by (simp add: kill_effect_def fun_upd_idem)
next
  case (Cons n ns)
  show ?case
  proof (cases "sys_defined B n")
    case True
    obtain r w' where add: "seccomp_rule_add os c (scmp_act_kill B) (scmp_sys B n) w = (r, w')"
      by fastforce
    then have v: "view w' = (if r = 0
        then (view w)\<lparr>contexts := (contexts (view w))(c \<mapsto>
          (def, rules @ [(scmp_act_kill B, scmp_sys B n)]))\<rparr> else view w)"
      using assms(1) Cons.prems by (simp add: seccomp_laws_def)
    then show ?thesis
      using Cons.IH [of w' "rules @ (if r = 0 then [(scmp_act_kill B, scmp_sys B n)] else [])"]
        Cons.prems True add
      by (simp add: kill_effect_Cons fun_upd_same del: fun_upd_apply split: if_splits)
  next
    case False
    then show ?thesis using Cons by (simp add: kill_effect_Cons)
  qed
qed

lemma accepted_rules_blacklist:
  "set (accepted_rules B os c names w) \<subseteq>
     {(scmp_act_kill B, scmp_sys B name) | name. name \<in> set names \<and> sys_defined B name}"
  by (induction names arbitrary: w) (force split: prod.splits if_splits)+

lemma accepted_rules_refused:
  "\<forall>c action n w. fst (seccomp_rule_add os c action n w) \<noteq> 0 \<Longrightarrow> accepted_rules B os c names w = []"
  by (induction names arbitrary: w) (auto split: prod.splits, metis fst_conv)

text \<open>If only duplicates are refused, every rule is in the filter at the end.\<close>

lemma accepted_rules_complete:
  assumes "seccomp_laws os view" and "refuses_only_duplicates os view"
    and "contexts (view w) c = Some (def, rules)"
    and "name \<in> set names" and "sys_defined B name"
  shows "(scmp_act_kill B, scmp_sys B name) \<in> set (rules @ accepted_rules B os c names w)"
  using assms(3,4)
proof (induction names arbitrary: w rules)
  case (Cons n ns)
  show ?case
  proof (cases "sys_defined B n")
    case True
    obtain r w' where add: "seccomp_rule_add os c (scmp_act_kill B) (scmp_sys B n) w = (r, w')"
      by fastforce
    define new where "new = rules @ (if r = 0 then [(scmp_act_kill B, scmp_sys B n)] else [])"
    have "contexts (view w') c = Some (def, new)"
      using assms(1) Cons.prems(1) add by (auto simp: seccomp_laws_def new_def)
    moreover have "(scmp_act_kill B, scmp_sys B n) \<in> set new"
      using assms(2) Cons.prems(1) add by (fastforce simp: refuses_only_duplicates_def new_def)
    ultimately have "(scmp_act_kill B, scmp_sys B name) \<in> set (new @ accepted_rules B os c ns w')"
      using Cons.IH [of w' new] Cons.prems(2) by auto
    with True add show ?thesis by (auto simp: new_def)
  next
    case False
    then show ?thesis using Cons assms(5) by auto
  qed
qed simp

lemma capng_lawsD:
  assumes "capng_laws os view"
  shows "capng_have_capability os which cap w = (r, w1) \<Longrightarrow> view w1 = view w"
    and "capng_lock os w = (0, w2) \<Longrightarrow> view w2 = (view w)\<lparr>no_new_privs := True\<rparr>"
    and "view (snd (capng_clear os ''CAPNG_SELECT_ALL'' w)) = (view w)\<lparr>pending_caps := {}\<rparr>"
    and "capng_apply os ''CAPNG_SELECT_ALL'' w = (0, w3) \<Longrightarrow>
      view w3 = (view w)\<lparr>caps := pending_caps (view w)\<rparr>"
proof -
  show "capng_have_capability os which cap w = (r, w1) \<Longrightarrow> view w1 = view w"
    using assms unfolding capng_laws_def by (drule_tac conjunct1) (metis snd_conv)
qed (use assms in \<open>simp_all add: capng_laws_def\<close>)

lemma landlock_lawsD:
  assumes "landlock_laws B os view"
  shows "create_ruleset_fn B os None n flags w = (r, w1) \<Longrightarrow> view w1 = view w"
    and "create_ruleset_fn B os (Some attr) (landlock_attr_size B) 0 w = (fd, w2) \<Longrightarrow> fd \<noteq> -1 \<Longrightarrow>
      view w2 = (view w)\<lparr>rulesets := (rulesets (view w))(fd \<mapsto> attr)\<rparr>"
    and "restrict_self_fn B os fd 0 w = (0, w3) \<Longrightarrow> rulesets (view w) fd = Some attr \<Longrightarrow>
      view w3 = (view w)\<lparr>domains := attr # domains (view w)\<rparr>"
proof -
  show "create_ruleset_fn B os None n flags w = (r, w1) \<Longrightarrow> view w1 = view w"
    using assms unfolding landlock_laws_def by (drule_tac conjunct1) (metis snd_conv)
qed (use assms in \<open>simp_all add: landlock_laws_def\<close>)

lemma main_capabilities_view:
  assumes "capng_laws os view" and "have_libcapng B" and "main_capabilities B os m = (Val u, m')"
  shows "view (world m') = (view (world m))\<lparr>caps := {}, pending_caps := {}, no_new_privs := True\<rparr>"
proof -
  obtain w1 w2 w3 where
    1: "capng_have_capability os ''CAPNG_PERMITTED'' ''CAP_SETPCAP'' (world m) = (1, w1)"
    and 2: "capng_lock os w1 = (0, w2)"
    and 3: "capng_apply os ''CAPNG_SELECT_ALL'' (snd (capng_clear os ''CAPNG_SELECT_ALL'' w2)) = (0, w3)"
    and m': "world m' = w3"
    using assms(2,3) by (rule main_capabilities_Val) simp
  have "view w1 = view (world m)"
    using assms(1) 1 by (rule capng_lawsD(1))
  moreover have "view w2 = (view w1)\<lparr>no_new_privs := True\<rparr>"
    using assms(1) 2 by (rule capng_lawsD(2))
  moreover have "view (snd (capng_clear os ''CAPNG_SELECT_ALL'' w2)) = (view w2)\<lparr>pending_caps := {}\<rparr>"
    using assms(1) by (rule capng_lawsD(3))
  moreover have "view w3 = (view (snd (capng_clear os ''CAPNG_SELECT_ALL'' w2)))
      \<lparr>caps := pending_caps (view (snd (capng_clear os ''CAPNG_SELECT_ALL'' w2)))\<rparr>"
    using assms(1) 3 by (rule capng_lawsD(4))
  ultimately show ?thesis by (simp add: m')
qed

lemma main_landlock_view:
  assumes "landlock_laws B os view" and "have_landlock B" and "main_landlock B os m = (Val u, m')"
  shows "\<exists>fd. view (world m') = (view (world m))
    \<lparr>rulesets := (rulesets (view (world m)))
       (fd \<mapsto> ruleset_attr (main_handled_fs B) (main_handled_net B)),
     domains := ruleset_attr (main_handled_fs B) (main_handled_net B) # domains (view (world m))\<rparr>"
proof -
  let ?attr = "ruleset_attr (main_handled_fs B) (main_handled_net B)"
  obtain v w1 fd w2 w3 where
    1: "version_query B os (world m) = (v, w1)"
    and 2: "create_ruleset_fn B os (Some ?attr) (landlock_attr_size B) 0 w1 = (fd, w2)" "fd \<noteq> -1"
    and 3: "restrict_self_fn B os fd 0 w2 = (0, w3)" and m': "world m' = w3"
    using assms(2,3) by (rule main_landlock_Val) simp
  have "view w1 = view (world m)"
    using assms(1) 1 by (rule landlock_lawsD(1))
  moreover have v2: "view w2 = (view w1)\<lparr>rulesets := (rulesets (view w1))(fd \<mapsto> ?attr)\<rparr>"
    using assms(1) 2 by (rule landlock_lawsD(2))
  moreover have "view w3 = (view w2)\<lparr>domains := ?attr # domains (view w2)\<rparr>"
    using assms(1) 3 v2 by (simp add: landlock_lawsD(3))
  ultimately have "view (world m') = (view (world m))
    \<lparr>rulesets := (rulesets (view (world m)))(fd \<mapsto> ?attr),
     domains := ?attr # domains (view (world m))\<rparr>"
    by (simp add: m')
  then show ?thesis by blast
qed

lemma main_seccomp_view:
  assumes "seccomp_laws os view" and "have_seccomp B" and "main_seccomp B os m = (Val u, m')"
  shows "\<exists>c. view (world m') = (view (world m))
    \<lparr>contexts := (contexts (view (world m)))(c \<mapsto> (scmp_act_allow B, seccomp_accepted B os m)),
     loaded := (scmp_act_allow B, seccomp_accepted B os m) # loaded (view (world m)),
     no_new_privs := True\<rparr>"
proof -
  let ?f = "(scmp_act_allow B, seccomp_accepted B os m)"
  obtain c w1 w2 where
    1: "seccomp_init os (scmp_act_allow B) (world m) = (Some c, w1)"
    and 2: "seccomp_load os c (kill_effect B os c main_blacklist w1) = (0, w2)"
    and m': "world m' = w2"
    using assms(2,3) by (auto simp: main_seccomp_Val)
  let ?k = "kill_effect B os c main_blacklist w1"
  have v1: "view w1 = (view (world m))
      \<lparr>contexts := (contexts (view (world m)))(c \<mapsto> (scmp_act_allow B, []))\<rparr>"
    using assms(1) 1 by (simp add: seccomp_laws_def)
  then have v: "view ?k = (view w1)\<lparr>contexts := (contexts (view w1))(c \<mapsto> ?f)\<rparr>"
    using kill_effect_view [OF assms(1), of w1 c "scmp_act_allow B" "[]" B main_blacklist] 1
    by (simp add: seccomp_accepted_def)
  have "view w2 = (view ?k)\<lparr>loaded := ?f # loaded (view ?k), no_new_privs := True\<rparr>"
    using assms(1) 2 v by (simp add: seccomp_laws_def)
  with v v1 have "view (world m') = (view (world m))
    \<lparr>contexts := (contexts (view (world m)))(c \<mapsto> ?f),
     loaded := ?f # loaded (view (world m)), no_new_privs := True\<rparr>"
    by (simp add: m')
  then show ?thesis by blast
qed

lemma find_kill_rule:
  "\<forall>rule \<in> set rules. fst rule = a \<Longrightarrow>
    find (\<lambda>(_, k). k = n) rules = (if (a, n) \<in> set rules then Some (a, n) else None)"
  by (induction rules) auto

lemma seccomp_accepted_blacklist:
  "set (seccomp_accepted B os m) \<subseteq>
     {(scmp_act_kill B, scmp_sys B name) | name. name \<in> set main_blacklist \<and> sys_defined B name}"
  by (cases "seccomp_init os (scmp_act_allow B) (world m)"; cases "fst (seccomp_init os (scmp_act_allow B) (world m))")
    (simp_all add: seccomp_accepted_def accepted_rules_blacklist)

lemma decision_accepted:
  "decision (scmp_act_allow B, seccomp_accepted B os m) n =
     (if (scmp_act_kill B, n) \<in> set (seccomp_accepted B os m)
      then scmp_act_kill B else scmp_act_allow B)"
  using seccomp_accepted_blacklist [of B os m]
  by (subst decision.simps, subst find_kill_rule [where a = "scmp_act_kill B"]) auto

lemma seccomp_accepted_complete:
  assumes "seccomp_laws os view" and "refuses_only_duplicates os view" and "have_seccomp B"
    and "main_seccomp B os m = (Val u, m')"
    and "name \<in> set main_blacklist" and "sys_defined B name"
  shows "(scmp_act_kill B, scmp_sys B name) \<in> set (seccomp_accepted B os m)"
proof -
  obtain c w1 where 1: "seccomp_init os (scmp_act_allow B) (world m) = (Some c, w1)"
    using assms(3,4) by (auto simp: main_seccomp_Val)
  then have "contexts (view w1) c = Some (scmp_act_allow B, [])"
    using assms(1) by (simp add: seccomp_laws_def)
  from accepted_rules_complete [OF assms(1,2) this assms(5,6)] 1 show ?thesis
    by (simp add: seccomp_accepted_def)
qed

lemma sandbox_Val_cases:
  assumes "sandbox B os m = (Val u, m')"
  obtains m1 m2 where "main_capabilities B os m = (Val (), m1)"
    and "main_landlock B os m1 = (Val (), m2)" and "main_seccomp B os m2 = (Val (), m')"
  using assms by (auto simp: sandbox_def thenM_eq_Val)

lemma before_seccomp_eq:
  "main_capabilities B os m = (Val (), m1) \<Longrightarrow> main_landlock B os m1 = (Val (), m2) \<Longrightarrow>
    before_seccomp B os m = m2"
  by (simp add: before_seccomp_def thenM_def bindM_def)

text \<open>
  The process is confined: it has no capabilities and cannot gain privileges, a Landlock domain
  with the rights of \<open>main\<close> is enforced, and a filter is loaded that kills on exactly the system
  calls for which there is one of the given rules, and allows all others.
\<close>

definition confined :: "build \<Rightarrow> (u32 \<times> int) list \<Rightarrow> sec_view \<Rightarrow> bool" where
  "confined B rules v \<longleftrightarrow> caps v = {} \<and> no_new_privs v
    \<and> ruleset_attr (main_handled_fs B) (main_handled_net B) \<in> set (domains v)
    \<and> (\<exists>f \<in> set (loaded v). \<forall>n. decision f n =
        (if (scmp_act_kill B, n) \<in> set rules then scmp_act_kill B else scmp_act_allow B))"

lemma sandbox_confined:
  assumes "sandbox B os m = (Val (), m')"
    and "have_libcapng B" and "have_landlock B" and "have_seccomp B"
    and "capng_laws os view" and "landlock_laws B os view" and "seccomp_laws os view"
  shows "confined B (seccomp_accepted B os (before_seccomp B os m)) (view (world m'))"
    and "refuses_only_duplicates os view \<Longrightarrow> name \<in> set main_blacklist \<Longrightarrow> sys_defined B name \<Longrightarrow>
      (scmp_act_kill B, scmp_sys B name) \<in> set (seccomp_accepted B os (before_seccomp B os m))"
proof -
  obtain m1 m2 where m1: "main_capabilities B os m = (Val (), m1)"
    and m2: "main_landlock B os m1 = (Val (), m2)" and m': "main_seccomp B os m2 = (Val (), m')"
    using assms(1) by (rule sandbox_Val_cases)
  note v1 = main_capabilities_view [OF assms(5,2) m1] and before = before_seccomp_eq [OF m1 m2]
  obtain fd where v2: "view (world m2) = (view (world m1))
    \<lparr>rulesets := (rulesets (view (world m1)))
       (fd \<mapsto> ruleset_attr (main_handled_fs B) (main_handled_net B)),
     domains := ruleset_attr (main_handled_fs B) (main_handled_net B) # domains (view (world m1))\<rparr>"
    using main_landlock_view [OF assms(6,3) m2] by blast
  obtain c where "view (world m') = (view (world m2))
    \<lparr>contexts := (contexts (view (world m2)))(c \<mapsto> (scmp_act_allow B, seccomp_accepted B os m2)),
     loaded := (scmp_act_allow B, seccomp_accepted B os m2) # loaded (view (world m2)),
     no_new_privs := True\<rparr>"
    using main_seccomp_view [OF assms(7,4) m'] by blast
  with v1 v2 show "confined B (seccomp_accepted B os (before_seccomp B os m)) (view (world m'))"
    by (simp add: confined_def before decision_accepted del: decision.simps)
  show "(scmp_act_kill B, scmp_sys B name) \<in> set (seccomp_accepted B os (before_seccomp B os m))"
    if "refuses_only_duplicates os view" "name \<in> set main_blacklist" "sys_defined B name"
    using seccomp_accepted_complete [OF assms(7) that(1) assms(4) m' that(2,3)] by (simp add: before)
qed

subsection \<open>The sandbox returns or throws\<close>

lemma ends_well_kill_each [ends_well_intros]: "ends_well (kill_each B os scontext names)"
  by (auto simp: kill_each_def kill_ifdef_def kill_def rule_add_def
      intro!: ends_well_intros split: option.split)

lemma ends_well_seccomp [ends_well_intros]:
  "ends_well (SeccompFilterContext os def)" "ends_well (load os scontext)"
  by (auto simp: SeccompFilterContext_def load_def intro!: ends_well_intros split: option.split)

lemma ends_well_sandbox: "ends_well (sandbox B os)"
  by (auto simp: sandbox_def main_capabilities_def main_landlock_def main_seccomp_eq lock_def
      check_for_capabilites_def drop_all_capabilies_def LandlockRuleset_def abi_version_def
      landlock_create_ruleset_def restrict_self_def landlock_restrict_self_def Let_def
      intro!: ends_well_intros)

subsection \<open>The instance passes the sandbox\<close>

lemma sample_main_seccomp:
  fixes m :: "(sec_view, 'a) machine"
  shows "\<exists>m'. main_seccomp sample_build sample_os m = (Val (), m')"
proof -
  let ?os = "sample_os :: (sec_view, 'a) os"
  let ?w = "(world m)\<lparr>contexts := (contexts (world m))(5 \<mapsto> (scmp_act_allow sample_build, []))\<rparr>"
  have init: "seccomp_init ?os (scmp_act_allow sample_build) (world m) = (Some 5, ?w)"
    by (simp add: sample_os_def)
  have "contexts (kill_effect sample_build ?os 5 main_blacklist ?w) 5 =
      Some (scmp_act_allow sample_build, accepted_rules sample_build ?os 5 main_blacklist ?w)"
    using kill_effect_view [of ?os id ?w 5 "scmp_act_allow sample_build" "[]"
        sample_build main_blacklist]
    by (simp add: sample_laws)
  then have "\<exists>w2. seccomp_load ?os 5 (kill_effect sample_build ?os 5 main_blacklist ?w) = (0, w2)"
    by (simp add: sample_os_def)
  with init show ?thesis by (auto simp: main_seccomp_Val)
qed

lemma sample_main_landlock:
  assumes "no_new_privs (world m)"
  shows "\<exists>m'. main_landlock sample_build sample_os m = (Val (), m')"
proof -
  let ?attr = "ruleset_attr (main_handled_fs sample_build) (main_handled_net sample_build)"
  let ?m = "m\<lparr>world := (world m)\<lparr>rulesets := (rulesets (world m))(3 \<mapsto> ?attr)\<rparr>,
    calls := calls m @ [Landlock_create_ruleset None 0
        (ucast (landlock_const sample_build ''LANDLOCK_CREATE_RULESET_VERSION'')),
      Landlock_create_ruleset (Some ?attr) (landlock_attr_size sample_build) 0]\<rparr>"
  have "LandlockRuleset sample_build sample_os (main_handled_fs sample_build)
      (main_handled_net sample_build) m = (Val \<lparr>ruleset = 3\<rparr>, ?m)"
    by (simp add: LandlockRuleset_Val create_ruleset_fn_def)
      (simp add: sample_os_def sample_build_def sample_create_ruleset_def
        sample_restrict_self_def)
  moreover have "\<exists>m'. restrict_self sample_build sample_os \<lparr>ruleset = 3\<rparr> ?m = (Val (), m')"
    using assms by (simp add: restrict_self_Val restrict_self_fn_def)
      (simp add: sample_os_def sample_build_def sample_create_ruleset_def
        sample_restrict_self_def)
  ultimately show ?thesis
    by (simp add: main_landlock_def bindM_Val)
qed

lemma sample_main_capabilities:
  "\<exists>m'. main_capabilities sample_build sample_os sample_machine = (Val (), m')
    \<and> no_new_privs (world m')"
  by (simp add: main_capabilities_def sample_machine_def thenM_def lock_def
      check_for_capabilites_def drop_all_capabilies_def bindM_assoc bind_ext_app sample_os_def
      sample_world_def outcome_simps)

lemma sample_sandbox: "\<exists>m'. sandbox sample_build sample_os sample_machine = (Val (), m')"
  using sample_main_capabilities sample_main_landlock sample_main_seccomp
  unfolding sandbox_def seqM.simps thenM_eq_Val by (metis returnM_app)

subsection \<open>Properties\<close>

text \<open>
  C19: The order of the confinement. When all three mechanisms are compiled in and \<open>sandbox\<close>
  succeeds, the process has checked and locked its capabilities, dropped them, queried the
  Landlock ABI, created and enforced the ruleset, and initialized, filled and loaded the seccomp
  filter, in exactly this order and with no other call in between.
\<close>

theorem sandbox_call_order:
  assumes "sandbox B os m = (Val (), m')"
    and "have_libcapng B" and "have_landlock B" and "have_seccomp B"
  shows "\<exists>fd c. calls m' = calls m
    @ [Capng_have_capability ''CAPNG_PERMITTED'' ''CAP_SETPCAP'', Capng_lock,
       Capng_clear ''CAPNG_SELECT_ALL'', Capng_apply ''CAPNG_SELECT_ALL'']
    @ [Landlock_create_ruleset None 0 (ucast (landlock_const B ''LANDLOCK_CREATE_RULESET_VERSION'')),
       Landlock_create_ruleset (Some (ruleset_attr (main_handled_fs B) (main_handled_net B)))
         (landlock_attr_size B) 0,
       Landlock_restrict_self fd 0]
    @ [Seccomp_init (scmp_act_allow B)] @ kill_rules B c main_blacklist @ [Seccomp_load c]"
proof -
  obtain m1 m2 where m1: "main_capabilities B os m = (Val (), m1)"
    and m2: "main_landlock B os m1 = (Val (), m2)" and m': "main_seccomp B os m2 = (Val (), m')"
    using assms(1) by (rule sandbox_Val_cases)
  have "calls m1 = calls m @ [Capng_have_capability ''CAPNG_PERMITTED'' ''CAP_SETPCAP'',
      Capng_lock, Capng_clear ''CAPNG_SELECT_ALL'', Capng_apply ''CAPNG_SELECT_ALL'']"
    using assms(2) m1 by (rule main_capabilities_Val) simp
  moreover obtain fd where "calls m2 = calls m1 @
      [Landlock_create_ruleset None 0 (ucast (landlock_const B ''LANDLOCK_CREATE_RULESET_VERSION'')),
       Landlock_create_ruleset (Some (ruleset_attr (main_handled_fs B) (main_handled_net B)))
         (landlock_attr_size B) 0, Landlock_restrict_self fd 0]"
    using assms(3) m2 by (rule main_landlock_Val) simp
  moreover obtain c where "calls m' = calls m2 @ Seccomp_init (scmp_act_allow B)
      # kill_rules B c main_blacklist @ [Seccomp_load c]"
    using assms(4) m' by (auto simp: main_seccomp_Val)
  ultimately show ?thesis by (intro exI [of _ fd] exI [of _ c]) simp
qed

theorem sandbox_call_order_witness:
  "\<exists>m' fd c. sandbox sample_build sample_os (sample_machine :: (sec_view, nat) machine) = (Val (), m')
    \<and> take 2 (calls m') =
      [Capng_have_capability ''CAPNG_PERMITTED'' ''CAP_SETPCAP'', Capng_lock]
    \<and> last (calls m') = Seccomp_load c"
proof -
  obtain m' where
    m': "sandbox sample_build sample_os (sample_machine :: (sec_view, nat) machine) = (Val (), m')"
    using sample_sandbox by blast
  have "calls (sample_machine :: (sec_view, nat) machine) = []"
    by (simp add: sample_machine_def)
  with sandbox_call_order [OF m'] m' show ?thesis by auto
qed

text \<open>
  C9: What the confinement achieves. If libcap-ng, Landlock and libseccomp do what they document
  of a call that succeeds, a process that passes \<open>sandbox\<close> has no capability left, cannot gain
  privileges, is restricted by a Landlock ruleset with the access rights of \<open>main\<close>, and runs under
  a seccomp filter that kills it on exactly the system calls whose rule libseccomp accepted and
  allows all others. No system call outside the black list is killed; and if libseccomp refuses
  only rules that the filter already has, every system call of the black list that the platform
  has is killed.
\<close>

theorem sandbox_confines:
  assumes "sandbox B os m = (Val (), m')"
    and "have_libcapng B" and "have_landlock B" and "have_seccomp B"
    and "capng_laws os view" and "landlock_laws B os view" and "seccomp_laws os view"
  shows "let accepted = set (seccomp_accepted B os (before_seccomp B os m)); v = view (world m')
    in caps v = {} \<and> no_new_privs v
     \<and> ruleset_attr (main_handled_fs B) (main_handled_net B) \<in> set (domains v)
     \<and> (\<exists>f \<in> set (loaded v). \<forall>n. decision f n =
          (if (scmp_act_kill B, n) \<in> accepted then scmp_act_kill B else scmp_act_allow B))
     \<and> accepted \<subseteq>
         {(scmp_act_kill B, scmp_sys B name) | name. name \<in> set main_blacklist \<and> sys_defined B name}
     \<and> (refuses_only_duplicates os view \<longrightarrow>
         (\<forall>name \<in> set main_blacklist. sys_defined B name \<longrightarrow>
            (scmp_act_kill B, scmp_sys B name) \<in> accepted))"
  using sandbox_confined [OF assms] seccomp_accepted_blacklist [of B os "before_seccomp B os m"]
  by (simp add: confined_def Let_def del: decision.simps)

theorem sandbox_confines_witness:
  "\<exists>m'. sandbox sample_build sample_os (sample_machine :: (sec_view, nat) machine) = (Val (), m')
    \<and> caps (world m') = {} \<and> no_new_privs (world m')
    \<and> (\<exists>f \<in> set (loaded (world m')). decision f (scmp_sys sample_build ''ptrace'') = scmp_act_kill sample_build)"
proof -
  obtain m' where
    m': "sandbox sample_build sample_os (sample_machine :: (sec_view, nat) machine) = (Val (), m')"
    using sample_sandbox by blast
  have "''ptrace'' \<in> set main_blacklist" and "sys_defined sample_build ''ptrace''"
    by (simp_all add: main_blacklist_def others_syscalls_def sample_build_def)
  moreover from sandbox_confines [OF m' _ _ _ sample_laws(1-3)] sample_laws(4)
  obtain f accepted where "caps (world m') = {}" and "no_new_privs (world m')"
    and "f \<in> set (loaded (world m'))"
    and "\<forall>n. decision f n = (if (scmp_act_kill sample_build, n) \<in> accepted
      then scmp_act_kill sample_build else scmp_act_allow sample_build)"
    and "\<forall>name \<in> set main_blacklist. sys_defined sample_build name \<longrightarrow>
      (scmp_act_kill sample_build, scmp_sys sample_build name) \<in> accepted"
    by (auto simp: Let_def simp del: decision.simps)
  ultimately show ?thesis using m' by (intro exI [of _ m'] conjI bexI [of _ f]) simp_all
qed

text \<open>
  C34: A filter whose rules libseccomp refuses is loaded all the same. Since \<open>rule_add\<close> ignores
  the result, the sandbox succeeds with a filter that allows every system call.
\<close>

theorem refused_rules_unnoticed:
  assumes "have_seccomp B" and "seccomp_laws os view"
    and "\<forall>c action n w. fst (seccomp_rule_add os c action n w) \<noteq> 0"
    and "\<forall>w. fst (seccomp_init os (scmp_act_allow B) w) \<noteq> None"
    and "\<forall>c w. fst (seccomp_load os c w) = 0"
  shows "\<exists>m'. main_seccomp B os m = (Val (), m')
    \<and> (\<forall>n. decision (hd (loaded (view (world m')))) n = scmp_act_allow B)"
proof -
  obtain c w1 where init: "seccomp_init os (scmp_act_allow B) (world m) = (Some c, w1)"
    using assms(4) by (metis not_None_eq prod.collapse)
  obtain w2 where load: "seccomp_load os c (kill_effect B os c main_blacklist w1) = (0, w2)"
    using assms(5) by (metis prod.collapse)
  have v1: "contexts (view w1) c = Some (scmp_act_allow B, [])"
    using assms(2) init by (simp add: seccomp_laws_def)
  then have "contexts (view (kill_effect B os c main_blacklist w1)) c = Some (scmp_act_allow B, [])"
    using kill_effect_view [OF assms(2) v1] accepted_rules_refused [OF assms(3)] by simp
  then have "hd (loaded (view w2)) = (scmp_act_allow B, [])"
    using assms(2) load by (simp add: seccomp_laws_def)
  with init load show ?thesis
    using assms(1) by (auto simp: main_seccomp_Val)
qed

theorem refused_rules_unnoticed_witness:
  "\<exists>m'. main_seccomp sample_build
      ((sample_os :: (sec_view, nat) os)
        \<lparr>seccomp_rule_add := \<lambda>_ _ _ w. (-22, w), seccomp_load := \<lambda>c w. (0, w\<lparr>loaded :=
           (case contexts w c of Some f \<Rightarrow> f # loaded w | None \<Rightarrow> []), no_new_privs := True\<rparr>)\<rparr>)
      sample_machine = (Val (), m')
    \<and> decision (hd (loaded (world m'))) (scmp_sys sample_build ''ptrace'') =
      scmp_act_allow sample_build"
proof -
  let ?os = "(sample_os :: (sec_view, nat) os)
    \<lparr>seccomp_rule_add := \<lambda>_ _ _ w. (-22, w), seccomp_load := \<lambda>c w. (0, w\<lparr>loaded :=
       (case contexts w c of Some f \<Rightarrow> f # loaded w | None \<Rightarrow> []), no_new_privs := True\<rparr>)\<rparr>"
  have "seccomp_laws ?os id" by (auto simp: seccomp_laws_def sample_os_def)
  moreover have "\<forall>c action n w. fst (seccomp_rule_add ?os c action n w) \<noteq> 0"
    and "\<forall>w. fst (seccomp_init ?os (scmp_act_allow sample_build) w) \<noteq> None"
    and "\<forall>c w. fst (seccomp_load ?os c w) = 0"
    by (simp_all add: sample_os_def)
  ultimately show ?thesis
    using refused_rules_unnoticed [of sample_build ?os id sample_machine] by auto
qed

text \<open>
  C35: A build with Landlock and without libcap-ng cannot start as an ordinary process: if the
  process could still gain privileges and lacks \<open>CAP_SYS_ADMIN\<close>, nothing sets \<open>no_new_privs\<close> before
  \<open>restrict_self\<close>, the kernel refuses, and \<open>sandbox\<close> throws one of the errors of the Landlock wrapper,
  the refused restriction if the ruleset could be created.
\<close>

theorem landlock_without_capng_fails:
  assumes "have_landlock B" and "\<not> have_libcapng B"
    and "landlock_laws B os view" and "landlock_needs_nnp B os view"
    and "\<not> no_new_privs (view (world m))" and "''CAP_SYS_ADMIN'' \<notin> caps (view (world m))"
  shows "\<exists>e m'. sandbox B os m = (Throw (RuntimeError e), m')
    \<and> e = (if is_val (fst (LandlockRuleset B os (main_handled_fs B) (main_handled_net B) m))
           then ''Failed to restrict self via landlock.''
           else if fst (version_query B os (world m)) < 6 then ''Landlock is too old.''
           else ''Failed to create landlock ruleset.'')"
proof -
  let ?attr = "ruleset_attr (main_handled_fs B) (main_handled_net B)"
  have sandbox: "sandbox B os m = thenM (main_landlock B os) (main_seccomp B os) m"
    using assms(2) by (simp add: sandbox_def thenM_def bindM_def main_capabilities_def
        split: prod.split outcome.split)
  obtain v w1 where v: "version_query B os (world m) = (v, w1)" by fastforce
  obtain fd w2 where fd: "create_ruleset_fn B os (Some ?attr) (landlock_attr_size B) 0 w1 = (fd, w2)"
    by fastforce
  have "fst (restrict_self_fn B os fd 0 w2) \<noteq> 0" if "fd \<noteq> -1"
  proof -
    have "view w2 = (view (world m))\<lparr>rulesets := (rulesets (view (world m)))(fd \<mapsto> ?attr)\<rparr>"
      using landlock_lawsD(1) [OF assms(3) v] landlock_lawsD(2) [OF assms(3) fd that] by simp
    then show ?thesis using assms(4-6) by (simp add: landlock_needs_nnp_def)
  qed
  then show ?thesis
    using assms(1) v fd
    by (cases "restrict_self_fn B os fd 0 w2")
      (auto simp: sandbox main_landlock_def LandlockRuleset_def abi_version_def
        landlock_create_ruleset_def restrict_self_def landlock_restrict_self_def thenM_def
        bindM_def ext_app Let_def)
qed

theorem landlock_without_capng_fails_witness:
  "\<exists>m'. sandbox (sample_build\<lparr>have_libcapng := False\<rparr>) (sample_os :: (sec_view, nat) os) sample_machine =
     (Throw (RuntimeError ''Failed to restrict self via landlock.''), m')"
proof -
  let ?B = "sample_build\<lparr>have_libcapng := False\<rparr>"
  have "landlock_laws ?B (sample_os :: (sec_view, nat) os) id"
    and "landlock_needs_nnp ?B (sample_os :: (sec_view, nat) os) id"
    using sample_laws(2,5)
    by (simp_all add: landlock_laws_def landlock_needs_nnp_def create_ruleset_fn_def
        restrict_self_fn_def)
  moreover have "is_val (fst (LandlockRuleset ?B (sample_os :: (sec_view, nat) os)
      (main_handled_fs ?B) (main_handled_net ?B) sample_machine))"
    by (simp add: LandlockRuleset_def abi_version_def landlock_create_ruleset_def bind_ext_app
        create_ruleset_fn_def sample_os_def sample_build_def sample_create_ruleset_def Let_def)
  ultimately show ?thesis
    using landlock_without_capng_fails [of ?B "sample_os :: (sec_view, nat) os" id sample_machine]
    by (simp add: sample_machine_def sample_world_def)
qed

end
