(* ===== verification/Configuration.thy ===== *)
theory Configuration
  imports Host_Sample
begin

text \<open>
  \<open>src/configuration.hpp\<close> and \<open>src/configuration.cpp\<close>: the table of command line options and the
  constructor that reads them. Boost.Program_options is not part of the sources: its parser,
  \<open>store\<close>, \<open>notify\<close> and the conversion of a text to a value are arguments, and what its
  documentation says of them is the predicate \<open>po_laws\<close>. Members that the constructor does not
  initialise are \<open>None\<close>; reading one is undefined behaviour.
\<close>

subsection \<open>Severity levels\<close>

text \<open>The enumeration is ordered as it is declared.\<close>

fun severity :: "severity_level \<Rightarrow> nat" where
  "severity trace = 0"
| "severity debug = 1"
| "severity info = 2"
| "severity warning = 3"
| "severity error = 4"
| "severity fatal = 5"

lemma severity_inject: "severity a = severity b \<longleftrightarrow> a = b"
  by (cases a; cases b) simp_all

instantiation severity_level :: linorder
begin

definition less_eq_severity_level :: "severity_level \<Rightarrow> severity_level \<Rightarrow> bool" where
  "less_eq_severity_level a b \<longleftrightarrow> severity a \<le> severity b"

definition less_severity_level :: "severity_level \<Rightarrow> severity_level \<Rightarrow> bool" where
  "less_severity_level a b \<longleftrightarrow> severity a < severity b"

instance
  by standard
    (auto simp: less_eq_severity_level_def less_severity_level_def severity_inject [symmetric])

end

subsection \<open>Model\<close>

datatype member =
    M_log_level | M_bind_address | M_bind_port | M_address | M_port | M_ttl | M_interface_name

datatype po_type = PO_level | PO_string | PO_uint16 | PO_uint8

datatype po_value = V_level severity_level | V_string string | V_uint16 u16 | V_uint8 u8

text \<open>
  An entry of the table: the type and the variable of its \<open>value<T>(&variable)\<close>, if it takes a
  value, and its \<open>default_value\<close> or \<open>required\<close>.
\<close>

record option_desc =
  o_name :: string
  o_value :: "(po_type \<times> member) option"
  o_default :: "po_value option"
  o_required :: bool

definition options :: "build \<Rightarrow> option_desc list" where
  "options B =
     [\<lparr>o_name = ''help'', o_value = None, o_default = None, o_required = False\<rparr>]
   @ (if is_clang B then []
      else [\<lparr>o_name = ''log-level'', o_value = Some (PO_level, M_log_level),
              o_default = Some (V_level info), o_required = False\<rparr>])
   @ [\<lparr>o_name = ''bind-address'', o_value = Some (PO_string, M_bind_address),
        o_default = None, o_required = True\<rparr>,
      \<lparr>o_name = ''bind-port'', o_value = Some (PO_uint16, M_bind_port),
        o_default = Some (V_uint16 4321), o_required = False\<rparr>,
      \<lparr>o_name = ''address'', o_value = Some (PO_string, M_address),
        o_default = Some (V_string ''ff2e::42''), o_required = False\<rparr>,
      \<lparr>o_name = ''port'', o_value = Some (PO_uint16, M_port),
        o_default = Some (V_uint16 4321), o_required = False\<rparr>,
      \<lparr>o_name = ''ttl'', o_value = Some (PO_uint8, M_ttl),
        o_default = Some (V_uint8 64), o_required = False\<rparr>,
      \<lparr>o_name = ''interface-name'', o_value = Some (PO_string, M_interface_name),
        o_default = None, o_required = True\<rparr>]"

text \<open>
  Boost.Program_options: parsed options are pairs of a name and a text (empty for an option
  without a value), a variables map gives the value of an option that is set; an option without
  a value is in the map with no value of its own.
\<close>

type_synonym parsed_options = "(string \<times> string) list"
type_synonym variables_map = "string \<rightharpoonup> po_value option"

record program_options =
  po_run :: "string list \<Rightarrow> bool \<Rightarrow> option_desc list \<Rightarrow> string list \<Rightarrow> parsed_options outcome"
  po_store :: "option_desc list \<Rightarrow> parsed_options \<Rightarrow> variables_map outcome"
  po_notify :: "option_desc list \<Rightarrow> variables_map \<Rightarrow> unit outcome"
  po_validate :: "po_type \<Rightarrow> string \<Rightarrow> po_value option"

record configuration =
  c_help :: bool
  c_log_level :: "severity_level option"
  c_bind_address :: string
  c_bind_port :: "u16 option"
  c_address :: string
  c_port :: "u16 option"
  c_ttl :: "u8 option"
  c_interface_name :: string

text \<open>What \<open>notify\<close> writes to the variables of the options that are set.\<close>

fun write_member :: "member \<Rightarrow> po_value \<Rightarrow> configuration \<Rightarrow> configuration" where
  "write_member M_log_level (V_level v) c = c\<lparr>c_log_level := Some v\<rparr>"
| "write_member M_bind_address (V_string v) c = c\<lparr>c_bind_address := v\<rparr>"
| "write_member M_bind_port (V_uint16 v) c = c\<lparr>c_bind_port := Some v\<rparr>"
| "write_member M_address (V_string v) c = c\<lparr>c_address := v\<rparr>"
| "write_member M_port (V_uint16 v) c = c\<lparr>c_port := Some v\<rparr>"
| "write_member M_ttl (V_uint8 v) c = c\<lparr>c_ttl := Some v\<rparr>"
| "write_member M_interface_name (V_string v) c = c\<lparr>c_interface_name := v\<rparr>"
| "write_member _ _ c = c"

definition write_variable :: "variables_map \<Rightarrow> option_desc \<Rightarrow> configuration \<Rightarrow> configuration" where
  "write_variable vm d c =
     (case (o_value d, vm (o_name d)) of
        (Some (_, var), Some (Some v)) \<Rightarrow> write_member var v c
      | _ \<Rightarrow> c)"

definition uninitialised :: configuration where
  "uninitialised = \<lparr>c_help = False, c_log_level = None, c_bind_address = '''', c_bind_port = None,
     c_address = '''', c_port = None, c_ttl = None, c_interface_name = ''''\<rparr>"

definition command_line_style :: "string list" where
  "command_line_style = [''allow_long'', ''allow_sticky'', ''long_allow_next'']"

definition set_filter :: "severity_level \<Rightarrow> (('w, 'a) machine, unit) prog" where
  "set_filter level = ext (Set_log_filter level) (\<lambda>w. ((), w))"

definition apply_filter :: "build \<Rightarrow> configuration \<Rightarrow> (('w, 'a) machine, unit) prog" where
  "apply_filter B this =
     (if is_clang B then set_filter info
      else case c_log_level this of Some level \<Rightarrow> set_filter level | None \<Rightarrow> liftM Undefined)"

definition Configuration ::
    "build \<Rightarrow> program_options \<Rightarrow> string list \<Rightarrow> (('w, 'a) machine, configuration) prog" where
  "Configuration B po args =
     bindM (liftM (po_run po command_line_style True (options B) args)) (\<lambda>parsed_options.
     bindM (liftM (po_store po (options B) parsed_options)) (\<lambda>vm.
     let help = (vm ''help'' \<noteq> None)
     in if help then exitM 0
        else
          thenM (liftM (po_notify po (options B) vm))
          (let this = fold (write_variable vm) (options B) (uninitialised\<lparr>c_help := help\<rparr>)
           in thenM (apply_filter B this) (returnM this))))"

definition read_member :: "'v option \<Rightarrow> 'v outcome" where
  "read_member v = (case v of Some x \<Rightarrow> Val x | None \<Rightarrow> Undefined)"

definition get_help :: "configuration \<Rightarrow> bool" where
  "get_help c = c_help c"

definition get_log_level :: "configuration \<Rightarrow> severity_level outcome" where
  "get_log_level c = read_member (c_log_level c)"

definition get_bind_address :: "configuration \<Rightarrow> string" where
  "get_bind_address c = c_bind_address c"

definition get_bind_port :: "configuration \<Rightarrow> u16 outcome" where
  "get_bind_port c = read_member (c_bind_port c)"

definition get_address :: "configuration \<Rightarrow> string" where
  "get_address c = c_address c"

definition get_port :: "configuration \<Rightarrow> u16 outcome" where
  "get_port c = read_member (c_port c)"

definition config_ttl :: "configuration \<Rightarrow> u8 outcome" where
  "config_ttl c = read_member (c_ttl c)"

definition get_interface_name :: "configuration \<Rightarrow> string" where
  "get_interface_name c = c_interface_name c"

subsection \<open>Specification: what Boost.Program_options promises\<close>

text \<open>The value that \<open>store\<close> gives an option: that of its text, else its default.\<close>

definition option_value ::
    "program_options \<Rightarrow> parsed_options \<Rightarrow> option_desc \<Rightarrow> po_value option option" where
  "option_value po parsed d =
     (case map_of parsed (o_name d) of
        Some text \<Rightarrow>
          Some (case o_value d of None \<Rightarrow> None | Some (type, _) \<Rightarrow> po_validate po type text)
      | None \<Rightarrow> (case o_default d of None \<Rightarrow> None | Some v \<Rightarrow> Some (Some v)))"

definition well_formed_text :: "program_options \<Rightarrow> parsed_options \<Rightarrow> option_desc \<Rightarrow> bool" where
  "well_formed_text po parsed d =
     (case (map_of parsed (o_name d), o_value d) of
        (Some text, Some (type, _)) \<Rightarrow> po_validate po type text \<noteq> None
      | _ \<Rightarrow> True)"

fun typed :: "po_type \<Rightarrow> po_value \<Rightarrow> bool" where
  "typed PO_level (V_level _) = True"
| "typed PO_string (V_string _) = True"
| "typed PO_uint16 (V_uint16 _) = True"
| "typed PO_uint8 (V_uint8 _) = True"
| "typed _ _ = False"

definition po_laws :: "program_options \<Rightarrow> bool" where
  "po_laws po \<longleftrightarrow>
     (\<forall>style unreg table args. value_or_throw (po_run po style unreg table args))
   \<and> (\<forall>table parsed. value_or_throw (po_store po table parsed))
   \<and> (\<forall>table vm. value_or_throw (po_notify po table vm))
   \<and> (\<forall>table parsed vm. po_store po table parsed = Val vm \<longrightarrow>
        (\<forall>d \<in> set table. well_formed_text po parsed d
           \<and> vm (o_name d) = option_value po parsed d))
   \<and> (\<forall>table vm. is_val (po_notify po table vm) \<longleftrightarrow>
        (\<forall>d \<in> set table. o_required d \<longrightarrow> vm (o_name d) \<noteq> None))
   \<and> (\<forall>text. po_validate po PO_string text = Some (V_string text))
   \<and> (\<forall>type text v. po_validate po type text = Some v \<longrightarrow> typed type v)"

text \<open>
  The conversion of a text to a \<open>uint8_t\<close> goes through \<open>lexical_cast\<close>, for which that type is a
  character type: it takes one character, not a number.
\<close>

definition uint8_is_character :: "program_options \<Rightarrow> bool" where
  "uint8_is_character po \<longleftrightarrow>
     (\<forall>text. po_validate po PO_uint8 text =
        (case text of [ch] \<Rightarrow> Some (V_uint8 (of_char ch)) | _ \<Rightarrow> None))"

subsection \<open>The configuration in closed form\<close>

text \<open>The value of an option with a default.\<close>

definition setting ::
    "program_options \<Rightarrow> parsed_options \<Rightarrow> string \<Rightarrow> po_type \<Rightarrow> po_value \<Rightarrow> po_value option" where
  "setting po parsed name type dflt =
     (case map_of parsed name of None \<Rightarrow> Some dflt | Some text \<Rightarrow> po_validate po type text)"

lemma po_lawsD:
  assumes "po_laws po"
  shows "value_or_throw (po_run po style unreg table args)"
    and "value_or_throw (po_store po table parsed)"
    and "value_or_throw (po_notify po table vm)"
    and "po_store po table parsed = Val vm \<Longrightarrow> d \<in> set table \<Longrightarrow>
      well_formed_text po parsed d \<and> vm (o_name d) = option_value po parsed d"
    and "is_val (po_notify po table vm) \<longleftrightarrow> (\<forall>d \<in> set table. o_required d \<longrightarrow> vm (o_name d) \<noteq> None)"
    and "po_validate po PO_string text = Some (V_string text)"
    and "po_validate po type text = Some v \<Longrightarrow> typed type v"
  using assms unfolding po_laws_def by blast+

lemma typed_cases:
  "typed PO_level v \<longleftrightarrow> (\<exists>l. v = V_level l)"
  "typed PO_string v \<longleftrightarrow> (\<exists>s. v = V_string s)"
  "typed PO_uint16 v \<longleftrightarrow> (\<exists>p. v = V_uint16 p)"
  "typed PO_uint8 v \<longleftrightarrow> (\<exists>b. v = V_uint8 b)"
  by (cases v; simp)+

text \<open>An option of the table that has a default is set, to a value of its type.\<close>

lemma stored_default:
  assumes "po_laws po" and "po_store po table parsed = Val vm" and "d \<in> set table"
    and "o_value d = Some (type, var)" and "o_default d = Some v" and "typed type v"
  shows "\<exists>x. vm (o_name d) = Some (Some x) \<and> setting po parsed (o_name d) type v = Some x \<and> typed type x"
  using po_lawsD(4) [OF assms(1-3)] assms(4-6) po_lawsD(7) [OF assms(1)]
  by (auto simp: well_formed_text_def option_value_def setting_def split: option.splits)

lemma stored_required:
  assumes "po_laws po" and "po_store po table parsed = Val vm" and "d \<in> set table"
    and "o_value d = Some (PO_string, var)" and "o_default d = None"
  shows "vm (o_name d) = map_option (\<lambda>text. Some (V_string text)) (map_of parsed (o_name d))"
  using po_lawsD(4) [OF assms(1-3)] assms(4,5)
  by (auto simp: option_value_def po_lawsD(6) [OF assms(1)] split: option.splits)

lemma stored_help:
  assumes "po_laws po" and "po_store po (options B) parsed = Val vm"
  shows "vm ''help'' = None \<longleftrightarrow> map_of parsed ''help'' = None"
proof -
  let ?d = "\<lparr>o_name = ''help'', o_value = None, o_default = None, o_required = False\<rparr>"
  have "?d \<in> set (options B)" by (simp add: options_def)
  from po_lawsD(4) [OF assms this] show ?thesis
    by (auto simp: option_value_def split: option.splits)
qed

text \<open>What \<open>store\<close> makes of the whole table.\<close>

lemma stored_options:
  assumes "po_laws po" and "po_store po (options B) parsed = Val vm"
  obtains bp a p t where
    "vm ''bind-address'' = map_option (\<lambda>text. Some (V_string text)) (map_of parsed ''bind-address'')"
    and "vm ''interface-name'' =
      map_option (\<lambda>text. Some (V_string text)) (map_of parsed ''interface-name'')"
    and "vm ''bind-port'' = Some (Some (V_uint16 bp))"
    and "setting po parsed ''bind-port'' PO_uint16 (V_uint16 4321) = Some (V_uint16 bp)"
    and "vm ''address'' = Some (Some (V_string a))"
    and "setting po parsed ''address'' PO_string (V_string ''ff2e::42'') = Some (V_string a)"
    and "vm ''port'' = Some (Some (V_uint16 p))"
    and "setting po parsed ''port'' PO_uint16 (V_uint16 4321) = Some (V_uint16 p)"
    and "vm ''ttl'' = Some (Some (V_uint8 t))"
    and "setting po parsed ''ttl'' PO_uint8 (V_uint8 64) = Some (V_uint8 t)"
proof -
  note req = stored_required [OF assms] and dflt = stored_default [OF assms]
  have "vm ''bind-address'' = map_option (\<lambda>text. Some (V_string text)) (map_of parsed ''bind-address'')"
    using req [of "\<lparr>o_name = ''bind-address'', o_value = Some (PO_string, M_bind_address),
        o_default = None, o_required = True\<rparr>"] by (simp add: options_def)
  moreover have "vm ''interface-name'' =
      map_option (\<lambda>text. Some (V_string text)) (map_of parsed ''interface-name'')"
    using req [of "\<lparr>o_name = ''interface-name'', o_value = Some (PO_string, M_interface_name),
        o_default = None, o_required = True\<rparr>"] by (simp add: options_def)
  moreover obtain bp where "vm ''bind-port'' = Some (Some (V_uint16 bp))"
    "setting po parsed ''bind-port'' PO_uint16 (V_uint16 4321) = Some (V_uint16 bp)"
    using dflt [of "\<lparr>o_name = ''bind-port'', o_value = Some (PO_uint16, M_bind_port),
        o_default = Some (V_uint16 4321), o_required = False\<rparr>"]
    by (auto simp: options_def typed_cases)
  moreover obtain a where "vm ''address'' = Some (Some (V_string a))"
    "setting po parsed ''address'' PO_string (V_string ''ff2e::42'') = Some (V_string a)"
    using dflt [of "\<lparr>o_name = ''address'', o_value = Some (PO_string, M_address),
        o_default = Some (V_string ''ff2e::42''), o_required = False\<rparr>"]
    by (auto simp: options_def typed_cases)
  moreover obtain p where "vm ''port'' = Some (Some (V_uint16 p))"
    "setting po parsed ''port'' PO_uint16 (V_uint16 4321) = Some (V_uint16 p)"
    using dflt [of "\<lparr>o_name = ''port'', o_value = Some (PO_uint16, M_port),
        o_default = Some (V_uint16 4321), o_required = False\<rparr>"]
    by (auto simp: options_def typed_cases)
  moreover obtain t where "vm ''ttl'' = Some (Some (V_uint8 t))"
    "setting po parsed ''ttl'' PO_uint8 (V_uint8 64) = Some (V_uint8 t)"
    using dflt [of "\<lparr>o_name = ''ttl'', o_value = Some (PO_uint8, M_ttl),
        o_default = Some (V_uint8 64), o_required = False\<rparr>"]
    by (auto simp: options_def typed_cases)
  ultimately show thesis by (rule that)
qed

lemma stored_log_level:
  assumes "po_laws po" and "po_store po (options B) parsed = Val vm" and "\<not> is_clang B"
  obtains l where "vm ''log-level'' = Some (Some (V_level l))"
    and "setting po parsed ''log-level'' PO_level (V_level info) = Some (V_level l)"
  using stored_default [OF assms(1,2), of "\<lparr>o_name = ''log-level'',
      o_value = Some (PO_level, M_log_level), o_default = Some (V_level info), o_required = False\<rparr>"]
    assms(3)
  by (auto simp: options_def typed_cases)

lemma notified_required:
  assumes "po_laws po" and "po_notify po (options B) vm = Val u"
  shows "vm ''bind-address'' \<noteq> None" and "vm ''interface-name'' \<noteq> None"
  using po_lawsD(5) [OF assms(1), of "options B" vm] assms(2) by (auto simp: options_def)

text \<open>The members that \<open>notify\<close> writes.\<close>

lemma written_members:
  assumes "po_laws po" and "po_store po (options B) parsed = Val vm"
    and "po_notify po (options B) vm = Val u"
  obtains bind_address bind_port address port ttl interface_name level where
    "map_of parsed ''bind-address'' = Some bind_address"
    and "map_of parsed ''interface-name'' = Some interface_name"
    and "setting po parsed ''bind-port'' PO_uint16 (V_uint16 4321) = Some (V_uint16 bind_port)"
    and "setting po parsed ''address'' PO_string (V_string ''ff2e::42'') = Some (V_string address)"
    and "setting po parsed ''port'' PO_uint16 (V_uint16 4321) = Some (V_uint16 port)"
    and "setting po parsed ''ttl'' PO_uint8 (V_uint8 64) = Some (V_uint8 ttl)"
    and "if is_clang B then level = info
         else setting po parsed ''log-level'' PO_level (V_level info) = Some (V_level level)"
    and "fold (write_variable vm) (options B) (uninitialised\<lparr>c_help := False\<rparr>) =
      \<lparr>c_help = False, c_log_level = (if is_clang B then None else Some level),
       c_bind_address = bind_address, c_bind_port = Some bind_port, c_address = address,
       c_port = Some port, c_ttl = Some ttl, c_interface_name = interface_name\<rparr>"
proof -
  obtain bp a p t where
    vm: "vm ''bind-address'' = map_option (\<lambda>text. Some (V_string text)) (map_of parsed ''bind-address'')"
      "vm ''interface-name'' = map_option (\<lambda>text. Some (V_string text)) (map_of parsed ''interface-name'')"
      "vm ''bind-port'' = Some (Some (V_uint16 bp))" "vm ''address'' = Some (Some (V_string a))"
      "vm ''port'' = Some (Some (V_uint16 p))" "vm ''ttl'' = Some (Some (V_uint8 t))"
    and set: "setting po parsed ''bind-port'' PO_uint16 (V_uint16 4321) = Some (V_uint16 bp)"
      "setting po parsed ''address'' PO_string (V_string ''ff2e::42'') = Some (V_string a)"
      "setting po parsed ''port'' PO_uint16 (V_uint16 4321) = Some (V_uint16 p)"
      "setting po parsed ''ttl'' PO_uint8 (V_uint8 64) = Some (V_uint8 t)"
    using assms(1,2) by (rule stored_options)
  from notified_required [OF assms(1,3)] vm(1,2) obtain ba ifn where
    req: "map_of parsed ''bind-address'' = Some ba" "map_of parsed ''interface-name'' = Some ifn"
    by auto
  obtain l where l: "if is_clang B then l = info
      else vm ''log-level'' = Some (Some (V_level l))
        \<and> setting po parsed ''log-level'' PO_level (V_level info) = Some (V_level l)"
    using stored_log_level [OF assms(1,2)] by (metis (full_types))
  with vm req have "fold (write_variable vm) (options B) (uninitialised\<lparr>c_help := False\<rparr>) =
      \<lparr>c_help = False, c_log_level = (if is_clang B then None else Some l), c_bind_address = ba,
       c_bind_port = Some bp, c_address = a, c_port = Some p, c_ttl = Some t,
       c_interface_name = ifn\<rparr>"
    by (simp add: options_def write_variable_def uninitialised_def)
  with req set l show thesis by (auto intro!: that split: if_splits)
qed

lemma apply_filter_members:
  "apply_filter B \<lparr>c_help = h, c_log_level = (if is_clang B then None else Some level),
      c_bind_address = ba, c_bind_port = bp, c_address = a, c_port = p, c_ttl = t,
      c_interface_name = ifn\<rparr> m =
    (Val (), m\<lparr>calls := calls m @ [Set_log_filter (if is_clang B then info else level)]\<rparr>)"
  by (simp add: apply_filter_def set_filter_def ext_app)

text \<open>A constructor that returns.\<close>

lemma Configuration_Val:
  assumes "po_laws po" and "Configuration B po args m = (Val c, m')"
  obtains parsed bind_address bind_port address port ttl interface_name level where
    "po_run po command_line_style True (options B) args = Val parsed"
    and "map_of parsed ''help'' = None"
    and "map_of parsed ''bind-address'' = Some bind_address"
    and "map_of parsed ''interface-name'' = Some interface_name"
    and "setting po parsed ''bind-port'' PO_uint16 (V_uint16 4321) = Some (V_uint16 bind_port)"
    and "setting po parsed ''address'' PO_string (V_string ''ff2e::42'') = Some (V_string address)"
    and "setting po parsed ''port'' PO_uint16 (V_uint16 4321) = Some (V_uint16 port)"
    and "setting po parsed ''ttl'' PO_uint8 (V_uint8 64) = Some (V_uint8 ttl)"
    and "if is_clang B then level = info
         else setting po parsed ''log-level'' PO_level (V_level info) = Some (V_level level)"
    and "c = \<lparr>c_help = False, c_log_level = (if is_clang B then None else Some level),
       c_bind_address = bind_address, c_bind_port = Some bind_port, c_address = address,
       c_port = Some port, c_ttl = Some ttl, c_interface_name = interface_name\<rparr>"
    and "m' = m\<lparr>calls := calls m @ [Set_log_filter level]\<rparr>"
proof -
  from assms(2) obtain parsed vm where
    run: "po_run po command_line_style True (options B) args = Val parsed"
    and store: "po_store po (options B) parsed = Val vm"
    and unset: "vm ''help'' = None"
    and notify: "po_notify po (options B) vm = Val ()"
    and c: "c = fold (write_variable vm) (options B) (uninitialised\<lparr>c_help := False\<rparr>)"
    and filter: "apply_filter B c m = (Val (), m')"
    by (auto simp: Configuration_def bindM_eq_Val thenM_eq_Val Let_def split: if_splits)
  have nohelp: "map_of parsed ''help'' = None" using stored_help [OF assms(1) store] unset by simp
  from assms(1) store notify show thesis
  proof (rule written_members)
    fix ba bp a p t ifn l
    assume set: "map_of parsed ''bind-address'' = Some ba" "map_of parsed ''interface-name'' = Some ifn"
      "setting po parsed ''bind-port'' PO_uint16 (V_uint16 4321) = Some (V_uint16 bp)"
      "setting po parsed ''address'' PO_string (V_string ''ff2e::42'') = Some (V_string a)"
      "setting po parsed ''port'' PO_uint16 (V_uint16 4321) = Some (V_uint16 p)"
      "setting po parsed ''ttl'' PO_uint8 (V_uint8 64) = Some (V_uint8 t)"
      "if is_clang B then l = info
       else setting po parsed ''log-level'' PO_level (V_level info) = Some (V_level l)"
      and members: "fold (write_variable vm) (options B) (uninitialised\<lparr>c_help := False\<rparr>) =
        \<lparr>c_help = False, c_log_level = (if is_clang B then None else Some l),
         c_bind_address = ba, c_bind_port = Some bp, c_address = a,
         c_port = Some p, c_ttl = Some t, c_interface_name = ifn\<rparr>"
    from set(7) filter have "m' = m\<lparr>calls := calls m @ [Set_log_filter l]\<rparr>"
      by (simp add: c members apply_filter_members split: if_splits)
    then show thesis using that [OF run nohelp set] c members by simp
  qed
qed

lemma Configuration_help:
  assumes "po_laws po" and "po_run po command_line_style True (options B) args = Val parsed"
    and "po_store po (options B) parsed = Val vm" and "map_of parsed ''help'' \<noteq> None"
  shows "Configuration B po args m = (Exit 0, m)"
  using assms stored_help [OF assms(1,3)] by (auto simp: Configuration_def bindM_def)

text \<open>How the constructor ends, completely, and what \<open>main\<close> may then read.\<close>

lemma Configuration_outcome:
  assumes "po_laws po"
  obtains (returns) c m' bp p t where "Configuration B po args m = (Val c, m')"
      and "get_bind_port c = Val bp" and "get_port c = Val p" and "config_ttl c = Val t"
  | (throws) e where "Configuration B po args m = (Throw e, m)"
  | (exits) parsed vm where "Configuration B po args m = (Exit 0, m)"
      and "po_run po command_line_style True (options B) args = Val parsed"
      and "po_store po (options B) parsed = Val vm" and "map_of parsed ''help'' \<noteq> None"
proof (cases "po_run po command_line_style True (options B) args")
  case run: (Val parsed)
  show thesis
  proof (cases "po_store po (options B) parsed")
    case store: (Val vm)
    note has_help = stored_help [OF assms store]
    show thesis
    proof (cases "vm ''help''")
      case None
      show thesis
      proof (cases "po_notify po (options B) vm")
        case notify: (Val u)
        with assms store show thesis
        proof (rule written_members)
          fix ba bp a p t ifn l
          assume members: "fold (write_variable vm) (options B) (uninitialised\<lparr>c_help := False\<rparr>) =
            \<lparr>c_help = False, c_log_level = (if is_clang B then None else Some l),
             c_bind_address = ba, c_bind_port = Some bp, c_address = a,
             c_port = Some p, c_ttl = Some t, c_interface_name = ifn\<rparr>" (is "_ = ?c")
          have "Configuration B po args m =
              (Val ?c, m\<lparr>calls := calls m @ [Set_log_filter (if is_clang B then info else l)]\<rparr>)"
            using run store None notify
            by (simp add: Configuration_def bindM_def thenM_def members apply_filter_members)
          then show thesis
            by (rule returns) (simp_all add: get_bind_port_def get_port_def config_ttl_def read_member_def)
        qed
      qed (use run store None throws po_lawsD(3) [OF assms, of "options B" vm] in
        \<open>auto simp: Configuration_def bindM_def thenM_def\<close>)
    qed (use run store has_help exits in \<open>auto simp: Configuration_def bindM_def\<close>)
  qed (use run throws po_lawsD(2) [OF assms, of "options B" parsed] in
    \<open>auto simp: Configuration_def bindM_def\<close>)
qed (use throws po_lawsD(1) [OF assms, of command_line_style True "options B" args] in
    \<open>auto simp: Configuration_def bindM_def\<close>)

subsection \<open>An instance\<close>

fun sample_parse :: "string list \<Rightarrow> parsed_options" where
  "sample_parse (name # text # rest) =
     (if name = ''--help'' then (''help'', '''') # sample_parse (text # rest)
      else (drop 2 name, text) # sample_parse rest)"
| "sample_parse [name] = (if name = ''--help'' then [(''help'', '''')] else [])"
| "sample_parse [] = []"

fun sample_validate :: "po_type \<Rightarrow> string \<Rightarrow> po_value option" where
  "sample_validate PO_level text = (if text = ''trace'' then Some (V_level trace) else None)"
| "sample_validate PO_string text = Some (V_string text)"
| "sample_validate PO_uint16 text = (if text = ''5000'' then Some (V_uint16 5000) else None)"
| "sample_validate PO_uint8 text = (case text of [ch] \<Rightarrow> Some (V_uint8 (of_char ch)) | _ \<Rightarrow> None)"

definition sample_lookup :: "option_desc list \<Rightarrow> parsed_options \<Rightarrow> variables_map" where
  "sample_lookup table parsed name =
     (case find (\<lambda>d. o_name d = name) table of
        None \<Rightarrow> None
      | Some d \<Rightarrow> (case map_of parsed name of
            Some text \<Rightarrow>
              Some (case o_value d of None \<Rightarrow> None | Some (type, _) \<Rightarrow> sample_validate type text)
          | None \<Rightarrow> (case o_default d of None \<Rightarrow> None | Some v \<Rightarrow> Some (Some v))))"

definition sample_po :: program_options where
  "sample_po = \<lparr>
     po_run = (\<lambda>_ _ _ args. Val (sample_parse (tl args))),
     po_store = (\<lambda>table parsed.
       if distinct (map o_name table)
        \<and> list_all (\<lambda>d. case (map_of parsed (o_name d), o_value d) of
            (Some text, Some (type, _)) \<Rightarrow> sample_validate type text \<noteq> None | _ \<Rightarrow> True) table
       then Val (sample_lookup table parsed)
       else Throw (LibraryError ''the argument for option is invalid'')),
     po_notify = (\<lambda>table vm.
       if list_all (\<lambda>d. o_required d \<longrightarrow> vm (o_name d) \<noteq> None) table then Val ()
       else Throw (LibraryError ''the option is required but missing'')),
     po_validate = sample_validate\<rparr>"

lemma find_distinct:
  "distinct (map o_name table) \<Longrightarrow> d \<in> set table \<Longrightarrow>
    find (\<lambda>d'. o_name d' = o_name d) table = Some d"
  by (induction table) (auto simp: image_iff)

lemma sample_validate_typed: "sample_validate type text = Some v \<Longrightarrow> typed type v"
  by (cases type) (auto split: if_splits list.splits)

lemma sample_po_laws: "po_laws sample_po" "uint8_is_character sample_po"
  by (auto simp: po_laws_def uint8_is_character_def sample_po_def sample_lookup_def find_distinct
      option_value_def well_formed_text_def list_all_iff sample_validate_typed
      split: option.splits list.splits)

lemma sample_run:
  "Configuration sample_build sample_po
     [''mping-sender'', ''--bind-address'', ''::1'', ''--interface-name'', ''eth0''] m =
   (Val \<lparr>c_help = False, c_log_level = Some info, c_bind_address = ''::1'',
      c_bind_port = Some 4321, c_address = ''ff2e::42'', c_port = Some 4321, c_ttl = Some 64,
      c_interface_name = ''eth0''\<rparr>, m\<lparr>calls := calls m @ [Set_log_filter info]\<rparr>)"
  by (simp add: Configuration_def bindM_def sample_po_def options_def sample_build_def
      sample_lookup_def write_variable_def uninitialised_def apply_filter_def set_filter_def
      thenM_def ext_app)

subsection \<open>Properties\<close>

text \<open>
  C16: A constructor that returns has found both required options, takes every other option from
  the command line or from its documented default (port 4321 twice, group ff2e::42, TTL 64, log
  level info), has initialised every member that \<open>main\<close> reads, and has set the log filter to
  the chosen level, which lets fatal messages through. Built with Clang the log level is neither
  an option nor initialised, and the filter is \<open>info\<close>.
\<close>

theorem configuration_values:
  assumes "po_laws po" and "Configuration B po args m = (Val c, m')"
  shows "\<exists>parsed bind_port address port ttl level.
      po_run po command_line_style True (options B) args = Val parsed
    \<and> map_of parsed ''bind-address'' = Some (get_bind_address c)
    \<and> map_of parsed ''interface-name'' = Some (get_interface_name c)
    \<and> get_bind_port c = Val bind_port
    \<and> setting po parsed ''bind-port'' PO_uint16 (V_uint16 4321) = Some (V_uint16 bind_port)
    \<and> get_address c = (case map_of parsed ''address'' of None \<Rightarrow> ''ff2e::42'' | Some text \<Rightarrow> text)
    \<and> get_port c = Val port
    \<and> setting po parsed ''port'' PO_uint16 (V_uint16 4321) = Some (V_uint16 port)
    \<and> config_ttl c = Val ttl
    \<and> setting po parsed ''ttl'' PO_uint8 (V_uint8 64) = Some (V_uint8 ttl)
    \<and> get_log_level c = (if is_clang B then Undefined else Val level)
    \<and> (if is_clang B then level = info
       else setting po parsed ''log-level'' PO_level (V_level info) = Some (V_level level))
    \<and> calls m' = calls m @ [Set_log_filter level] \<and> level \<le> fatal"
  using assms
proof (rule Configuration_Val)
  fix parsed bind_address bind_port address port ttl interface_name level
  assume facts: "po_run po command_line_style True (options B) args = Val parsed"
    "map_of parsed ''bind-address'' = Some bind_address"
    "map_of parsed ''interface-name'' = Some interface_name"
    "setting po parsed ''bind-port'' PO_uint16 (V_uint16 4321) = Some (V_uint16 bind_port)"
    "setting po parsed ''port'' PO_uint16 (V_uint16 4321) = Some (V_uint16 port)"
    "setting po parsed ''ttl'' PO_uint8 (V_uint8 64) = Some (V_uint8 ttl)"
    "if is_clang B then level = info
     else setting po parsed ''log-level'' PO_level (V_level info) = Some (V_level level)"
    and addr: "setting po parsed ''address'' PO_string (V_string ''ff2e::42'') = Some (V_string address)"
    and c: "c = \<lparr>c_help = False, c_log_level = (if is_clang B then None else Some level),
       c_bind_address = bind_address, c_bind_port = Some bind_port, c_address = address,
       c_port = Some port, c_ttl = Some ttl, c_interface_name = interface_name\<rparr>"
    and m': "m' = m\<lparr>calls := calls m @ [Set_log_filter level]\<rparr>"
  have "address = (case map_of parsed ''address'' of None \<Rightarrow> ''ff2e::42'' | Some text \<Rightarrow> text)"
    using addr by (auto simp: setting_def po_lawsD(6) [OF assms(1)] split: option.splits)
  moreover have "level \<le> fatal"
    by (cases level) (simp_all add: less_eq_severity_level_def)
  ultimately show ?thesis
    using facts
    by (intro exI [of _ parsed] exI [of _ bind_port] exI [of _ address] exI [of _ port]
        exI [of _ ttl] exI [of _ level])
      (simp add: c m' get_bind_address_def get_interface_name_def get_bind_port_def
        get_address_def get_port_def config_ttl_def get_log_level_def read_member_def)
qed

theorem configuration_values_witness:
  "\<exists>c. fst (Configuration sample_build sample_po
     [''mping-sender'', ''--bind-address'', ''::1'', ''--interface-name'', ''eth0'']
     (sample_machine :: (sec_view, nat) machine)) = Val c
    \<and> get_address c = ''ff2e::42'' \<and> (\<exists>ttl. config_ttl c = Val ttl)"
proof -
  from configuration_values [OF sample_po_laws(1) sample_run [of sample_machine]]
  show ?thesis by (auto simp: sample_run get_address_def)
qed

text \<open>
  C17: Without \<open>--help\<close> the bind address and the interface name are demanded: a command line that
  lacks one of them makes the constructor throw, before the log filter is touched.
\<close>

theorem required_options_enforced:
  assumes "po_laws po" and "po_run po command_line_style True (options B) args = Val parsed"
    and "map_of parsed ''help'' = None"
    and "map_of parsed ''bind-address'' = None \<or> map_of parsed ''interface-name'' = None"
  shows "\<exists>e. Configuration B po args m = (Throw e, m)"
proof (cases "po_store po (options B) parsed")
  case (Val vm)
  have "vm ''bind-address'' = None \<or> vm ''interface-name'' = None"
    using assms(1) Val by (rule stored_options) (use assms(4) in auto)
  then have "\<not> is_val (po_notify po (options B) vm)"
    using notified_required [OF assms(1), of B vm] by (auto simp: is_val_iff)
  then obtain e where "po_notify po (options B) vm = Throw e"
    using po_lawsD(3) [OF assms(1), of "options B" vm] by (cases "po_notify po (options B) vm") auto
  with Val assms(2,3) stored_help [OF assms(1) Val] show ?thesis
    by (simp add: Configuration_def bindM_def thenM_def)
qed (use assms(2) po_lawsD(2) [OF assms(1), of "options B" parsed] in
    \<open>simp_all add: Configuration_def bindM_def\<close>)

theorem required_options_enforced_witness:
  "\<exists>e. Configuration sample_build sample_po [''mping-sender'', ''--interface-name'', ''eth0'']
     (sample_machine :: (sec_view, nat) machine) = (Throw e, sample_machine)"
proof -
  have r: "po_run sample_po command_line_style True (options sample_build)
      [''mping-sender'', ''--interface-name'', ''eth0''] = Val [(''interface-name'', ''eth0'')]"
    by (simp add: sample_po_def)
  show ?thesis by (rule required_options_enforced [OF sample_po_laws(1) r]) simp_all
qed

text \<open>
  C18: The TTL cannot be given as a number. Because the option has the type \<open>uint8_t\<close>, whose
  conversion reads one character, a text of any other length (such as 64) is rejected, and a
  text of one character sets the TTL to its character code: \<open>--ttl 5\<close> sends with a TTL of 53.
\<close>

theorem ttl_read_as_character:
  assumes "po_laws po" and "uint8_is_character po"
    and "po_run po command_line_style True (options B) args = Val parsed"
    and "map_of parsed ''ttl'' = Some text"
  shows "(length text \<noteq> 1 \<longrightarrow> (\<exists>e. Configuration B po args m = (Throw e, m)))
    \<and> (\<forall>c m'. Configuration B po args m = (Val c, m') \<longrightarrow> config_ttl c = Val (of_char (hd text)))"
proof (intro conjI allI impI)
  assume len: "length text \<noteq> 1"
  let ?d = "\<lparr>o_name = ''ttl'', o_value = Some (PO_uint8, M_ttl), o_default = Some (V_uint8 64),
    o_required = False\<rparr>"
  have "po_validate po PO_uint8 text = None"
    using assms(2) len by (auto simp: uint8_is_character_def split: list.splits)
  then have "\<not> well_formed_text po parsed ?d"
    using assms(4) by (simp add: well_formed_text_def)
  moreover have "?d \<in> set (options B)" by (simp add: options_def)
  ultimately have "\<not> is_val (po_store po (options B) parsed)"
    using po_lawsD(4) [OF assms(1)] by (auto simp: is_val_iff)
  then obtain e where "po_store po (options B) parsed = Throw e"
    using po_lawsD(2) [OF assms(1), of "options B" parsed] by (cases "po_store po (options B) parsed") auto
  with assms(3) show "\<exists>e. Configuration B po args m = (Throw e, m)"
    by (simp add: Configuration_def bindM_def)
next
  fix c m'
  assume "Configuration B po args m = (Val c, m')"
  with assms(1) obtain ttl where "c_ttl c = Some ttl"
    and "setting po parsed ''ttl'' PO_uint8 (V_uint8 64) = Some (V_uint8 ttl)"
    by (rule Configuration_Val) (use assms(3) in simp)
  then show "config_ttl c = Val (of_char (hd text))"
    using assms(2,4)
    by (auto simp: setting_def uint8_is_character_def config_ttl_def read_member_def
        split: list.splits)
qed

theorem ttl_read_as_character_witness:
  "\<exists>e. Configuration sample_build sample_po
     [''mping-sender'', ''--bind-address'', ''::1'', ''--interface-name'', ''eth0'', ''--ttl'', ''64'']
     (sample_machine :: (sec_view, nat) machine) = (Throw e, sample_machine)"
proof -
  let ?args = "[''mping-sender'', ''--bind-address'', ''::1'', ''--interface-name'', ''eth0'',
    ''--ttl'', ''64'']"
  have r: "po_run sample_po command_line_style True (options sample_build) ?args =
      Val [(''bind-address'', ''::1''), (''interface-name'', ''eth0''), (''ttl'', ''64'')]"
    by (simp add: sample_po_def)
  from ttl_read_as_character [OF sample_po_laws r, of "''64''" "sample_machine :: (sec_view, nat) machine"]
  show ?thesis by simp
qed

text \<open>
  C32: The constructor of the configuration ends the process only for \<open>--help\<close>, and then always with
  status 0 and before anything else: a command line that can be read and contains the option
  ends so whether or not the required options are there, and no log filter is set.
\<close>

theorem help_exits_first:
  assumes "po_laws po"
  shows "(fst (Configuration B po args m) = Exit c \<longleftrightarrow> c = 0
      \<and> (\<exists>parsed vm. po_run po command_line_style True (options B) args = Val parsed
          \<and> po_store po (options B) parsed = Val vm \<and> map_of parsed ''help'' \<noteq> None))
    \<and> (fst (Configuration B po args m) = Exit c \<longrightarrow> snd (Configuration B po args m) = m)"
  using assms
proof (cases rule: Configuration_outcome [where B = B and args = args and m = m])
  case (returns c' m' bp p t)
  then show ?thesis using Configuration_help [OF assms, of B args _ _ m] by fastforce
next
  case (throws e)
  then show ?thesis using Configuration_help [OF assms, of B args _ _ m] by fastforce
next
  case (exits parsed vm)
  then show ?thesis by auto
qed

theorem help_exits_first_witness:
  "fst (Configuration sample_build sample_po [''mping-sender'', ''--help'']
      (sample_machine :: (sec_view, nat) machine)) = Exit 0
    \<and> calls (snd (Configuration sample_build sample_po [''mping-sender'', ''--help'']
      (sample_machine :: (sec_view, nat) machine))) = []"
proof -
  have "po_run sample_po command_line_style True (options sample_build)
      [''mping-sender'', ''--help''] = Val [(''help'', '''')]"
    and "po_store sample_po (options sample_build) [(''help'', '''')] =
      Val (sample_lookup (options sample_build) [(''help'', '''')])"
    by (simp_all add: sample_po_def options_def sample_build_def)
  with help_exits_first [OF sample_po_laws(1), of sample_build "[''mping-sender'', ''--help'']"
      "sample_machine :: (sec_view, nat) machine" 0]
  show ?thesis by (auto simp: sample_machine_def)
qed

end
