(* ===== verification/Event_Loop.thy ===== *)
theory Event_Loop
  imports MPing_Prelude
begin

text \<open>
  The \<open>boost::asio::io_context\<close> as the program sees it: which asynchronous operations it has
  started that are not completed yet, what it asked of each, and the reference-counted strings it
  keeps alive for them. When and with which error code an operation completes is not the
  program's choice: a completion is an event, and a schedule of completions is an argument of
  everything that runs the loop. The second half is the induction principle of such runs, as two
  locales that the sender interprets.
\<close>

subsection \<open>Outstanding operations\<close>

text \<open>
  A wait remembers the expiry time of the timer when it was started. A send has the address of
  its buffer, the endpoint, and the shared pointers that its completion handler holds. The heap
  maps an address to the string that \<open>std::make_shared\<close> put there and its reference count.
  \<open>submitted\<close> and \<open>transmitted\<close> record the datagrams as their buffers were when the send was
  started and when it completed.
\<close>

type_synonym 'a endpoint = "'a \<times> u16"

record 'a send_op =
  op_id :: nat
  op_buffer :: nat
  op_endpoint :: "'a endpoint"
  op_captures :: "nat list"

record 'a io_context =
  next_op :: nat
  timer_expiry :: int
  waits :: "(nat \<times> int) list"
  aborted_waits :: "nat list"
  sends :: "'a send_op list"
  heap :: "nat \<rightharpoonup> byte list \<times> nat"
  next_address :: nat
  submitted :: "(byte list \<times> 'a endpoint) list"
  transmitted :: "(byte list \<times> 'a endpoint) list"

definition io_context_new :: "'a io_context" where
  "io_context_new = \<lparr>next_op = 0, timer_expiry = 0, waits = [], aborted_waits = [], sends = [],
     heap = Map.empty, next_address = 0, submitted = [], transmitted = []\<rparr>"

text \<open>Shared pointers: the last one to go frees the string.\<close>

definition make_shared :: "byte list \<Rightarrow> ('a io_context, nat) prog" where
  "make_shared message = (\<lambda>i. (Val (next_address i),
     i\<lparr>heap := (heap i)(next_address i \<mapsto> (message, 1)), next_address := next_address i + 1\<rparr>))"

definition copy_shared :: "nat \<Rightarrow> ('a io_context, unit) prog" where
  "copy_shared p = (\<lambda>i. case heap i p of
       None \<Rightarrow> (Undefined, i)
     | Some (s, n) \<Rightarrow> (Val (), i\<lparr>heap := (heap i)(p \<mapsto> (s, n + 1))\<rparr>))"

definition destroy_shared :: "nat \<Rightarrow> ('a io_context, unit) prog" where
  "destroy_shared p = (\<lambda>i. case heap i p of
       None \<Rightarrow> (Undefined, i)
     | Some (s, n) \<Rightarrow> (Val (), i\<lparr>heap := (heap i)(p := if n \<le> 1 then None else Some (s, n - 1))\<rparr>))"

text \<open>
  \<open>steady_timer::expires_after\<close> sets the expiry time and cancels the waits that are pending;
  \<open>async_wait\<close> starts one. Times are nanoseconds of the steady clock.
\<close>

definition expires_after :: "u64 \<Rightarrow> int \<Rightarrow> ('a io_context, unit) prog" where
  "expires_after now duration = (\<lambda>i. (Val (),
     i\<lparr>timer_expiry := sint now + duration, aborted_waits := aborted_waits i @ map fst (waits i),
       waits := []\<rparr>))"

definition async_wait :: "('a io_context, unit) prog" where
  "async_wait = (\<lambda>i. (Val (),
     i\<lparr>waits := waits i @ [(next_op i, timer_expiry i)], next_op := next_op i + 1\<rparr>))"

definition async_send_to :: "nat \<Rightarrow> 'a endpoint \<Rightarrow> nat list \<Rightarrow> ('a io_context, unit) prog" where
  "async_send_to buffer endpoint captures = (\<lambda>i. case heap i buffer of
       None \<Rightarrow> (Undefined, i)
     | Some (s, _) \<Rightarrow> (Val (),
         i\<lparr>sends := sends i @ [\<lparr>op_id = next_op i, op_buffer = buffer, op_endpoint = endpoint,
                                op_captures = captures\<rparr>],
           next_op := next_op i + 1, submitted := submitted i @ [(s, endpoint)]\<rparr>))"

text \<open>
  Taking an operation off the list when it completes. A send that succeeds has read its buffer: a
  buffer that is gone by then is undefined behaviour.
\<close>

definition end_wait :: "nat \<Rightarrow> ('a io_context, unit) prog" where
  "end_wait oid = (\<lambda>i. (Val (),
     i\<lparr>waits := filter (\<lambda>w. fst w \<noteq> oid) (waits i),
       aborted_waits := filter (\<lambda>w. w \<noteq> oid) (aborted_waits i)\<rparr>))"

definition end_send :: "nat \<Rightarrow> int \<Rightarrow> ('a io_context, nat list) prog" where
  "end_send oid ec = (\<lambda>i. case find (\<lambda>op. op_id op = oid) (sends i) of
       None \<Rightarrow> (Undefined, i)
     | Some op \<Rightarrow>
         (let i' = i\<lparr>sends := filter (\<lambda>op. op_id op \<noteq> oid) (sends i)\<rparr>
          in if ec \<noteq> 0 then (Val (op_captures op), i')
             else case heap i (op_buffer op) of
               None \<Rightarrow> (Undefined, i')
             | Some (s, _) \<Rightarrow> (Val (op_captures op),
                 i'\<lparr>transmitted := transmitted i @ [(s, op_endpoint op)]\<rparr>)))"

text \<open>\<open>io_context::run\<close> returns when nothing is outstanding.\<close>

definition no_work :: "'a io_context \<Rightarrow> bool" where
  "no_work i \<longleftrightarrow> waits i = [] \<and> aborted_waits i = [] \<and> sends i = []"

subsection \<open>Runs\<close>

text \<open>
  A run of a system whose step on an event leads from one state to another: the events of the
  run, in order, and the states before and after.
\<close>

inductive exec :: "('e \<Rightarrow> 's \<Rightarrow> 's \<Rightarrow> bool) \<Rightarrow> 's \<Rightarrow> 'e list \<Rightarrow> 's \<Rightarrow> bool"
  for step :: "'e \<Rightarrow> 's \<Rightarrow> 's \<Rightarrow> bool"
where
  exec_Nil: "exec step s [] s"
| exec_Cons: "step e s s' \<Longrightarrow> exec step s' es s'' \<Longrightarrow> exec step s (e # es) s''"

inductive_simps exec_Nil_iff [simp]: "exec step s [] s'"
inductive_simps exec_Cons_iff: "exec step s (e # es) s''"

text \<open>A predicate that every step keeps.\<close>

locale kept_by_steps =
  fixes step :: "'e \<Rightarrow> 's \<Rightarrow> 's \<Rightarrow> bool"
    and inv :: "'s \<Rightarrow> bool"
  assumes step_keeps: "inv s \<Longrightarrow> step e s s' \<Longrightarrow> inv s'"
begin

lemma exec_keeps: "exec step s es s' \<Longrightarrow> inv s \<Longrightarrow> inv s'"
  by (induction rule: exec.induct) (auto intro: step_keeps)

end

text \<open>
  A functional refinement under an invariant: on the abstract state each event acts as a
  function, and every run ends in the state that the abstract machine computes.
\<close>

locale refines_machine = kept_by_steps +
  fixes abs :: "'s \<Rightarrow> 'b"
    and next_abs :: "'e \<Rightarrow> 'b \<Rightarrow> 'b"
  assumes step_refines: "inv s \<Longrightarrow> step e s s' \<Longrightarrow> abs s' = next_abs e (abs s)"
begin

lemma exec_refines: "exec step s es s' \<Longrightarrow> inv s \<Longrightarrow> abs s' = fold next_abs es (abs s)"
  by (induction rule: exec.induct) (simp_all add: step_refines step_keeps)

end

end
