(* ===== verification/Multicast_Tx_Socket.thy ===== *)
theory Multicast_Tx_Socket
  imports Host_Sample Event_Loop "HOL-Library.Multiset"
begin

text \<open>
  \<open>src/posix_wrapper.cpp\<close> and \<open>src/multicast_tx_socket.cpp\<close>: opening, configuring and binding the
  UDP socket, and sending a datagram with a buffer that lives until the send completes. Calls of
  the operating system go through the machine of \<open>Host_System\<close>, asynchronous operations through
  the \<open>io_context\<close>. Writing to the log is left out.
\<close>

subsection \<open>Model\<close>

definition if_nametoindex :: "('w, 'a) os \<Rightarrow> string \<Rightarrow> (('w, 'a) machine, int) prog" where
  "if_nametoindex os ifname =
     bindM (ext (If_nametoindex ifname) (os_if_nametoindex os ifname)) (\<lambda>result.
       if result = 0 then throw_errno os ''Failed to get interface index.'' else returnM result)"

type_synonym error_handler = "int \<Rightarrow> unit outcome"

record tx_socket =
  t_socket :: nat
  t_error_handler :: error_handler

definition set_option :: "('w, 'a) os \<Rightarrow> nat \<Rightarrow> sock_opt \<Rightarrow> (('w, 'a) machine, unit) prog" where
  "set_option os socket opt = ext_throwing (Socket_set_option opt) (socket_set_option os socket opt)"

definition MulticastTxSocket ::
    "('w, 'a) os \<Rightarrow> error_handler \<Rightarrow> 'a endpoint \<Rightarrow> u8 \<Rightarrow> string
     \<Rightarrow> (('w, 'a) machine, tx_socket) prog" where
  "MulticastTxSocket os error_handler endpoint hops interface =
     bindM (ext_throwing (Socket_open (fst endpoint)) (socket_open os (fst endpoint))) (\<lambda>socket.
     thenM (set_option os socket (Reuse_address True))
     (bindM (if_nametoindex os interface) (\<lambda>index.
     thenM (set_option os socket (Outbound_interface index))
     (thenM (set_option os socket (Enable_loopback True))
     (thenM (set_option os socket (Multicast_hops hops))
     (thenM (set_option os socket (Receive_buffer_size 0))
     (thenM (ext_throwing (Socket_bind (fst endpoint) (snd endpoint))
               (socket_bind os socket (fst endpoint) (snd endpoint)))
     (returnM \<lparr>t_socket = socket, t_error_handler = error_handler\<rparr>))))))))"

text \<open>
  \<open>sdata\<close> is a local variable that the handler copies: the string has two owners until the
  function returns, then one.
\<close>

definition tx_send_packet ::
    "byte list \<Rightarrow> 'a endpoint \<Rightarrow> ('a io_context, unit) prog" where
  "tx_send_packet message endpoint =
     bindM (make_shared message) (\<lambda>sdata.
     thenM (copy_shared sdata)
     (thenM (async_send_to sdata endpoint [sdata])
     (destroy_shared sdata)))"

text \<open>The completion handler; its shared pointers go with it, also when it throws.\<close>

definition tx_handler :: "tx_socket \<Rightarrow> int \<Rightarrow> unit outcome" where
  "tx_handler this ec = (if ec \<noteq> 0 then t_error_handler this ec else Val ())"

definition tx_complete :: "tx_socket \<Rightarrow> nat \<Rightarrow> int \<Rightarrow> ('a io_context, unit) prog" where
  "tx_complete this oid ec =
     bindM (end_send oid ec) (\<lambda>captures.
       finallyM (liftM (tx_handler this ec)) (seqM (map destroy_shared captures)))"

subsection \<open>The constructor\<close>

lemma ext_throwing_Val:
  "ext_throwing c f m = (Val r, m') \<longleftrightarrow>
     (\<exists>w. f (world m) = (Val r, w) \<and> m' = m\<lparr>world := w, calls := calls m @ [c]\<rparr>)"
  by (cases "f (world m)") (auto simp: ext_throwing_def bind_ext_app)

lemma set_option_Val:
  "set_option os socket opt m = (Val u, m') \<longleftrightarrow>
     (\<exists>w. socket_set_option os socket opt (world m) = (Val u, w)
        \<and> m' = m\<lparr>world := w, calls := calls m @ [Socket_set_option opt]\<rparr>)"
  by (simp add: set_option_def ext_throwing_Val)

lemma if_nametoindex_Val:
  "if_nametoindex os ifname m = (Val k, m') \<longleftrightarrow>
     (\<exists>w. os_if_nametoindex os ifname (world m) = (k, w) \<and> k \<noteq> 0
        \<and> m' = m\<lparr>world := w, calls := calls m @ [If_nametoindex ifname]\<rparr>)"
  by (cases "os_if_nametoindex os ifname (world m)") (auto simp: if_nametoindex_def bind_ext_app)

lemma appends_set_option [appends_intros]:
  "P (Socket_set_option opt) \<Longrightarrow> appends P (set_option os socket opt)"
  by (simp add: set_option_def appends_intros)

lemma appends_if_nametoindex [appends_intros]:
  "P (If_nametoindex ifname) \<Longrightarrow> appends P (if_nametoindex os ifname)"
  by (auto simp: if_nametoindex_def intro!: appends_intros)

lemma appends_MulticastTxSocket:
  "appends network_call (MulticastTxSocket os h endpoint hops interface)"
  by (auto simp: MulticastTxSocket_def intro!: appends_intros)

text \<open>The calls of a constructor that returns, given the index of the interface.\<close>

definition tx_socket_calls :: "'a endpoint \<Rightarrow> u8 \<Rightarrow> string \<Rightarrow> int \<Rightarrow> 'a call list" where
  "tx_socket_calls endpoint hops interface index =
     [Socket_open (fst endpoint), Socket_set_option (Reuse_address True),
      If_nametoindex interface, Socket_set_option (Outbound_interface index),
      Socket_set_option (Enable_loopback True), Socket_set_option (Multicast_hops hops),
      Socket_set_option (Receive_buffer_size 0), Socket_bind (fst endpoint) (snd endpoint)]"

lemma MulticastTxSocket_Val:
  assumes "MulticastTxSocket os h endpoint hops interface m = (Val sock, m')"
  shows "\<exists>index. index \<noteq> 0 \<and> calls m' = calls m @ tx_socket_calls endpoint hops interface index"
    and "t_error_handler sock = h"
  using assms
  by (auto simp: MulticastTxSocket_def bindM_eq_Val thenM_eq_Val ext_throwing_Val set_option_Val
      if_nametoindex_Val tx_socket_calls_def)

subsection \<open>Buffers\<close>

text \<open>
  The discipline of the buffers: every outstanding send has a buffer of its own, alive, whose only
  owner is the send's handler, and nothing else is on the heap.
\<close>

definition buffers_owned :: "'a io_context \<Rightarrow> bool" where
  "buffers_owned i \<longleftrightarrow>
     (\<forall>op \<in> set (sends i). op_captures op = [op_buffer op] \<and> op_id op < next_op i
        \<and> op_buffer op < next_address i \<and> (\<exists>s. heap i (op_buffer op) = Some (s, 1)))
   \<and> distinct (map op_buffer (sends i)) \<and> distinct (map op_id (sends i))
   \<and> dom (heap i) = op_buffer ` set (sends i)"

text \<open>The datagrams that are still to be read from their buffers.\<close>

definition datagram :: "'a io_context \<Rightarrow> 'a send_op \<Rightarrow> byte list \<times> 'a endpoint" where
  "datagram i op =
     (case heap i (op_buffer op) of Some (s, _) \<Rightarrow> s | None \<Rightarrow> [], op_endpoint op)"

definition pending_datagrams :: "'a io_context \<Rightarrow> (byte list \<times> 'a endpoint) list" where
  "pending_datagrams i = map (datagram i) (sends i)"

definition datagrams_conserved :: "'a io_context \<Rightarrow> bool" where
  "datagrams_conserved i \<longleftrightarrow>
     mset (submitted i) = mset (transmitted i) + mset (pending_datagrams i)"

lemma tx_send_packet_eq:
  "tx_send_packet message endpoint i = (Val (),
     i\<lparr>heap := (heap i)(next_address i \<mapsto> (message, 1)), next_address := next_address i + 1,
       sends := sends i @ [\<lparr>op_id = next_op i, op_buffer = next_address i,
                            op_endpoint = endpoint, op_captures = [next_address i]\<rparr>],
       next_op := next_op i + 1, submitted := submitted i @ [(message, endpoint)]\<rparr>)"
  by (simp add: tx_send_packet_def make_shared_def copy_shared_def async_send_to_def
      destroy_shared_def bindM_def thenM_def)

lemma tx_send_packet_owned:
  assumes "buffers_owned i" and "tx_send_packet message endpoint i = (r, i')"
  shows "buffers_owned i'"
proof -
  have "op_buffer op \<noteq> next_address i" "op_id op \<noteq> next_op i"
      "\<exists>s. heap i (op_buffer op) = Some (s, 1)" "op_captures op = [op_buffer op]"
      "op_buffer op < Suc (next_address i)" "op_id op < Suc (next_op i)" if "op \<in> set (sends i)" for op
    using assms(1) that by (fastforce simp: buffers_owned_def)+
  note facts = this
  have i': "i' = snd (tx_send_packet message endpoint i)" using assms(2) by simp
  have ends: "\<forall>op \<in> set (sends i). next_address i \<noteq> op_buffer op \<and> next_op i \<noteq> op_id op"
    using facts(1,2) by metis
  show ?thesis
    unfolding i' tx_send_packet_eq snd_conv
    using assms(1) facts ends by (simp add: buffers_owned_def image_iff less_Suc_eq)
qed

lemma tx_send_packet_conserves:
  assumes "buffers_owned i" and "datagrams_conserved i"
    and "tx_send_packet message endpoint i = (r, i')"
  shows "datagrams_conserved i'"
proof -
  have "op_buffer op \<noteq> next_address i" if "op \<in> set (sends i)" for op
    using assms(1) that by (fastforce simp: buffers_owned_def)
  then have "pending_datagrams i' = pending_datagrams i @ [(message, endpoint)]"
    using assms(3) by (auto simp: tx_send_packet_eq pending_datagrams_def datagram_def)
  then show ?thesis
    using assms(2,3) by (auto simp: tx_send_packet_eq datagrams_conserved_def)
qed

lemma sends_split:
  assumes "distinct (map op_id ops)" and "op \<in> set ops"
  obtains xs ys where "ops = xs @ op # ys" and "find (\<lambda>o'. op_id o' = op_id op) ops = Some op"
    and "filter (\<lambda>o'. op_id o' \<noteq> op_id op) ops = xs @ ys"
proof -
  obtain xs ys where ops: "ops = xs @ op # ys" using assms(2) by (meson split_list)
  have ne: "\<forall>o' \<in> set (xs @ ys). op_id o' \<noteq> op_id op"
    using assms(1) by (auto simp: ops image_iff)
  then have "find (\<lambda>o'. op_id o' = op_id op) (xs @ op # ys) = Some op"
    by (induction xs) auto
  with ne that ops show ?thesis by (auto simp: filter_id_conv)
qed

text \<open>
  What a completion does: the operation and its string are gone, the datagram counts as
  transmitted unless there was an error, and the handler decides how it ends.
\<close>

lemma tx_complete_eq:
  assumes "buffers_owned i" and "op \<in> set (sends i)"
  obtains s where "heap i (op_buffer op) = Some (s, 1)"
    and "tx_complete this (op_id op) ec i = (tx_handler this ec,
      i\<lparr>sends := filter (\<lambda>o'. op_id o' \<noteq> op_id op) (sends i),
        heap := (heap i)(op_buffer op := None),
        transmitted := if ec \<noteq> 0 then transmitted i else transmitted i @ [(s, op_endpoint op)]\<rparr>)"
proof -
  have "distinct (map op_id (sends i))" using assms(1) by (simp add: buffers_owned_def)
  then obtain xs ys where f: "find (\<lambda>o'. op_id o' = op_id op) (sends i) = Some op"
    using assms(2) by (rule sends_split)
  obtain s where s: "heap i (op_buffer op) = Some (s, 1)" and c: "op_captures op = [op_buffer op]"
    using assms by (auto simp: buffers_owned_def)
  with f that show ?thesis
    by (auto simp: tx_complete_def end_send_def finallyM_def bindM_def thenM_def destroy_shared_def
        returnM_def Let_def)
qed

lemma tx_complete_fst:
  assumes "buffers_owned i" and "op \<in> set (sends i)"
  shows "fst (tx_complete this (op_id op) ec i) = tx_handler this ec"
  by (rule tx_complete_eq [OF assms, where this = this and ec = ec]) simp

lemma tx_complete_owned:
  assumes "buffers_owned i" and "op \<in> set (sends i)"
  shows "buffers_owned (snd (tx_complete this (op_id op) ec i))"
proof -
  have d: "distinct (map op_id (sends i))" "distinct (map op_buffer (sends i))"
    using assms(1) by (simp_all add: buffers_owned_def)
  obtain xs ys where ops: "sends i = xs @ op # ys"
    and f: "filter (\<lambda>o'. op_id o' \<noteq> op_id op) (sends i) = xs @ ys"
    using d(1) assms(2) by (rule sends_split)
  obtain s where "tx_complete this (op_id op) ec i = (tx_handler this ec,
      i\<lparr>sends := xs @ ys, heap := (heap i)(op_buffer op := None),
        transmitted := if ec \<noteq> 0 then transmitted i else transmitted i @ [(s, op_endpoint op)]\<rparr>)"
    using assms by (rule tx_complete_eq) (simp add: f)
  moreover have ne: "op_buffer op \<notin> op_buffer ` set (xs @ ys)"
    using d(2) by (auto simp: ops)
  then have "\<forall>o' \<in> set (xs @ ys). op_buffer o' \<noteq> op_buffer op"
    by (metis imageI)
  moreover have "dom (heap i) - {op_buffer op} = op_buffer ` set (xs @ ys)"
    using assms(1) ne by (auto simp: buffers_owned_def ops)
  ultimately show ?thesis
    using assms(1) by (simp add: buffers_owned_def ops ball_Un image_Un inf_sup_distrib1)
qed

lemma tx_complete_conserves:
  assumes "buffers_owned i" and "op \<in> set (sends i)" and "datagrams_conserved i"
  shows "datagrams_conserved (snd (tx_complete this (op_id op) 0 i))"
proof -
  have d: "distinct (map op_id (sends i))" "distinct (map op_buffer (sends i))"
    using assms(1) by (simp_all add: buffers_owned_def)
  obtain xs ys where ops: "sends i = xs @ op # ys"
    and f: "filter (\<lambda>o'. op_id o' \<noteq> op_id op) (sends i) = xs @ ys"
    using d(1) assms(2) by (rule sends_split)
  obtain s where s: "heap i (op_buffer op) = Some (s, 1)"
    and eq: "tx_complete this (op_id op) 0 i = (tx_handler this 0,
      i\<lparr>sends := xs @ ys, heap := (heap i)(op_buffer op := None),
        transmitted := transmitted i @ [(s, op_endpoint op)]\<rparr>)" (is "_ = (_, ?i)")
    using assms(1,2) by (rule tx_complete_eq [where ec = 0]) (simp add: f)
  have "pending_datagrams ?i = map (datagram i) (xs @ ys)"
    using d by (auto simp: pending_datagrams_def datagram_def ops image_iff)
  moreover have "datagram i op = (s, op_endpoint op)"
    using s by (simp add: datagram_def)
  ultimately have "datagrams_conserved ?i"
    using assms(3) by (simp add: datagrams_conserved_def) (simp add: pending_datagrams_def ops)
  with eq show ?thesis by simp
qed

subsection \<open>Properties\<close>

text \<open>
  C21: The socket is configured before it is bound: it is opened for the protocol of the
  bind address, gets all its options (address reuse, the outgoing interface by its index,
  loopback, hop limit, no receive buffer) and is bound last. A constructor that returns has made
  exactly these calls, with a nonzero index.
\<close>

theorem socket_configured_before_bind:
  assumes "MulticastTxSocket os h endpoint hops interface m = (Val sock, m')"
  shows "\<exists>index. index \<noteq> 0 \<and> calls m' = calls m @
     [Socket_open (fst endpoint), Socket_set_option (Reuse_address True),
      If_nametoindex interface, Socket_set_option (Outbound_interface index),
      Socket_set_option (Enable_loopback True), Socket_set_option (Multicast_hops hops),
      Socket_set_option (Receive_buffer_size 0), Socket_bind (fst endpoint) (snd endpoint)]"
  using MulticastTxSocket_Val(1) [OF assms] by (simp add: tx_socket_calls_def)

lemma sample_tx_socket:
  "\<exists>m'. MulticastTxSocket sample_os h endpoint hops ''eth0'' sample_machine =
     (Val \<lparr>t_socket = 4, t_error_handler = h\<rparr>, m')"
  by (simp add: MulticastTxSocket_def thenM_def bindM_def ext_throwing_def ext_app set_option_def
      if_nametoindex_def sample_os_def)

theorem socket_configured_before_bind_witness:
  "\<exists>m' index. MulticastTxSocket sample_os (\<lambda>_. Val ()) (0 :: nat, 4321) 64 ''eth0'' sample_machine =
      (Val \<lparr>t_socket = 4, t_error_handler = \<lambda>_. Val ()\<rparr>, m')
    \<and> index \<noteq> 0 \<and> length (calls m') = 8 \<and> calls m' ! 3 = Socket_set_option (Outbound_interface index)"
proof -
  obtain m' where m': "MulticastTxSocket sample_os (\<lambda>_. Val ()) (0 :: nat, 4321) 64 ''eth0'' sample_machine =
      (Val \<lparr>t_socket = 4, t_error_handler = \<lambda>_. Val ()\<rparr>, m')"
    using sample_tx_socket by blast
  with socket_configured_before_bind [OF m'] show ?thesis
    by (auto simp: sample_machine_def)
qed

text \<open>
  C22: An interface the system does not know stops the constructor. If the socket was opened and
  its first option set, and \<open>if_nametoindex\<close> then returns 0, the constructor throws the system
  error of \<open>if_nametoindex\<close> with its message; these three calls are all it has made, so the socket
  is not bound.
\<close>

theorem unknown_interface_rejected:
  assumes "socket_open os (fst endpoint) (world m) = (Val socket, w1)"
    and "socket_set_option os socket (Reuse_address True) w1 = (Val (), w2)"
    and "os_if_nametoindex os interface w2 = (0, w3)"
  shows "MulticastTxSocket os h endpoint hops interface m =
    (Throw (SystemError (os_errno os w3) ''Failed to get interface index.''),
     m\<lparr>world := w3, calls := calls m @ [Socket_open (fst endpoint),
         Socket_set_option (Reuse_address True), If_nametoindex interface]\<rparr>)"
  using assms
  by (simp add: MulticastTxSocket_def set_option_def ext_throwing_def if_nametoindex_def
      bind_ext_app thenM_def bindM_def ext_app throw_errno_def)

theorem unknown_interface_rejected_witness:
  "fst (MulticastTxSocket sample_os (\<lambda>_. Val ()) (0 :: nat, 4321) 64 ''wlan9'' sample_machine) =
    Throw (SystemError (os_errno (sample_os :: (sec_view, nat) os) (world (sample_machine :: (sec_view, nat) machine)))
      ''Failed to get interface index.'')"
proof -
  let ?w = "world (sample_machine :: (sec_view, nat) machine)"
  have "socket_open sample_os (fst (0 :: nat, 4321 :: u16)) ?w = (Val 4, ?w)"
    and "socket_set_option (sample_os :: (sec_view, nat) os) 4 (Reuse_address True) ?w = (Val (), ?w)"
    and "os_if_nametoindex (sample_os :: (sec_view, nat) os) ''wlan9'' ?w = (0, ?w)"
    by (simp_all add: sample_os_def)
  from unknown_interface_rejected [OF this] show ?thesis by simp
qed

end
