(* ===== verification/MPing_Sender.thy ===== *)
theory MPing_Sender
  imports MPing_State Multicast_Tx_Socket
begin

text \<open>
  \<open>src/mping_sender.cpp\<close>: the sender, its timer and its completion handlers, and the event loop
  that calls them. The loop is driven by a schedule of completions, which is the behaviour of
  Boost.Asio and of the network and is an argument; \<open>due\<close> says which completions Asio may deliver
  in a state. The clock readings of a handler come with the completion that calls it.
\<close>

subsection \<open>Model\<close>

record 'a sender =
  s_socket :: tx_socket
  s_state :: "'a mping_state"
  s_timer_error_handler :: error_handler
  s_endpoint :: "'a endpoint"

text \<open>
  The sender together with the loop that it runs on. Modifying an object that is declared
  \<open>const\<close> is undefined behaviour even through a pointer that its constructor has kept, as the
  handlers have. \<open>const_object\<close> says whether the object was declared so, and \<open>const_writes\<close> counts
  the modifications of its members since then; the members take the values that a compiler
  which keeps the object in ordinary storage gives them.
\<close>

record 'a running =
  sender_of :: "'a sender"
  io_of :: "'a io_context"
  const_object :: bool
  const_writes :: nat

definition note_write :: "('a running, unit) prog" where
  "note_write = (\<lambda>s. (Val (),
     s\<lparr>const_writes := const_writes s + (if const_object s then 1 else 0)\<rparr>))"

definition on_io :: "('a io_context, 'r) prog \<Rightarrow> ('a running, 'r) prog" where
  "on_io f = (\<lambda>s. let (r, i) = f (io_of s) in (r, s\<lparr>io_of := i\<rparr>))"

definition on_state :: "('a mping_state \<Rightarrow> 'a mping_state) \<Rightarrow> ('a running, unit) prog" where
  "on_state f = thenM note_write (\<lambda>s. (Val (),
     s\<lparr>sender_of := (sender_of s)\<lparr>s_state := f (s_state (sender_of s))\<rparr>\<rparr>))"

text \<open>\<open>_timer\<close> is a member of the sender: setting its expiry time modifies the object.\<close>

definition schedule_send :: "u64 \<Rightarrow> ('a running, unit) prog" where
  "schedule_send now =
     thenM note_write (thenM (on_io (expires_after now 1000000000)) (on_io async_wait))"

definition send_packet ::
    "endian \<Rightarrow> ('a, 'v4, 'v6) asio \<Rightarrow> u64 \<Rightarrow> ('a running, unit) prog" where
  "send_packet native A now =
     thenM (on_state (set_current_time now))
     (bindM (\<lambda>s. (serialize native A (s_state (sender_of s)), s)) (\<lambda>message.
     thenM (on_state next_seq_no)
     (\<lambda>s. on_io (tx_send_packet message (s_endpoint (sender_of s))) s)))"

text \<open>
  The handler that \<open>schedule_send\<close> installs. It reads the clock twice: to set the timer anew and
  to stamp the packet.
\<close>

definition timer_handler ::
    "endian \<Rightarrow> ('a, 'v4, 'v6) asio \<Rightarrow> int \<Rightarrow> u64 \<Rightarrow> u64 \<Rightarrow> ('a running, unit) prog" where
  "timer_handler native A ec now now' =
     (if ec \<noteq> 0
      then (\<lambda>s. (s_timer_error_handler (sender_of s) ec, s))
      else thenM (schedule_send now) (send_packet native A now'))"

definition Sender ::
    "endian \<Rightarrow> ('a, 'v4, 'v6) asio \<Rightarrow> ('w, 'a) os \<Rightarrow> error_handler \<Rightarrow> error_handler
     \<Rightarrow> string \<Rightarrow> u16 \<Rightarrow> string \<Rightarrow> u16 \<Rightarrow> u8 \<Rightarrow> string \<Rightarrow> (('w, 'a) machine, 'a running) prog" where
  "Sender native A os network_error_handler timer_error_handler
       bind_address bind_port address port ttl interface =
     bindM (liftM (make_address A bind_address)) (\<lambda>source.
     bindM (MulticastTxSocket os network_error_handler (source, bind_port) ttl interface) (\<lambda>socket.
     bindM (liftM (make_address A bind_address)) (\<lambda>src_host.
     bindM (liftM (make_address A address)) (\<lambda>dest_host.
     bindM (ext_throwing Random_number (random_number os)) (\<lambda>pid.
     bindM (liftM (make_address A address)) (\<lambda>destination m.
       let this = \<lparr>s_socket = socket,
                   s_state = MPingState_new pid SENDER ttl src_host bind_port dest_host port,
                   s_timer_error_handler = timer_error_handler,
                   s_endpoint = (destination, port)\<rparr>;
           (r, s) = schedule_send (steady_clock_now os (world m))
                      \<lparr>sender_of = this, io_of = io_context_new, const_object = False,
                       const_writes = 0\<rparr>
       in (bindO r (\<lambda>_. Val s), m)))))))"

subsection \<open>The event loop\<close>

text \<open>
  A completion: of the wait or the send with that number, with an error code (0 is success), and
  the two clock readings of the timer's handler.
\<close>

datatype completion = Timer_done nat int u64 u64 | Send_done nat int

text \<open>
  What Asio promises: only an outstanding operation completes; a wait succeeds only when its expiry
  time has passed, which the steady clock then shows; a cancelled wait completes with an error.
\<close>

fun due :: "'a io_context \<Rightarrow> completion \<Rightarrow> bool" where
  "due i (Timer_done k ec now now') =
     (list_ex (\<lambda>(k', expiry). k' = k \<and> (ec = 0 \<longrightarrow> expiry \<le> sint now \<and> sint now \<le> sint now')) (waits i)
      \<or> k \<in> set (aborted_waits i) \<and> ec \<noteq> 0)"
| "due i (Send_done k ec) = list_ex (\<lambda>op. op_id op = k) (sends i)"

fun dispatch ::
    "endian \<Rightarrow> ('a, 'v4, 'v6) asio \<Rightarrow> completion \<Rightarrow> ('a running, unit) prog" where
  "dispatch native A (Timer_done k ec now now') =
     thenM (on_io (end_wait k)) (timer_handler native A ec now now')"
| "dispatch native A (Send_done k ec) =
     (\<lambda>s. on_io (tx_complete (s_socket (sender_of s)) k ec) s)"

text \<open>
  \<open>io.run()\<close> on a schedule. The result is \<open>Some\<close> outcome when \<open>run\<close> ends, by returning for lack of
  work or by the exception of a handler, and \<open>None\<close> when the schedule is used up and \<open>run\<close> is
  still waiting.
\<close>

fun io_run :: "endian \<Rightarrow> ('a, 'v4, 'v6) asio \<Rightarrow> completion list \<Rightarrow> 'a running
    \<Rightarrow> unit outcome option \<times> 'a running" where
  "io_run native A [] s = (if no_work (io_of s) then (Some (Val ()), s) else (None, s))"
| "io_run native A (c # cs) s =
     (if no_work (io_of s) then (Some (Val ()), s)
      else case dispatch native A c s of
        (Val _, s') \<Rightarrow> io_run native A cs s'
      | (r, s') \<Rightarrow> (Some r, s'))"

text \<open>A schedule that Asio may deliver: every completion is due when it comes.\<close>

fun schedule_ok :: "endian \<Rightarrow> ('a, 'v4, 'v6) asio \<Rightarrow> completion list \<Rightarrow> 'a running \<Rightarrow> bool" where
  "schedule_ok native A [] s = True"
| "schedule_ok native A (c # cs) s =
     (due (io_of s) c \<and>
      (case dispatch native A c s of (Val _, s') \<Rightarrow> schedule_ok native A cs s' | _ \<Rightarrow> True))"

fun failed :: "completion \<Rightarrow> bool" where
  "failed (Timer_done k ec now now') = (ec \<noteq> 0)"
| "failed (Send_done k ec) = (ec \<noteq> 0)"

text \<open>One turn of the loop, as a relation: a due completion whose handler returns.\<close>

inductive turn ::
    "endian \<Rightarrow> ('a, 'v4, 'v6) asio \<Rightarrow> completion \<Rightarrow> 'a running \<Rightarrow> 'a running \<Rightarrow> bool"
  for native :: endian and A :: "('a, 'v4, 'v6) asio"
where
  turn: "due (io_of s) c \<Longrightarrow> dispatch native A c s = (Val u, s') \<Longrightarrow> turn native A c s s'"

inductive_cases turnE: "turn native A c s s'"

subsection \<open>What a turn does\<close>

lemma on_io_app: "on_io f s = (fst (f (io_of s)), s\<lparr>io_of := snd (f (io_of s))\<rparr>)"
  by (simp add: on_io_def split: prod.split)

lemma on_state_app:
  "on_state f s = (Val (), s\<lparr>sender_of := (sender_of s)\<lparr>s_state := f (s_state (sender_of s))\<rparr>,
     const_writes := const_writes s + (if const_object s then 1 else 0)\<rparr>)"
  by (simp add: on_state_def thenM_def bindM_def note_write_def)

lemma schedule_send_app:
  "schedule_send now s = (Val (), s\<lparr>io_of := (io_of s)
     \<lparr>timer_expiry := sint now + 1000000000,
      aborted_waits := aborted_waits (io_of s) @ map fst (waits (io_of s)),
      waits := [(next_op (io_of s), sint now + 1000000000)],
      next_op := next_op (io_of s) + 1\<rparr>,
      const_writes := const_writes s + (if const_object s then 1 else 0)\<rparr>)"
  by (simp add: schedule_send_def thenM_def bindM_def on_io_app expires_after_def async_wait_def
      note_write_def)

text \<open>The time is set before the packet is built, and the packet before the number advances.\<close>

definition stamped :: "u64 \<Rightarrow> 'a running \<Rightarrow> 'a mping_state" where
  "stamped now s = set_current_time now (s_state (sender_of s))"

lemma send_packet_app:
  assumes "serialize native A (stamped now s) = Val message"
  shows "send_packet native A now s = (Val (),
    s\<lparr>sender_of := (sender_of s)\<lparr>s_state := next_seq_no (stamped now s)\<rparr>,
      io_of := snd (tx_send_packet message (s_endpoint (sender_of s)) (io_of s)),
      const_writes := const_writes s + (if const_object s then 2 else 0)\<rparr>)"
  using assms
  by (simp add: send_packet_def thenM_def bindM_def on_io_app on_state_app stamped_def
      tx_send_packet_eq)

lemma send_packet_Val:
  assumes "send_packet native A now s = (Val u, s')"
  obtains message where "serialize native A (stamped now s) = Val message"
  using assms
  by (cases "serialize native A (stamped now s)")
    (auto simp: send_packet_def thenM_def bindM_def on_state_app stamped_def)

subsection \<open>The invariant\<close>

definition single_wait :: "'a io_context \<Rightarrow> bool" where
  "single_wait i \<longleftrightarrow> aborted_waits i = [] \<and> (\<exists>k. waits i = [(k, timer_expiry i)])"

text \<open>The error handlers of the sender never return normally: those of \<open>main\<close> throw.\<close>

definition handlers_stop :: "'a sender \<Rightarrow> bool" where
  "handlers_stop this \<longleftrightarrow>
     (\<forall>ec. \<not> is_val (t_error_handler (s_socket this) ec) \<and> \<not> is_val (s_timer_error_handler this ec))"

definition counted :: "'a running \<Rightarrow> bool" where
  "counted s \<longleftrightarrow>
     m_sequence_number (s_state (sender_of s)) = of_nat (length (submitted (io_of s)))"

definition sender_inv :: "'a running \<Rightarrow> bool" where
  "sender_inv s \<longleftrightarrow> handlers_stop (sender_of s) \<and> counted s \<and> single_wait (io_of s)
     \<and> buffers_owned (io_of s) \<and> datagrams_conserved (io_of s)"

lemma due_single_wait:
  assumes "single_wait i" and "due i (Timer_done k ec now now')"
  shows "waits i = [(k, timer_expiry i)]" and "aborted_waits i = []"
    and "ec = 0 \<Longrightarrow> timer_expiry i \<le> sint now \<and> sint now \<le> sint now'"
  using assms by (auto simp: single_wait_def)

text \<open>The loop after the wait that has completed is taken off and the timer is set anew.\<close>

definition rearmed :: "u64 \<Rightarrow> 'a io_context \<Rightarrow> 'a io_context" where
  "rearmed now i = i\<lparr>timer_expiry := sint now + 1000000000,
     aborted_waits := [], waits := [(next_op i, sint now + 1000000000)], next_op := next_op i + 1\<rparr>"

definition after_tick :: "byte list \<Rightarrow> u64 \<Rightarrow> u64 \<Rightarrow> 'a running \<Rightarrow> 'a running" where
  "after_tick message now now' s =
     s\<lparr>sender_of := (sender_of s)\<lparr>s_state := next_seq_no (stamped now' s)\<rparr>,
       io_of := snd (tx_send_packet message (s_endpoint (sender_of s)) (rearmed now (io_of s))),
       const_writes := const_writes s + (if const_object s then 3 else 0)\<rparr>"

lemma dispatch_tick:
  assumes "single_wait (io_of s)" and "due (io_of s) (Timer_done k 0 now now')"
    and "serialize native A (stamped now' s) = Val message"
  shows "dispatch native A (Timer_done k 0 now now') s = (Val (), after_tick message now now' s)"
proof -
  note w = due_single_wait [OF assms(1,2)]
  let ?s = "s\<lparr>io_of := rearmed now (io_of s),
    const_writes := const_writes s + (if const_object s then 1 else 0)\<rparr>"
  have "stamped now' ?s = stamped now' s" by (simp add: stamped_def)
  then have "send_packet native A now' ?s = (Val (), after_tick message now now' s)"
    using assms(3) by (simp add: send_packet_app after_tick_def)
  then show ?thesis
    using w by (simp add: timer_handler_def thenM_def bindM_def on_io_app end_wait_def
        schedule_send_app rearmed_def)
qed

text \<open>A handler of the timer that returns was called without an error and has built a packet.\<close>

lemma returning_tick:
  assumes "dispatch native A (Timer_done k ec now now') s = (Val u, s')"
    and "handlers_stop (sender_of s)"
  obtains message where "ec = 0" and "serialize native A (stamped now' s) = Val message"
proof -
  have "is_val (s_timer_error_handler (sender_of s) ec)" if "ec \<noteq> 0"
    using assms(1) that by (simp add: timer_handler_def thenM_def bindM_def on_io_app end_wait_def)
  then have ok: "ec = 0" using assms(2) by (auto simp: handlers_stop_def)
  then have "\<exists>s1 s2. send_packet native A now' s1 = (Val (), s2) \<and> stamped now' s1 = stamped now' s"
    using assms(1)
    by (auto simp: timer_handler_def thenM_def bindM_eq_Val on_io_app end_wait_def
        schedule_send_app stamped_def)
  with ok that show thesis by (auto elim!: send_packet_Val)
qed

text \<open>Which turns there are: a tick of the timer or a successful send.\<close>

lemma turn_cases:
  assumes "turn native A c s s'" and "single_wait (io_of s)" and "handlers_stop (sender_of s)"
    and "buffers_owned (io_of s)"
  obtains (tick) k now now' message where "c = Timer_done k 0 now now'"
      and "timer_expiry (io_of s) \<le> sint now" and "sint now \<le> sint now'"
      and "serialize native A (stamped now' s) = Val message"
      and "s' = after_tick message now now' s"
  | (sent) op where "c = Send_done (op_id op) 0" and "op \<in> set (sends (io_of s))"
      and "s' = s\<lparr>io_of := snd (tx_complete (s_socket (sender_of s)) (op_id op) 0 (io_of s))\<rparr>"
  using assms(1)
proof (rule turnE)
  fix u
  assume due: "due (io_of s) c" and d: "dispatch native A c s = (Val u, s')"
  show thesis
  proof (cases c)
    case (Timer_done k ec now now')
    note w = due_single_wait [OF assms(2) due [unfolded Timer_done]]
    from d [unfolded Timer_done] assms(3) obtain message where "ec = 0"
      and m: "serialize native A (stamped now' s) = Val message"
      by (rule returning_tick)
    then show thesis
      using w(3) tick [OF _ _ _ m] d Timer_done dispatch_tick [OF assms(2) _ m] due by simp
  next
    case (Send_done k ec)
    then obtain op where op: "op \<in> set (sends (io_of s))" "op_id op = k"
      using due by (auto simp: list_ex_iff)
    let ?sock = "s_socket (sender_of s)"
    have "fst (tx_complete ?sock (op_id op) ec (io_of s)) = tx_handler ?sock ec"
      using assms(4) op(1) by (rule tx_complete_fst)
    with d Send_done op(2) have "tx_handler ?sock ec = Val u"
      by (simp add: on_io_app)
    with assms(3) have "ec = 0"
      by (auto simp: tx_handler_def handlers_stop_def split: if_splits) (metis is_val_simps(1))
    with d Send_done op show thesis by (auto simp: on_io_app intro: sent)
  qed
qed

lemma rearmed_simps [simp]:
  "buffers_owned i \<Longrightarrow> buffers_owned (rearmed now i)"
  "datagrams_conserved (rearmed now i) = datagrams_conserved i"
  "single_wait (rearmed now i)"
  "submitted (rearmed now i) = submitted i"
  by (auto simp: rearmed_def buffers_owned_def datagrams_conserved_def pending_datagrams_def
      datagram_def [abs_def] single_wait_def)

lemma tx_send_packet_keeps:
  assumes "buffers_owned i" and "datagrams_conserved i" and "single_wait i"
  shows "buffers_owned (snd (tx_send_packet message endpoint i))"
    and "datagrams_conserved (snd (tx_send_packet message endpoint i))"
    and "single_wait (snd (tx_send_packet message endpoint i))"
proof -
  obtain r i' where eq: "tx_send_packet message endpoint i = (r, i')" by fastforce
  with assms show "buffers_owned (snd (tx_send_packet message endpoint i))"
    and "datagrams_conserved (snd (tx_send_packet message endpoint i))"
    by (simp_all add: tx_send_packet_owned [OF _ eq] tx_send_packet_conserves [OF _ _ eq])
  show "single_wait (snd (tx_send_packet message endpoint i))"
    using assms(3) by (simp add: tx_send_packet_eq single_wait_def)
qed

lemma tx_complete_frame:
  assumes "buffers_owned i" and "op \<in> set (sends i)"
  shows "waits (snd (tx_complete this (op_id op) ec i)) = waits i"
    and "aborted_waits (snd (tx_complete this (op_id op) ec i)) = aborted_waits i"
    and "timer_expiry (snd (tx_complete this (op_id op) ec i)) = timer_expiry i"
    and "submitted (snd (tx_complete this (op_id op) ec i)) = submitted i"
  by (rule tx_complete_eq [OF assms, where this = this and ec = ec], simp)+

lemma turn_keeps_inv:
  assumes "sender_inv s" and "turn native A c s s'"
  shows "sender_inv s'"
proof -
  have inv: "single_wait (io_of s)" "handlers_stop (sender_of s)" "buffers_owned (io_of s)"
    "datagrams_conserved (io_of s)" "counted s"
    using assms(1) by (simp_all add: sender_inv_def)
  from assms(2) inv(1-3) show ?thesis
  proof (cases rule: turn_cases)
    case (tick k now now' message)
    have "counted s'"
      using inv(5)
      by (simp add: tick(5) counted_def after_tick_def tx_send_packet_eq stamped_def
          set_current_time_def next_seq_no_eq)
    with inv show ?thesis
      by (simp add: tick(5) sender_inv_def after_tick_def handlers_stop_def tx_send_packet_keeps)
  next
    case (sent op)
    with inv show ?thesis
      by (simp add: sender_inv_def counted_def single_wait_def tx_complete_frame
          tx_complete_owned tx_complete_conserves)
  qed
qed

subsection \<open>Specification: a beacon\<close>

text \<open>
  What the sender is for: a beacon with a fixed template sends, on every tick of the clock, the
  packet with the next number and the time of the tick to its endpoint. Completed sends do not
  concern it.
\<close>

record 'a beacon =
  b_template :: "'a mping_state"
  b_endpoint :: "'a endpoint"
  b_sent :: "(byte list \<times> 'a endpoint) list"

definition numbered :: "'a mping_state \<Rightarrow> nat \<Rightarrow> u64 \<Rightarrow> 'a mping_state" where
  "numbered st k now = st\<lparr>m_sequence_number := of_nat k, m_tv := now\<rparr>"

definition wire_packet :: "endian \<Rightarrow> ('a, 'v4, 'v6) asio \<Rightarrow> 'a mping_state \<Rightarrow> byte list" where
  "wire_packet native A st = (case serialize native A st of Val bs \<Rightarrow> bs | _ \<Rightarrow> [])"

fun beacon_step ::
    "endian \<Rightarrow> ('a, 'v4, 'v6) asio \<Rightarrow> completion \<Rightarrow> 'a beacon \<Rightarrow> 'a beacon" where
  "beacon_step native A (Timer_done k ec now now') b =
     b\<lparr>b_sent := b_sent b @
        [(wire_packet native A (numbered (b_template b) (length (b_sent b)) now'), b_endpoint b)]\<rparr>"
| "beacon_step native A (Send_done k ec) b = b"

definition beacon_of :: "'a running \<Rightarrow> 'a beacon" where
  "beacon_of s = \<lparr>b_template = numbered (s_state (sender_of s)) 0 0,
     b_endpoint = s_endpoint (sender_of s), b_sent = submitted (io_of s)\<rparr>"

lemma turn_refines_beacon:
  assumes "sender_inv s" and "turn native A c s s'"
  shows "beacon_of s' = beacon_step native A c (beacon_of s)"
proof -
  have inv: "single_wait (io_of s)" "handlers_stop (sender_of s)" "buffers_owned (io_of s)"
    "counted s"
    using assms(1) by (simp_all add: sender_inv_def)
  from assms(2) inv(1-3) show ?thesis
  proof (cases rule: turn_cases)
    case (tick k now now' message)
    have "numbered (numbered (s_state (sender_of s)) 0 0) (length (submitted (io_of s))) now' =
        stamped now' s"
      using inv(4) by (simp add: numbered_def stamped_def set_current_time_def counted_def)
    then show ?thesis
      using tick(4)
      by (simp add: tick(1,5) beacon_of_def after_tick_def tx_send_packet_eq wire_packet_def
          numbered_def next_seq_no_eq stamped_def set_current_time_def)
  next
    case (sent op)
    with inv(3) show ?thesis by (simp add: beacon_of_def tx_complete_frame)
  qed
qed

interpretation sender_loop: kept_by_steps "turn native A" sender_inv
  for native :: endian and A :: "('a, 'v4, 'v6) asio"
  by unfold_locales (rule turn_keeps_inv)

interpretation sender_beacon:
  refines_machine "turn native A" sender_inv beacon_of "beacon_step native A"
  for native :: endian and A :: "('a, 'v4, 'v6) asio"
  by unfold_locales (rule turn_refines_beacon)

text \<open>The times at which the timer's handler stamped a packet.\<close>

fun tick_times :: "completion list \<Rightarrow> u64 list" where
  "tick_times [] = []"
| "tick_times (Timer_done k ec now now' # cs) = now' # tick_times cs"
| "tick_times (Send_done k ec # cs) = tick_times cs"

lemma beacon_run:
  "fold (beacon_step native A) cs b = b\<lparr>b_sent := b_sent b @
     map (\<lambda>(k, now). (wire_packet native A (numbered (b_template b) k now), b_endpoint b))
       (enumerate (length (b_sent b)) (tick_times cs))\<rparr>"
  by (induction cs arbitrary: b rule: tick_times.induct) simp_all

subsection \<open>Running the loop\<close>

lemma single_wait_work [simp]: "single_wait i \<Longrightarrow> \<not> no_work i"
  by (auto simp: single_wait_def no_work_def)

text \<open>With Boost's laws a due completion without an error is always a turn.\<close>

lemma due_turn:
  assumes "asio_laws A" and "sender_inv s" and "due (io_of s) c" and "\<not> failed c"
  obtains s' where "dispatch native A c s = (Val (), s')" and "turn native A c s s'"
proof -
  have inv: "single_wait (io_of s)" "buffers_owned (io_of s)"
    using assms(2) by (simp_all add: sender_inv_def)
  have "\<exists>s'. dispatch native A c s = (Val (), s')"
  proof (cases c)
    case (Timer_done k ec now now')
    have m: "serialize native A (stamped now' s) = Val (packet_image A (stamped now' s))"
      using assms(1) by (rule serialize_image)
    show ?thesis
      using dispatch_tick [OF inv(1) _ m] assms(3,4) Timer_done by auto
  next
    case (Send_done k ec)
    then obtain op where op: "op \<in> set (sends (io_of s))" "op_id op = k"
      using assms(3) by (auto simp: list_ex_iff)
    with Send_done assms(4) show ?thesis
      using tx_complete_fst [OF inv(2) op(1), of "s_socket (sender_of s)" ec]
      by (simp add: on_io_app tx_handler_def)
  qed
  with that assms(3) show ?thesis by (auto intro: turn)
qed

text \<open>A failed completion goes to one of the two error handlers, and its exception ends the run.\<close>

definition fatal_error_handler :: error_handler where
  "fatal_error_handler ec = Throw (RuntimeError ''Fatal error'')"

definition fatal_handlers :: "'a sender \<Rightarrow> bool" where
  "fatal_handlers this \<longleftrightarrow> t_error_handler (s_socket this) = fatal_error_handler
     \<and> s_timer_error_handler this = fatal_error_handler"

lemma fatal_handlers_stop: "fatal_handlers this \<Longrightarrow> handlers_stop this"
  by (simp add: fatal_handlers_def handlers_stop_def fatal_error_handler_def)

lemma dispatch_failed:
  assumes "sender_inv s" and "fatal_handlers (sender_of s)"
    and "due (io_of s) c" and "failed c"
  shows "fst (dispatch native A c s) = Throw (RuntimeError ''Fatal error'')"
proof (cases c)
  case (Timer_done k ec now now')
  with assms(2,4) show ?thesis
    by (simp add: timer_handler_def thenM_def bindM_def on_io_app end_wait_def fatal_handlers_def
        fatal_error_handler_def)
next
  case (Send_done k ec)
  then obtain op where op: "op \<in> set (sends (io_of s))" "op_id op = k"
    using assms(3) by (auto simp: list_ex_iff)
  with Send_done assms show ?thesis
    using tx_complete_fst [OF _ op(1), of "s_socket (sender_of s)" ec]
    by (simp add: on_io_app tx_handler_def sender_inv_def fatal_handlers_def
        fatal_error_handler_def)
qed

lemma turn_keeps_handlers:
  "turn native A c s s' \<Longrightarrow> sender_inv s \<Longrightarrow> fatal_handlers (sender_of s') = fatal_handlers (sender_of s)"
  by (erule turn_cases) (auto simp: sender_inv_def after_tick_def fatal_handlers_def)

text \<open>Without a failure, the run is still going at the end of the schedule.\<close>

lemma io_run_exec:
  assumes "asio_laws A" and "sender_inv s" and "schedule_ok native A cs s"
    and "list_all (\<lambda>c. \<not> failed c) cs"
  shows "\<exists>s'. io_run native A cs s = (None, s') \<and> exec (turn native A) s cs s'"
  using assms(2-4)
proof (induction cs arbitrary: s)
  case Nil
  then show ?case by (simp add: sender_inv_def)
next
  case (Cons c cs)
  then obtain s' where d: "dispatch native A c s = (Val (), s')" and t: "turn native A c s s'"
    using due_turn [OF assms(1), of s c native] by auto
  moreover have "sender_inv s'" using Cons.prems(1) t by (rule turn_keeps_inv)
  ultimately show ?case
    using Cons by (auto simp: exec_Cons_iff sender_inv_def) (meson exec_Cons)
qed

lemma io_run_failed:
  assumes "asio_laws A" and "sender_inv s" and "fatal_handlers (sender_of s)"
    and "schedule_ok native A cs s" and "\<not> list_all (\<lambda>c. \<not> failed c) cs"
  shows "fst (io_run native A cs s) = Some (Throw (RuntimeError ''Fatal error''))"
  using assms(2-5)
proof (induction cs arbitrary: s)
  case (Cons c cs)
  have due: "due (io_of s) c" and work: "\<not> no_work (io_of s)"
    using Cons.prems(1,3) by (simp_all add: sender_inv_def)
  show ?case
  proof (cases "failed c")
    case True
    with Cons.prems(1,2) due have "fst (dispatch native A c s) = Throw (RuntimeError ''Fatal error'')"
      by (rule dispatch_failed)
    with work show ?thesis by (cases "dispatch native A c s") simp
  next
    case False
    then obtain s' where d: "dispatch native A c s = (Val (), s')" and t: "turn native A c s s'"
      using due_turn [OF assms(1) Cons.prems(1) due] by metis
    then show ?thesis
      using Cons work False turn_keeps_inv [OF Cons.prems(1) t]
        turn_keeps_handlers [OF t Cons.prems(1)] by simp
  qed
qed simp

subsection \<open>The constructor\<close>

definition new_io :: "u64 \<Rightarrow> 'a io_context" where
  "new_io now = io_context_new
     \<lparr>timer_expiry := sint now + 1000000000, waits := [(0, sint now + 1000000000)], next_op := 1\<rparr>"

text \<open>
  A sender as its constructor leaves it at time \<open>t0\<close>, whether or not the object is declared
  \<open>const\<close>.
\<close>

definition fresh_sender ::
    "('a, 'v4, 'v6) asio \<Rightarrow> error_handler \<Rightarrow> error_handler \<Rightarrow> string \<Rightarrow> u16 \<Rightarrow> string \<Rightarrow> u16 \<Rightarrow> u8 \<Rightarrow> u64
     \<Rightarrow> 'a running \<Rightarrow> bool" where
  "fresh_sender A h h' bind_address bind_port address port ttl t0 s \<longleftrightarrow>
     (\<exists>src dst pid socket. make_address A bind_address = Val src \<and> make_address A address = Val dst
        \<and> sender_of s = \<lparr>s_socket = socket,
            s_state = MPingState_new pid SENDER ttl src bind_port dst port,
            s_timer_error_handler = h', s_endpoint = (dst, port)\<rparr>
        \<and> t_error_handler socket = h)
   \<and> io_of s = new_io t0 \<and> const_writes s = 0"

lemma Sender_Val:
  assumes "Sender native A os h h' bind_address bind_port address port ttl interface m = (Val s, m')"
  shows "fresh_sender A h h' bind_address bind_port address port ttl
      (steady_clock_now os (world m')) s"
    and "\<not> const_object s"
    and "\<exists>src index. index \<noteq> 0 \<and> calls m' = calls m
      @ tx_socket_calls (src, bind_port) ttl interface index @ [Random_number]"
proof -
  from assms obtain src socket m1 dst pid w where
    src: "make_address A bind_address = Val src"
    and sock: "MulticastTxSocket os h (src, bind_port) ttl interface m = (Val socket, m1)"
    and dst: "make_address A address = Val dst"
    and m': "m' = m1\<lparr>world := w, calls := calls m1 @ [Random_number]\<rparr>"
    and s: "s = \<lparr>sender_of = \<lparr>s_socket = socket,
        s_state = MPingState_new pid SENDER ttl src bind_port dst port,
        s_timer_error_handler = h', s_endpoint = (dst, port)\<rparr>,
        io_of = new_io (steady_clock_now os w), const_object = False, const_writes = 0\<rparr>"
    by (auto simp: Sender_def bindM_eq_Val ext_throwing_Val schedule_send_app new_io_def
        io_context_new_def Let_def)
  from MulticastTxSocket_Val [OF sock] show "fresh_sender A h h' bind_address bind_port address port ttl
      (steady_clock_now os (world m')) s"
    and "\<not> const_object s"
    and "\<exists>src index. index \<noteq> 0 \<and> calls m' = calls m
      @ tx_socket_calls (src, bind_port) ttl interface index @ [Random_number]"
    using src dst by (auto simp: m' s fresh_sender_def)
qed

lemma fresh_sender_const [simp]:
  "fresh_sender A h h' ba bp a p ttl t0 (s\<lparr>const_object := b\<rparr>) = fresh_sender A h h' ba bp a p ttl t0 s"
  by (simp add: fresh_sender_def)

lemma numbered_new:
  "numbered (MPingState_new pid type ttl src sport dst dport) k now =
     MPingState_full type ttl src sport dst dport (of_nat k) pid now"
  "numbered (MPingState_full type ttl src sport dst dport n pid t) k now =
     MPingState_full type ttl src sport dst dport (of_nat k) pid now"
  by (simp_all add: numbered_def MPingState_new_def MPingState_full_def)

lemma numbered_numbered [simp]: "numbered (numbered st j t) k now = numbered st k now"
  by (simp add: numbered_def)

lemma new_io_simps [simp]:
  "submitted (new_io now) = []" "timer_expiry (new_io now) = sint now + 1000000000"
  "single_wait (new_io now)" "buffers_owned (new_io now)" "datagrams_conserved (new_io now)"
  by (simp_all add: new_io_def io_context_new_def single_wait_def buffers_owned_def
      datagrams_conserved_def pending_datagrams_def)

abbreviation fresh ::
    "('a, 'v4, 'v6) asio \<Rightarrow> string \<Rightarrow> u16 \<Rightarrow> string \<Rightarrow> u16 \<Rightarrow> u8 \<Rightarrow> u64 \<Rightarrow> 'a running \<Rightarrow> bool" where
  "fresh A \<equiv> fresh_sender A fatal_error_handler fatal_error_handler"

lemma fresh_inv:
  assumes "fresh A bind_address bind_port address port ttl t0 s"
  shows "sender_inv s" and "fatal_handlers (sender_of s)"
proof -
  from assms show fatal: "fatal_handlers (sender_of s)"
    by (auto simp: fresh_sender_def fatal_handlers_def)
  from assms have "counted s" and "single_wait (io_of s)" and "buffers_owned (io_of s)"
    and "datagrams_conserved (io_of s)"
    by (auto simp: fresh_sender_def counted_def MPingState_new_def)
  then show "sender_inv s"
    using fatal_handlers_stop [OF fatal] by (simp add: sender_inv_def)
qed

text \<open>Every run of a sender that was constructed keeps the invariant and refines the beacon.\<close>

lemma fresh_run:
  assumes "asio_laws A" and "fresh A bind_address bind_port address port ttl t0 s"
    and "schedule_ok native A cs s" and "list_all (\<lambda>c. \<not> failed c) cs"
  obtains s' where "io_run native A cs s = (None, s')" and "exec (turn native A) s cs s'"
    and "sender_inv s'" and "beacon_of s' = fold (beacon_step native A) cs (beacon_of s)"
proof -
  note inv = fresh_inv [OF assms(2)]
  obtain s' where "io_run native A cs s = (None, s')" and ex: "exec (turn native A) s cs s'"
    using io_run_exec [OF assms(1) inv(1) assms(3,4)] by blast
  with that sender_loop.exec_keeps [OF ex inv(1)] sender_beacon.exec_refines [OF ex inv(1)]
  show ?thesis by blast
qed

text \<open>A loop that is still running has seen no failure.\<close>

lemma fresh_reaches:
  assumes "asio_laws A" and "fresh A bind_address bind_port address port ttl t0 s"
    and "schedule_ok native A cs s" and "io_run native A cs s = (None, s')"
  shows "list_all (\<lambda>c. \<not> failed c) cs" and "sender_inv s'"
proof -
  show ok: "list_all (\<lambda>c. \<not> failed c) cs"
    using io_run_failed [OF assms(1) fresh_inv [OF assms(2)] assms(3)] assms(4) by fastforce
  from assms(1-3) ok show "sender_inv s'"
    by (rule fresh_run) (use assms(4) in auto)
qed

text \<open>What it has then handed to its socket.\<close>

lemma fresh_submits:
  assumes "asio_laws A" and "fresh A bind_address bind_port address port ttl t0 s"
    and "schedule_ok native A cs s" and "list_all (\<lambda>c. \<not> failed c) cs"
  obtains s' src dst pid where "io_run native A cs s = (None, s')"
    and "make_address A bind_address = Val src" and "make_address A address = Val dst"
    and "submitted (io_of s') =
      map (\<lambda>(k, now). (packet_image A
             (MPingState_full SENDER ttl src bind_port dst port (of_nat k) pid now), (dst, port)))
        (enumerate 0 (tick_times cs))"
proof -
  from assms(2) obtain src dst pid socket where
    addresses: "make_address A bind_address = Val src" "make_address A address = Val dst"
    and members: "sender_of s = \<lparr>s_socket = socket,
      s_state = MPingState_new pid SENDER ttl src bind_port dst port,
      s_timer_error_handler = fatal_error_handler, s_endpoint = (dst, port)\<rparr>"
    and io: "io_of s = new_io t0"
    by (auto simp: fresh_sender_def)
  obtain s' where run: "io_run native A cs s = (None, s')"
    and ref: "beacon_of s' = fold (beacon_step native A) cs (beacon_of s)"
    using assms by (rule fresh_run)
  have packet: "wire_packet native A st = packet_image A st" for st
    using assms(1) by (simp add: wire_packet_def serialize_image)
  have "submitted (io_of s') =
      map (\<lambda>(k, now). (packet_image A
             (MPingState_full SENDER ttl src bind_port dst port (of_nat k) pid now), (dst, port)))
        (enumerate 0 (tick_times cs))"
    using arg_cong [OF ref, of b_sent]
    by (simp add: beacon_run) (simp add: beacon_of_def members io numbered_new packet)
  with run addresses show thesis by (rule that)
qed

subsection \<open>Writes to a const object\<close>

text \<open>
  On a sender that is declared \<open>const\<close> every tick makes three writes: the expiry time of the timer,
  the time of the state and its sequence number. On any other there is none to count.
\<close>

fun count_writes :: "completion \<Rightarrow> nat \<Rightarrow> nat" where
  "count_writes (Timer_done k ec now now') n = n + 3"
| "count_writes (Send_done k ec) n = n"

lemma turn_const:
  assumes "sender_inv s" and "turn native A c s s'"
  shows "const_object s' = const_object s"
    and "const_object s \<Longrightarrow> const_writes s' = count_writes c (const_writes s)"
proof -
  have inv: "single_wait (io_of s)" "handlers_stop (sender_of s)" "buffers_owned (io_of s)"
    using assms(1) by (simp_all add: sender_inv_def)
  from assms(2) inv show "const_object s' = const_object s"
    and "const_object s \<Longrightarrow> const_writes s' = count_writes c (const_writes s)"
    by (cases rule: turn_cases; simp add: after_tick_def)+
qed

interpretation sender_const: refines_machine "turn native A" "\<lambda>s. sender_inv s \<and> const_object s"
    const_writes count_writes
  for native :: endian and A :: "('a, 'v4, 'v6) asio"
  by unfold_locales (auto simp: turn_const intro: turn_keeps_inv)

lemma count_writes_run: "fold count_writes cs n = n + 3 * length (tick_times cs)"
  by (induction cs arbitrary: n rule: tick_times.induct) simp_all

lemma fresh_const_run:
  assumes "asio_laws A" and "fresh A bind_address bind_port address port ttl t0 s"
    and "const_object s"
    and "schedule_ok native A cs s" and "list_all (\<lambda>c. \<not> failed c) cs"
  obtains s' where "io_run native A cs s = (None, s')" and "const_object s'"
    and "const_writes s' = 3 * length (tick_times cs)"
proof -
  obtain s' where run: "io_run native A cs s = (None, s')" and ex: "exec (turn native A) s cs s'"
    using assms(1,2,4,5) by (rule fresh_run)
  have inv: "sender_inv s \<and> const_object s" using fresh_inv [OF assms(2)] assms(3) by simp
  have "const_writes s = 0" using assms(2) by (simp add: fresh_sender_def)
  with sender_const.exec_refines [OF ex inv] have "const_writes s' = 3 * length (tick_times cs)"
    by (simp add: count_writes_run)
  with run sender_const.exec_keeps [OF ex inv] that show thesis by blast
qed

lemma dispatch_not_const:
  assumes "\<not> const_object s"
  shows "\<not> const_object (snd (dispatch native A c s))
    \<and> const_writes (snd (dispatch native A c s)) = const_writes s"
  using assms
  by (cases c)
    (auto simp: timer_handler_def thenM_def bindM_def on_io_app end_wait_def schedule_send_app
      send_packet_def on_state_app split: outcome.splits)

lemma io_run_not_const:
  "\<not> const_object s \<Longrightarrow> const_writes (snd (io_run native A cs s)) = const_writes s"
proof (induction cs arbitrary: s)
  case (Cons c cs)
  then show ?case
    using dispatch_not_const [of s native A c]
    by (cases "dispatch native A c s"; cases "fst (dispatch native A c s)") auto
qed simp

subsection \<open>The pace\<close>

lemma turn_pace:
  assumes "sender_inv s" and "turn native A (Timer_done k ec now now') s s'"
  shows "timer_expiry (io_of s) \<le> sint now'"
    and "timer_expiry (io_of s) + 1000000000 \<le> timer_expiry (io_of s')"
proof -
  have inv: "single_wait (io_of s)" "handlers_stop (sender_of s)" "buffers_owned (io_of s)"
    using assms(1) by (simp_all add: sender_inv_def)
  from assms(2) inv show "timer_expiry (io_of s) \<le> sint now'"
    and "timer_expiry (io_of s) + 1000000000 \<le> timer_expiry (io_of s')"
    by (cases rule: turn_cases; simp add: after_tick_def tx_send_packet_eq rearmed_def)+
qed

lemma turn_sent_expiry:
  assumes "sender_inv s" and "turn native A (Send_done k ec) s s'"
  shows "timer_expiry (io_of s') = timer_expiry (io_of s)"
proof -
  have inv: "single_wait (io_of s)" "handlers_stop (sender_of s)" "buffers_owned (io_of s)"
    using assms(1) by (simp_all add: sender_inv_def)
  from assms(2) inv show ?thesis
    by (cases rule: turn_cases) (simp_all add: tx_complete_frame inv(3))
qed

lemma exec_pace:
  assumes "exec (turn native A) s cs s'" and "sender_inv s" and "k < length (tick_times cs)"
  shows "timer_expiry (io_of s) + int k * 1000000000 \<le> sint (tick_times cs ! k)"
  using assms
proof (induction arbitrary: k rule: exec.induct)
  case (exec_Cons c s s' cs s'')
  have inv: "sender_inv s'" using exec_Cons by (blast intro: turn_keeps_inv)
  show ?case
  proof (cases c)
    case (Timer_done w ec now now')
    note pace = turn_pace [OF exec_Cons.prems(1) exec_Cons.hyps(1) [unfolded Timer_done]]
    show ?thesis
    proof (cases k)
      case (Suc j)
      then have "timer_expiry (io_of s') + int j * 1000000000 \<le> sint (tick_times cs ! j)"
        using exec_Cons.IH [OF inv, of j] exec_Cons.prems(2) Timer_done by simp
      with pace(2) Timer_done Suc show ?thesis by simp
    qed (use pace(1) Timer_done in simp)
  next
    case (Send_done w ec)
    then show ?thesis
      using exec_Cons.IH [OF inv, of k] exec_Cons.prems
        turn_sent_expiry [OF exec_Cons.prems(1) exec_Cons.hyps(1) [unfolded Send_done]] by simp
  qed
qed simp

subsection \<open>An instance\<close>

text \<open>A schedule of three ticks on the sample system, with one send completing in between.\<close>

definition sample_schedule :: "completion list" where
  "sample_schedule = [Timer_done 0 0 1000000000 1000002000, Send_done 2 0,
     Timer_done 1 0 2000000000 2000002000, Timer_done 3 0 3500000000 3500001000]"

lemma sample_socket_machine:
  "\<exists>m'. MulticastTxSocket (sample_os :: (sec_view, 'a) os) h endpoint hops ''eth0'' m =
     (Val \<lparr>t_socket = 4, t_error_handler = h\<rparr>, m') \<and> world m' = world m"
  by (simp add: MulticastTxSocket_def thenM_def bindM_def ext_throwing_def ext_app set_option_def
      if_nametoindex_def sample_os_def)

definition sample_sender :: "ip_address running" where
  "sample_sender = \<lparr>sender_of = \<lparr>s_socket = \<lparr>t_socket = 4, t_error_handler = fatal_error_handler\<rparr>,
       s_state = MPingState_new 417936 SENDER 64 (IPv6 1) 4321
         (IPv6 0xff2e0000000000000000000000000042) 4321,
       s_timer_error_handler = fatal_error_handler,
       s_endpoint = (IPv6 0xff2e0000000000000000000000000042, 4321)\<rparr>,
     io_of = new_io 0, const_object = False, const_writes = 0\<rparr>"

lemma sample_Sender:
  "\<exists>m'. Sender Little sample_asio sample_os fatal_error_handler fatal_error_handler
      ''::1'' 4321 ''ff2e::42'' 4321 64 ''eth0'' m = (Val sample_sender, m')
    \<and> steady_clock_now (sample_os :: (sec_view, ip_address) os) (world m') = 0"
proof -
  have "make_address sample_asio ''::1'' = Val (IPv6 1)"
    and "make_address sample_asio ''ff2e::42'' = Val (IPv6 0xff2e0000000000000000000000000042)"
    by (simp_all add: sample_asio_def)
  moreover obtain m' where "MulticastTxSocket (sample_os :: (sec_view, ip_address) os)
      fatal_error_handler (IPv6 1, 4321) 64 ''eth0'' m =
      (Val \<lparr>t_socket = 4, t_error_handler = fatal_error_handler\<rparr>, m')"
    using sample_socket_machine by blast
  ultimately show ?thesis
    by (simp add: Sender_def bindM_def ext_throwing_def ext_app sample_os_def schedule_send_app
        sample_sender_def new_io_def io_context_new_def)
qed

lemma sample_const_schedule_ok:
  "schedule_ok Little sample_asio sample_schedule (sample_sender\<lparr>const_object := b\<rparr>)"
  by (simp add: sample_schedule_def sample_sender_def new_io_def io_context_new_def
      timer_handler_def thenM_def bindM_def on_io_app on_state_app end_wait_def schedule_send_app
      send_packet_def tx_send_packet_eq tx_complete_def end_send_def finallyM_def destroy_shared_def
      tx_handler_def Let_def serialize_image [OF sample_asio_laws])

lemma sample_schedule_ok:
  "schedule_ok Little sample_asio sample_schedule sample_sender"
  "list_all (\<lambda>c. \<not> failed c) sample_schedule"
  using sample_const_schedule_ok [of False]
  by (simp_all add: sample_sender_def sample_schedule_def)

subsection \<open>Properties\<close>

text \<open>
  C2: The sender implements the beacon. From a sender that was constructed, on any schedule of
  completions that Asio may deliver and in which nothing fails, the loop is still running at the
  end and the datagrams handed to the socket are exactly one per tick of the timer, in order: the
  \<open>k\<close>-th has sequence number \<open>k\<close> modulo \<open>2 ^ 32\<close>, the time of its tick, the configured addresses,
  ports and TTL and always the same PID, and goes to the configured endpoint.
\<close>

theorem sender_implements_beacon:
  assumes "asio_laws A"
    and "Sender native A os fatal_error_handler fatal_error_handler
      bind_address bind_port address port ttl interface m = (Val s, m')"
    and "schedule_ok native A cs s" and "list_all (\<lambda>c. \<not> failed c) cs"
  shows "\<exists>s' src dst pid. io_run native A cs s = (None, s')
    \<and> make_address A bind_address = Val src \<and> make_address A address = Val dst
    \<and> map (\<lambda>(bs, endpoint). (Val bs, endpoint)) (submitted (io_of s')) =
      map (\<lambda>(k, now). (serialize native A
             (MPingState_full SENDER ttl src bind_port dst port (of_nat k) pid now), (dst, port)))
        (enumerate 0 (tick_times cs))"
  using assms(1) Sender_Val(1) [OF assms(2)] assms(3,4)
proof (rule fresh_submits)
  fix s' src dst pid
  assume "io_run native A cs s = (None, s')" and "make_address A bind_address = Val src"
    and "make_address A address = Val dst"
    and "submitted (io_of s') =
      map (\<lambda>(k, now). (packet_image A
             (MPingState_full SENDER ttl src bind_port dst port (of_nat k) pid now), (dst, port)))
        (enumerate 0 (tick_times cs))"
  then show ?thesis
    using assms(1) by (auto simp: serialize_image comp_def split_def intro!: exI)
qed

theorem sender_implements_beacon_witness:
  "\<exists>s' src dst pid. io_run Little sample_asio sample_schedule sample_sender = (None, s')
    \<and> map (\<lambda>(bs, endpoint). (Val bs, endpoint)) (submitted (io_of s')) =
      map (\<lambda>(k, now). (serialize Little sample_asio
             (MPingState_full SENDER 64 src 4321 dst 4321 (of_nat k) pid now), (dst, 4321)))
        (enumerate 0 [1000002000, 2000002000, 3500001000])"
proof -
  obtain m' where "Sender Little sample_asio sample_os fatal_error_handler fatal_error_handler
      ''::1'' 4321 ''ff2e::42'' 4321 64 ''eth0'' sample_machine = (Val sample_sender, m')"
    using sample_Sender by blast
  moreover have ticks: "tick_times sample_schedule = [1000002000, 2000002000, 3500001000]"
    by (simp add: sample_schedule_def)
  ultimately show ?thesis
    using sender_implements_beacon [OF sample_asio_laws _ sample_schedule_ok] by (metis ticks)
qed

text \<open>
  C8: How a run of the loop ends, completely, for a sender that is not declared \<open>const\<close>. On a schedule
  that Asio may deliver, with the error handlers of \<open>main\<close>, \<open>io.run()\<close> ends if and only if a
  completion carries an error, and then by the exception \<open>Fatal error\<close>: it never returns for lack
  of work, no other exception leaves it, no handler uses a buffer that is gone, and none writes to
  a \<open>const\<close> object.
\<close>

theorem run_ends_only_by_error:
  assumes "asio_laws A"
    and "Sender native A os fatal_error_handler fatal_error_handler
      bind_address bind_port address port ttl interface m = (Val s, m')"
    and "schedule_ok native A cs s"
  shows "fst (io_run native A cs s) =
      (if list_ex failed cs then Some (Throw (RuntimeError ''Fatal error'')) else None)
    \<and> const_writes (snd (io_run native A cs s)) = 0"
proof -
  note fresh = Sender_Val(1) [OF assms(2)]
  have "const_writes (snd (io_run native A cs s)) = 0"
    using io_run_not_const [OF Sender_Val(2) [OF assms(2)]] fresh by (simp add: fresh_sender_def)
  moreover have "fst (io_run native A cs s) = Some (Throw (RuntimeError ''Fatal error''))"
    if "list_ex failed cs"
    using io_run_failed [OF assms(1) fresh_inv [OF fresh] assms(3)] that
    by (auto simp: list_ex_iff list_all_iff)
  moreover have "fst (io_run native A cs s) = None" if "\<not> list_ex failed cs"
  proof -
    have "list_all (\<lambda>c. \<not> failed c) cs" using that by (auto simp: list_ex_iff list_all_iff)
    with assms(1) fresh assms(3) show ?thesis by (rule fresh_run) simp
  qed
  ultimately show ?thesis by simp
qed

theorem run_ends_only_by_error_witness:
  "fst (io_run Little sample_asio [Timer_done 0 125 0 0, Send_done 2 0] sample_sender) =
    Some (Throw (RuntimeError ''Fatal error''))"
proof -
  obtain m' where s: "Sender Little sample_asio sample_os fatal_error_handler fatal_error_handler
      ''::1'' 4321 ''ff2e::42'' 4321 64 ''eth0'' sample_machine = (Val sample_sender, m')"
    using sample_Sender by blast
  have "schedule_ok Little sample_asio [Timer_done 0 125 0 0, Send_done 2 0] sample_sender"
    by (simp add: sample_sender_def new_io_def io_context_new_def timer_handler_def thenM_def
        bindM_def on_io_app end_wait_def fatal_error_handler_def)
  from run_ends_only_by_error [OF sample_asio_laws s this] show ?thesis by simp
qed

text \<open>
  C6: The timer discipline: whatever happens, exactly one wait is outstanding and none was cancelled,
  since the handler sets the timer only after its own wait has completed. The one wait waits for
  the expiry time of the timer. So the beacon neither stops nor doubles its pace.
\<close>

theorem one_wait_outstanding:
  assumes "asio_laws A"
    and "Sender native A os fatal_error_handler fatal_error_handler
      bind_address bind_port address port ttl interface m = (Val s, m')"
    and "schedule_ok native A cs s" and "io_run native A cs s = (None, s')"
  shows "\<exists>k. waits (io_of s') = [(k, timer_expiry (io_of s'))] \<and> aborted_waits (io_of s') = []"
  using fresh_reaches [OF assms(1) Sender_Val(1) [OF assms(2)] assms(3,4)] by (auto simp: sender_inv_def single_wait_def)

theorem one_wait_outstanding_witness:
  "\<exists>s' k. io_run Little sample_asio sample_schedule sample_sender = (None, s')
    \<and> waits (io_of s') = [(k, timer_expiry (io_of s'))] \<and> aborted_waits (io_of s') = []"
proof -
  obtain m' where s: "Sender Little sample_asio sample_os fatal_error_handler fatal_error_handler
      ''::1'' 4321 ''ff2e::42'' 4321 64 ''eth0'' sample_machine = (Val sample_sender, m')"
    using sample_Sender by blast
  obtain s' where r: "io_run Little sample_asio sample_schedule sample_sender = (None, s')"
    using fresh_run [OF sample_asio_laws Sender_Val(1) [OF s] sample_schedule_ok] by blast
  from one_wait_outstanding [OF sample_asio_laws s sample_schedule_ok(1) r] r show ?thesis by blast
qed

text \<open>
  C5: Memory safety of the asynchronous sends, and no leak. At every moment each outstanding send
  has a buffer of its own that is alive and that only its handler owns, and nothing else is
  allocated; and, as multisets, the datagrams handed over are those transmitted together with
  those still in the buffers, with their contents unchanged: nothing is lost, doubled or altered
  between \<open>async_send_to\<close> and its completion.
\<close>

theorem send_buffers_safe:
  assumes "asio_laws A"
    and "Sender native A os fatal_error_handler fatal_error_handler
      bind_address bind_port address port ttl interface m = (Val s, m')"
    and "schedule_ok native A cs s" and "io_run native A cs s = (None, s')"
  shows "list_all (\<lambda>op. \<exists>message. heap (io_of s') (op_buffer op) = Some (message, 1))
      (sends (io_of s'))
    \<and> distinct (map op_buffer (sends (io_of s')))
    \<and> dom (heap (io_of s')) = op_buffer ` set (sends (io_of s'))
    \<and> mset (submitted (io_of s')) =
      mset (transmitted (io_of s')) + mset (pending_datagrams (io_of s'))"
  using fresh_reaches [OF assms(1) Sender_Val(1) [OF assms(2)] assms(3,4)]
  by (simp add: sender_inv_def buffers_owned_def datagrams_conserved_def list_all_iff)

theorem send_buffers_safe_witness:
  "\<exists>s'. io_run Little sample_asio sample_schedule sample_sender = (None, s')
    \<and> dom (heap (io_of s')) = op_buffer ` set (sends (io_of s'))
    \<and> mset (submitted (io_of s')) =
      mset (transmitted (io_of s')) + mset (pending_datagrams (io_of s'))"
proof -
  obtain m' where s: "Sender Little sample_asio sample_os fatal_error_handler fatal_error_handler
      ''::1'' 4321 ''ff2e::42'' 4321 64 ''eth0'' sample_machine = (Val sample_sender, m')"
    using sample_Sender by blast
  obtain s' where r: "io_run Little sample_asio sample_schedule sample_sender = (None, s')"
    using fresh_run [OF sample_asio_laws Sender_Val(1) [OF s] sample_schedule_ok] by blast
  from send_buffers_safe [OF sample_asio_laws s sample_schedule_ok(1) r] r show ?thesis by blast
qed

text \<open>
  C10: The sender never floods the group: the \<open>k\<close>-th packet (from 0) is stamped at least \<open>k + 1\<close>
  seconds after the construction of the sender, on the steady clock, for every schedule on which
  nothing fails.
\<close>

theorem send_pace:
  assumes "asio_laws A"
    and "Sender native A os fatal_error_handler fatal_error_handler
      bind_address bind_port address port ttl interface m = (Val s, m')"
    and "schedule_ok native A cs s" and "list_all (\<lambda>c. \<not> failed c) cs"
    and "k < length (tick_times cs)"
  shows "sint (steady_clock_now os (world m')) + (int k + 1) * 1000000000 \<le> sint (tick_times cs ! k)"
proof -
  note fresh = Sender_Val(1) [OF assms(2)]
  have "timer_expiry (io_of s) = sint (steady_clock_now os (world m')) + 1000000000"
    using fresh by (simp add: fresh_sender_def)
  moreover obtain s' where "exec (turn native A) s cs s'"
    using assms(1) fresh assms(3,4) by (rule fresh_run)
  ultimately show ?thesis
    using exec_pace [OF _ fresh_inv(1) [OF fresh] assms(5)] by (simp add: algebra_simps)
qed

theorem send_pace_witness:
  "(3 :: int) * 1000000000 \<le> sint (tick_times sample_schedule ! 2)"
proof -
  obtain m' where s: "Sender Little sample_asio sample_os fatal_error_handler fatal_error_handler
      ''::1'' 4321 ''ff2e::42'' 4321 64 ''eth0'' sample_machine = (Val sample_sender, m')"
    and t: "steady_clock_now (sample_os :: (sec_view, ip_address) os) (world m') = 0"
    using sample_Sender by blast
  have "2 < length (tick_times sample_schedule)" by (simp add: sample_schedule_def)
  from send_pace [OF sample_asio_laws s sample_schedule_ok this] t show ?thesis by simp
qed

text \<open>
  C11: The beacon goes on for ever: from every state that a run without failure reaches, a tick is
  due as soon as the clock has passed the expiry time, and its handler hands one more datagram to
  the socket and is followed by the next wait.
\<close>

theorem sender_progress:
  assumes "asio_laws A"
    and "Sender native A os fatal_error_handler fatal_error_handler
      bind_address bind_port address port ttl interface m = (Val s, m')"
    and "schedule_ok native A cs s" and "io_run native A cs s = (None, s')"
    and "timer_expiry (io_of s') \<le> sint now" and "sint now \<le> sint now'"
  shows "\<exists>k s''. due (io_of s') (Timer_done k 0 now now')
    \<and> dispatch native A (Timer_done k 0 now now') s' = (Val (), s'')
    \<and> length (submitted (io_of s'')) = length (submitted (io_of s')) + 1
    \<and> waits (io_of s'') = [(next_op (io_of s'), sint now + 1000000000)]"
proof -
  have w: "single_wait (io_of s')"
    using fresh_reaches [OF assms(1) Sender_Val(1) [OF assms(2)] assms(3,4)] by (simp add: sender_inv_def)
  then obtain k where d: "due (io_of s') (Timer_done k 0 now now')"
    using assms(5,6) by (auto simp: single_wait_def)
  from dispatch_tick [OF w d serialize_image [OF assms(1)]] d show ?thesis
    by (auto simp: after_tick_def tx_send_packet_eq rearmed_def)
qed

theorem sender_progress_witness:
  "\<exists>k s''. dispatch Little sample_asio (Timer_done k 0 1000000000 1000000000) sample_sender = (Val (), s'')
    \<and> length (submitted (io_of s'')) = 1"
proof -
  obtain m' where s: "Sender Little sample_asio sample_os fatal_error_handler fatal_error_handler
      ''::1'' 4321 ''ff2e::42'' 4321 64 ''eth0'' sample_machine = (Val sample_sender, m')"
    using sample_Sender by blast
  have r: "io_run Little sample_asio [] sample_sender = (None, sample_sender)"
    and e: "timer_expiry (io_of sample_sender) \<le> sint (1000000000 :: u64)"
    and n: "submitted (io_of sample_sender) = []"
    by (simp_all add: sample_sender_def new_io_def io_context_new_def no_work_def)
  have "schedule_ok Little sample_asio [] sample_sender" by simp
  from sender_progress [OF sample_asio_laws s this r e order_refl] n show ?thesis by auto
qed

text \<open>
  C23: A bind address that is no address stops the constructor of the sender before it has touched
  the network; a destination that is none stops it before it draws a PID, so no timer is started
  and nothing is sent.
\<close>

theorem invalid_address_rejected:
  assumes "make_address A bad = Throw e"
  shows "Sender native A os h h' bad bind_port address port ttl interface m = (Throw e, m)
    \<and> \<not> is_val (fst (Sender native A os h h' bind_address bind_port bad port ttl interface m))
    \<and> Random_number \<notin> set (drop (length (calls m))
        (calls (snd (Sender native A os h h' bind_address bind_port bad port ttl interface m))))"
proof -
  let ?p = "Sender native A os h h' bind_address bind_port bad port ttl interface"
  have bad: "bindM (liftM (make_address A bad)) f = throwM e" for f :: "_ \<Rightarrow> ('s, 'r) prog"
    by (rule ext) (simp add: bindM_def assms)
  have "appends network_call ?p"
    by (auto simp: Sender_def bad intro!: appends_intros appends_MulticastTxSocket)
  moreover have "\<not> is_val (fst (?p m))"
    by (auto simp: Sender_def is_val_iff bindM_def assms split: outcome.splits prod.splits)
  moreover have "Sender native A os h h' bad bind_port address port ttl interface m = (Throw e, m)"
    by (simp add: Sender_def bad)
  ultimately show ?thesis
    by (fastforce elim!: appendsE [where m = m] simp: list_all_iff)
qed

theorem invalid_address_rejected_witness:
  "Sender Little sample_asio sample_os fatal_error_handler fatal_error_handler
      ''localhost'' 4321 ''ff2e::42'' 4321 64 ''eth0'' sample_machine =
    (Throw (LibraryError ''make_address: Invalid argument''), sample_machine)"
proof -
  have "make_address sample_asio ''localhost'' =
      Throw (LibraryError ''make_address: Invalid argument'')"
    by (simp add: sample_asio_def)
  from invalid_address_rejected [OF this] show ?thesis by blast
qed

end
