(* ===== verification/Main_Program.thy ===== *)
theory Main_Program
  imports Sandbox Configuration MPing_Sender
begin

text \<open>
  \<open>main\<close> of \<open>src/main.cpp\<close> as a whole: confinement, configuration, construction of the sender and
  the event loop, inside the \<open>try\<close> block whose handler turns every exception into
  \<open>EXIT_FAILURE\<close>. The lines that only write to the log are left out.
\<close>

subsection \<open>Model\<close>

text \<open>
  What follows the confinement: the configuration and the sender, which \<open>main\<close> declares \<open>const\<close>.
  An object is \<open>const\<close> from the end of its constructor on.
\<close>

definition after_sandbox ::
    "endian \<Rightarrow> ('a, 'v4, 'v6) asio \<Rightarrow> build \<Rightarrow> ('w, 'a) os \<Rightarrow> program_options \<Rightarrow> string list
     \<Rightarrow> (('w, 'a) machine, 'a running) prog" where
  "after_sandbox native A B os po args =
     bindM (Configuration B po args) (\<lambda>config.
      bindM (liftM (get_bind_port config)) (\<lambda>bind_port.
      bindM (liftM (get_port config)) (\<lambda>port.
      bindM (liftM (config_ttl config)) (\<lambda>ttl.
      bindM (Sender native A os fatal_error_handler fatal_error_handler
        (get_bind_address config) bind_port (get_address config) port ttl
        (get_interface_name config)) (\<lambda>sender.
      returnM (sender\<lparr>const_object := True\<rparr>))))))"

text \<open>Everything before \<open>io.run()\<close>.\<close>

definition start ::
    "endian \<Rightarrow> ('a, 'v4, 'v6) asio \<Rightarrow> build \<Rightarrow> ('w, 'a) os \<Rightarrow> program_options \<Rightarrow> string list
     \<Rightarrow> (('w, 'a) machine, 'a running) prog" where
  "start native A B os po args =
     thenM (sandbox B os) (after_sandbox native A B os po args)"

text \<open>
  What becomes of the process: it has exited with a status, it waits in \<open>io.run()\<close>, or it has
  accessed memory that is not there. The other undefined behaviour, that the handlers modify the
  \<open>const\<close> sender, does not stop the process in the model: it is counted in \<open>const_writes\<close>.
\<close>

datatype 'a process = Exited int | Running "'a running" | Crashed

fun after_try :: "unit outcome \<Rightarrow> 'a process" where
  "after_try (Val _) = Exited 0"
| "after_try (Throw e) = Exited 1"
| "after_try (Exit c) = Exited c"
| "after_try Undefined = Crashed"

definition main ::
    "endian \<Rightarrow> ('a, 'v4, 'v6) asio \<Rightarrow> build \<Rightarrow> ('w, 'a) os \<Rightarrow> program_options \<Rightarrow> string list
     \<Rightarrow> completion list \<Rightarrow> ('w, 'a) machine \<Rightarrow> 'a process \<times> ('w, 'a) machine" where
  "main native A B os po args schedule m =
     (case start native A B os po args m of
        (Val s, m') \<Rightarrow>
          (case io_run native A schedule s of
             (None, s') \<Rightarrow> (Running s', m')
           | (Some r, s') \<Rightarrow> (after_try r, m'))
      | (Throw e, m') \<Rightarrow> (after_try (Throw e), m')
      | (Exit c, m') \<Rightarrow> (after_try (Exit c), m')
      | (Undefined, m') \<Rightarrow> (after_try Undefined, m'))"

subsection \<open>What the libraries may end with\<close>

definition boost_laws :: "('a, 'v4, 'v6) asio \<Rightarrow> ('w, 'a) os \<Rightarrow> bool" where
  "boost_laws A os \<longleftrightarrow>
     (\<forall>s. value_or_throw (make_address A s))
   \<and> (\<forall>a w. value_or_throw (fst (socket_open os a w)))
   \<and> (\<forall>sock opt w. value_or_throw (fst (socket_set_option os sock opt w)))
   \<and> (\<forall>sock a p w. value_or_throw (fst (socket_bind os sock a p w)))
   \<and> (\<forall>w. value_or_throw (fst (random_number os w)))"

lemma sample_boost_laws: "boost_laws sample_asio sample_os"
  by (simp add: boost_laws_def sample_asio_def sample_os_def)

subsection \<open>Lemmas\<close>

lemma ends_well_MulticastTxSocket [ends_well_intros]:
  "boost_laws A os \<Longrightarrow> ends_well (MulticastTxSocket os h endpoint hops interface)"
  by (auto simp: MulticastTxSocket_def set_option_def if_nametoindex_def boost_laws_def
      intro!: ends_well_intros)

lemma ends_well_Sender:
  assumes "boost_laws A os"
  shows "ends_well (Sender native A os h h' ba bp a p ttl interface)"
proof -
  have "ends_well (\<lambda>m. let this = f pid src dst destination socket;
      (r, s) = schedule_send (steady_clock_now os (world m)) \<lparr>sender_of = this, io_of = io_context_new,
        const_object = False, const_writes = 0\<rparr>
      in (bindO r (\<lambda>_. Val s), m))" for f pid src dst destination socket
    by (simp add: ends_well_def schedule_send_app Let_def)
  then show ?thesis
    unfolding Sender_def using assms
    by (intro ends_well_intros ends_well_MulticastTxSocket [OF assms]) (simp_all add: boost_laws_def)
qed

lemma after_try_not_running [simp]: "after_try r \<noteq> Running s"
  by (cases r) simp_all

lemma snd_main: "snd (main native A B os po args schedule m) = snd (start native A B os po args m)"
  by (auto simp: main_def split: prod.splits outcome.splits option.splits)

lemma appends_Configuration: "appends (\<lambda>c. \<not> sandbox_call c) (Configuration B po args)"
proof -
  have "appends (\<lambda>c. \<not> sandbox_call c) (apply_filter B c)" for c
    by (auto simp: apply_filter_def set_filter_def intro!: appends_intros split: option.split)
  then show ?thesis
    by (auto simp: Configuration_def Let_def intro!: appends_intros)
qed

lemma network_not_sandbox: "network_call c \<Longrightarrow> \<not> sandbox_call c"
  by (cases c) simp_all

lemma appends_Sender:
  "appends (\<lambda>c. \<not> sandbox_call c) (Sender native A os h h' ba bp a p ttl interface)"
proof -
  have "appends (\<lambda>c. \<not> sandbox_call c) (\<lambda>m. let this = f pid src dst destination socket;
      (r, s) = schedule_send (steady_clock_now os (world m)) \<lparr>sender_of = this, io_of = io_context_new,
        const_object = False, const_writes = 0\<rparr>
      in (bindO r (\<lambda>_. Val s), m))" for f pid src dst destination socket
    by (simp add: appends_def schedule_send_app Let_def)
  then show ?thesis
    unfolding Sender_def
    by (intro appends_intros appends_mono [OF appends_MulticastTxSocket network_not_sandbox])
      simp_all
qed

lemma appends_after_sandbox: "appends (\<lambda>c. \<not> sandbox_call c) (after_sandbox native A B os po args)"
  unfolding after_sandbox_def
  by (intro appends_bindM appends_liftM appends_Configuration appends_Sender appends_returnM)

lemma start_cases:
  obtains (confined) m1 where "sandbox B os m = (Val (), m1)"
      and "start native A B os po args m = after_sandbox native A B os po args m1"
  | (refused) e m1 where "sandbox B os m = (Throw e, m1)"
      and "start native A B os po args m = (Throw e, m1)"
proof (cases "sandbox B os m")
  case (Pair r m1)
  with ends_wellD [OF ends_well_sandbox, of B os m] confined refused show thesis
    by (cases r) (auto simp: start_def thenM_def bindM_def)
qed

subsection \<open>An instance\<close>

definition sample_args :: "string list" where
  "sample_args = [''mping-sender'', ''--bind-address'', ''::1'', ''--interface-name'', ''eth0'']"

lemma sample_start:
  "\<exists>m'. start Little sample_asio sample_build sample_os sample_po sample_args sample_machine =
     (Val (sample_sender\<lparr>const_object := True\<rparr>), m')"
proof -
  obtain m1 where s: "sandbox sample_build sample_os (sample_machine :: (sec_view, ip_address) machine) =
      (Val (), m1)"
    using sample_sandbox by blast
  show ?thesis
    using sample_Sender [of "m1\<lparr>calls := calls m1 @ [Set_log_filter info]\<rparr>"]
    by (auto simp: start_def thenM_def bindM_def s after_sandbox_def sample_args_def sample_run
        get_bind_port_def get_port_def config_ttl_def read_member_def get_bind_address_def
        get_address_def get_interface_name_def)
qed

subsection \<open>Properties\<close>

text \<open>
  C3: No network before the confinement. In a build with all three mechanisms, and if libcap-ng,
  Landlock and libseccomp do what they document of a call that succeeds, whenever the program
  looks up an interface or opens, configures or binds a socket, its confinement has succeeded
  before: the process holds no capability, cannot gain privileges, is in its Landlock domain and
  under a seccomp filter that kills on exactly the system calls whose rule libseccomp accepted;
  if libseccomp refuses only rules that the filter already has, these are all the system calls of
  the black list that the platform has. No call of the sandbox comes later.
\<close>

theorem network_only_when_confined:
  assumes "have_libcapng B" and "have_landlock B" and "have_seccomp B"
    and "capng_laws os view" and "landlock_laws B os view" and "seccomp_laws os view"
    and "network_call c"
    and "c \<in> set (drop (length (calls m)) (calls (snd (main native A B os po args schedule m))))"
  shows "\<exists>m1 rest. sandbox B os m = (Val (), m1)
    \<and> confined B (seccomp_accepted B os (before_seccomp B os m)) (view (world m1))
    \<and> (refuses_only_duplicates os view \<longrightarrow>
        (\<forall>name \<in> set main_blacklist. sys_defined B name \<longrightarrow>
           (scmp_act_kill B, scmp_sys B name) \<in> set (seccomp_accepted B os (before_seccomp B os m))))
    \<and> calls (snd (main native A B os po args schedule m)) = calls m1 @ rest
    \<and> c \<in> set rest \<and> c \<notin> set (drop (length (calls m)) (calls m1))
    \<and> list_all (\<lambda>c. \<not> sandbox_call c) rest"
proof -
  obtain sb where sb: "calls (snd (sandbox B os m)) = calls m @ sb" "list_all sandbox_call sb"
    using appends_sandbox by (rule appendsE)
  then have nsb: "c \<notin> set sb"
    using network_not_sandbox [OF assms(7)] by (auto simp: list_all_iff)
  show ?thesis
  proof (cases rule: start_cases [of B os m native A po args])
    case (confined m1)
    obtain rest where rest: "calls (snd (after_sandbox native A B os po args m1)) = calls m1 @ rest"
      "list_all (\<lambda>c. \<not> sandbox_call c) rest"
      using appends_after_sandbox by (rule appendsE)
    moreover note sandbox_confined [OF confined(1) assms(1-6)]
    ultimately show ?thesis
      using confined nsb sb assms(8) by (auto simp: snd_main)
  next
    case (refused e m1)
    then show ?thesis using assms(8) nsb sb by (simp add: snd_main)
  qed
qed

lemma sample_main_binds:
  "If_nametoindex ''eth0'' \<in> set (calls (snd (main Little sample_asio sample_build sample_os
      sample_po sample_args [] (sample_machine :: (sec_view, ip_address) machine))))"
proof -
  obtain m' where st: "start Little sample_asio sample_build sample_os sample_po sample_args
      (sample_machine :: (sec_view, ip_address) machine) =
      (Val (sample_sender\<lparr>const_object := True\<rparr>), m')"
    using sample_start by blast
  then obtain m1 c m2 m3 s where s: "Sender Little sample_asio sample_os fatal_error_handler
      fatal_error_handler (get_bind_address c) (fst m1) (get_address c) (fst (snd m1)) (snd (snd m1))
      (get_interface_name c) m2 = (Val s, m')"
    and "Configuration sample_build sample_po sample_args m3 = (Val c, m2)"
    by (auto simp: start_def thenM_def after_sandbox_def bindM_eq_Val)
  moreover from this(2) have "get_interface_name c = ''eth0''"
    by (auto simp: sample_args_def sample_run get_interface_name_def)
  ultimately show ?thesis
    using st Sender_Val(3) [OF s] by (auto simp: snd_main tx_socket_calls_def)
qed

theorem network_only_when_confined_witness:
  "\<exists>m1. sandbox sample_build sample_os (sample_machine :: (sec_view, ip_address) machine) = (Val (), m1)
    \<and> confined sample_build (seccomp_accepted sample_build sample_os
        (before_seccomp sample_build sample_os (sample_machine :: (sec_view, ip_address) machine))) (world m1)
    \<and> (\<forall>name \<in> set main_blacklist. sys_defined sample_build name \<longrightarrow>
        (scmp_act_kill sample_build, scmp_sys sample_build name) \<in> set (seccomp_accepted sample_build
          sample_os (before_seccomp sample_build sample_os (sample_machine :: (sec_view, ip_address) machine))))
    \<and> If_nametoindex ''eth0'' \<notin> set (calls m1)"
proof -
  have "If_nametoindex ''eth0'' \<in> set (drop (length (calls sample_machine))
      (calls (snd (main Little sample_asio sample_build sample_os sample_po sample_args []
        (sample_machine :: (sec_view, ip_address) machine)))))"
    using sample_main_binds by (simp add: sample_machine_def)
  from network_only_when_confined [OF _ _ _ sample_laws(1-3) _ this] sample_laws(4)
  show ?thesis by (auto simp: sample_machine_def)
qed

text \<open>
  C20: If a step of the confinement fails, the program gives up at once: it exits with status 1
  and has made no call but those of the confinement.
\<close>

theorem refused_confinement_exits:
  assumes "\<not> is_val (fst (sandbox B os m))"
  shows "main native A B os po args schedule m = (Exited 1, snd (sandbox B os m))
    \<and> list_all sandbox_call (drop (length (calls m)) (calls (snd (sandbox B os m))))"
proof -
  obtain sb where sb: "calls (snd (sandbox B os m)) = calls m @ sb" "list_all sandbox_call sb"
    using appends_sandbox by (rule appendsE)
  moreover have "main native A B os po args schedule m = (Exited 1, snd (sandbox B os m))"
    by (cases rule: start_cases [of B os m native A po args])
      (use assms in \<open>simp_all add: main_def\<close>)
  ultimately show ?thesis by simp
qed

theorem refused_confinement_exits_witness:
  "fst (main Little sample_asio sample_build (sample_os\<lparr>capng_lock := \<lambda>w. (-1, w)\<rparr>) sample_po
     sample_args [] (sample_machine :: (sec_view, ip_address) machine)) = Exited 1"
proof -
  let ?os = "(sample_os :: (sec_view, ip_address) os)\<lparr>capng_lock := \<lambda>w. (-1, w)\<rparr>"
  have "\<not> is_val (fst (sandbox sample_build ?os sample_machine))"
  proof
    assume "is_val (fst (sandbox sample_build ?os sample_machine))"
    then obtain m' where "sandbox sample_build ?os sample_machine = (Val (), m')"
      by (metis is_val_iff old.unit.exhaust prod.collapse)
    then show False
      by (auto elim!: sandbox_Val_cases main_capabilities_Val [rotated])
  qed
  from refused_confinement_exits [OF this, of Little sample_asio sample_po sample_args "[]"]
  show ?thesis by simp
qed

lemma start_outcome:
  assumes "boost_laws A os" and "po_laws po"
  obtains (up) s m' config bp p t m1 m2
      where "start native A B os po args m = (Val (s\<lparr>const_object := True\<rparr>), m')"
      and "Configuration B po args m1 = (Val config, m2)"
      and "Sender native A os fatal_error_handler fatal_error_handler
        (get_bind_address config) bp (get_address config) p t (get_interface_name config) m2 =
        (Val s, m')"
      and "get_bind_port config = Val bp" and "get_port config = Val p"
      and "config_ttl config = Val t" and "sandbox B os m = (Val (), m1)"
  | (failed) e m' where "start native A B os po args m = (Throw e, m')"
      and "\<nexists>parsed vm. is_val (fst (sandbox B os m))
        \<and> po_run po command_line_style True (options B) args = Val parsed
        \<and> po_store po (options B) parsed = Val vm \<and> map_of parsed ''help'' \<noteq> None"
  | (helped) m' parsed vm where "start native A B os po args m = (Exit 0, m')"
      and "is_val (fst (sandbox B os m))"
      and "po_run po command_line_style True (options B) args = Val parsed"
      and "po_store po (options B) parsed = Val vm" and "map_of parsed ''help'' \<noteq> None"
proof (cases rule: start_cases [of B os m native A po args])
  case (confined m1)
  have no_help: "\<nexists>parsed vm. is_val (fst (sandbox B os m))
      \<and> po_run po command_line_style True (options B) args = Val parsed
      \<and> po_store po (options B) parsed = Val vm \<and> map_of parsed ''help'' \<noteq> None"
    if "Configuration B po args m1 \<noteq> (Exit 0, m1)"
    using that Configuration_help [OF assms(2)] by blast
  from assms(2) show thesis
  proof (cases rule: Configuration_outcome [where B = B and args = args and m = m1])
    case (returns c m2 bp p t)
    let ?sender = "Sender native A os fatal_error_handler fatal_error_handler
      (get_bind_address c) bp (get_address c) p t (get_interface_name c)"
    have st: "start native A B os po args m =
        bindM ?sender (\<lambda>s. returnM (s\<lparr>const_object := True\<rparr>)) m2"
      using confined returns by (simp add: after_sandbox_def bindM_def)
    have "value_or_throw (fst (?sender m2))"
      by (rule ends_wellD [OF ends_well_Sender [OF assms(1)]])
    then consider s m' where "?sender m2 = (Val s, m')" | e m' where "?sender m2 = (Throw e, m')"
      by (cases "?sender m2"; cases "fst (?sender m2)") auto
    then show thesis
    proof cases
      case 1
      with st returns confined(1) up show thesis by (simp add: bindM_def)
    next
      case 2
      with st returns no_help failed show thesis by (simp add: bindM_def)
    qed
  next
    case (throws e)
    with confined no_help failed show thesis by (simp add: after_sandbox_def bindM_def)
  next
    case (exits parsed vm)
    with confined helped show thesis by (simp add: after_sandbox_def bindM_def)
  qed
next
  case (refused e m1)
  with failed show thesis by simp
qed

text \<open>
  C7: The exit status of the program, completely, on a compiler that keeps the \<open>const\<close> sender in
  ordinary storage. With libraries that return or throw as documented and on a schedule that Asio
  may deliver, the process either waits in its event loop or has exited with status 0 or 1; the
  status is 0 exactly if the confinement succeeded and the command line was read and contains
  \<open>--help\<close>. Every exception ends in status 1, and the event loop never ends in status 0. The
  process never accesses memory that is not there. It is not free of undefined behaviour: while it
  waits in its loop it has modified the \<open>const\<close> sender three times per tick.
\<close>

theorem process_exit_status:
  assumes "asio_laws A" and "boost_laws A os" and "po_laws po"
    and "\<forall>s m'. start native A B os po args m = (Val s, m') \<longrightarrow> schedule_ok native A schedule s"
  shows "fst (main native A B os po args schedule m) \<noteq> Crashed
    \<and> (\<forall>c. fst (main native A B os po args schedule m) = Exited c \<longrightarrow> c \<in> {0, 1})
    \<and> (fst (main native A B os po args schedule m) = Exited 0 \<longleftrightarrow>
        (\<exists>parsed vm. is_val (fst (sandbox B os m))
           \<and> po_run po command_line_style True (options B) args = Val parsed
           \<and> po_store po (options B) parsed = Val vm \<and> map_of parsed ''help'' \<noteq> None))
    \<and> (\<forall>s'. fst (main native A B os po args schedule m) = Running s' \<longrightarrow>
        const_object s' \<and> const_writes s' = 3 * length (tick_times schedule))"
  using assms(2,3)
proof (cases rule: start_outcome [where native = native and B = B and args = args and m = m])
  case (up s m' config bp p t m1 m2)
  let ?s = "s\<lparr>const_object := True\<rparr>"
  have fresh: "fresh A (get_bind_address config) bp (get_address config) p t
      (steady_clock_now os (world m')) ?s"
    using Sender_Val(1) [OF up(3)] by simp
  have ok: "schedule_ok native A schedule ?s" using assms(4) up(1) by blast
  have "fst (io_run native A schedule ?s) \<in> {None, Some (Throw (RuntimeError ''Fatal error''))}"
    using io_run_failed [OF assms(1) fresh_inv [OF fresh] ok]
      io_run_exec [OF assms(1) fresh_inv(1) [OF fresh] ok] by fastforce
  then have "fst (main native A B os po args schedule m) \<noteq> Crashed"
    and "\<forall>c. fst (main native A B os po args schedule m) = Exited c \<longrightarrow> c = 1"
    using up(1) by (auto simp: main_def split: prod.splits option.splits)
  moreover have "const_object s' \<and> const_writes s' = 3 * length (tick_times schedule)"
    if "fst (main native A B os po args schedule m) = Running s'" for s'
  proof -
    have run: "io_run native A schedule ?s = (None, s')"
      using that up(1) by (auto simp: main_def split: prod.splits option.splits outcome.splits)
    from assms(1) fresh _ ok fresh_reaches(1) [OF assms(1) fresh ok run] show ?thesis
      by (rule fresh_const_run) (use run in simp_all)
  qed
  moreover have "\<nexists>parsed vm. is_val (fst (sandbox B os m))
      \<and> po_run po command_line_style True (options B) args = Val parsed
      \<and> po_store po (options B) parsed = Val vm \<and> map_of parsed ''help'' \<noteq> None"
    using up(2) Configuration_help [OF assms(3), of B args _ _ m1] by fastforce
  ultimately show ?thesis by fastforce
next
  case (failed e m')
  then show ?thesis by (auto simp: main_def)
next
  case (helped m' parsed vm)
  then show ?thesis by (auto simp: main_def)
qed

theorem process_exit_status_witness:
  "fst (main Little sample_asio sample_build sample_os sample_po sample_args sample_schedule
      (sample_machine :: (sec_view, ip_address) machine)) \<notin> {Exited 0, Crashed}"
proof -
  have run: "po_run sample_po command_line_style True (options sample_build) sample_args =
      Val [(''bind-address'', ''::1''), (''interface-name'', ''eth0'')]"
    by (simp add: sample_po_def sample_args_def)
  obtain m' where "start Little sample_asio sample_build sample_os sample_po sample_args
      (sample_machine :: (sec_view, ip_address) machine) =
      (Val (sample_sender\<lparr>const_object := True\<rparr>), m')"
    using sample_start by blast
  then have "\<forall>s m'. start Little sample_asio sample_build sample_os sample_po sample_args
      (sample_machine :: (sec_view, ip_address) machine) = (Val s, m') \<longrightarrow>
      schedule_ok Little sample_asio sample_schedule s"
    using sample_const_schedule_ok by simp
  from process_exit_status [OF sample_asio_laws sample_boost_laws sample_po_laws(1) this] run
  show ?thesis by auto
qed



end
