(* ===== verification/Spec2Isabelle.thy ===== *)
theory Spec2Isabelle
  imports Dissector Main_Program
begin

text \<open>
  mping-sender is a multicast beacon. Once per second it sends a UDP datagram of 288 bytes with a
  sequence number, a random PID and the time of a monotonic clock to a multicast group, so that a
  receiver can measure loss, order and delay. Before it touches the network the process gives up
  its capabilities and confines itself with Landlock and seccomp. This library models the C++
  program and the Wireshark dissector that comes with it, and proves what they promise.

  \<^bold>\<open>The parts of the program and the theories that model them.\<close>

  \<^item> \<open>src/network_serialization.hpp\<close>: \<open>Network_Serialization\<close>. Byte orders and the 128-byte storage
    of a host, for hosts of either byte order; a copy past the end of an array is undefined
    behaviour. The locale \<open>int_codec\<close> is the interface of an integer field, interpreted for the
    widths and byte orders of the packet.
  \<^item> \<open>boost::asio::ip::address\<close>: \<open>Asio_Address\<close>, a record of operations with the laws
    \<open>asio_laws\<close> and an instance.
  \<^item> \<open>src/mping_state.{hpp,cpp}\<close>: \<open>MPing_State\<close>. The members are the record \<open>mping_state\<close>; the
    constructors, mutators, accessors and \<open>serialize\<close> have the names of the source. The clock
    reading and the random number are arguments.
  \<^item> The packet drawing above \<open>serialize\<close>: \<open>Wire_Format\<close>, the abstract specification of the wire,
    as a writer \<open>doc_packet\<close> and a reader \<open>parse_packet\<close>.
  \<^item> \<open>wireshark/mping.lua\<close>: \<open>Dissector\<close>, the second reader of the format, with the declared types
    of its fields.
  \<^item> The build, the libraries and the kernel: \<open>Host_System\<close>. The macros are the record \<open>build\<close>, the
    libraries the record \<open>os\<close>; every call is appended to a trace. \<open>Host_Sample\<close> is an instance.
  \<^item> \<open>src/capability_managment.cpp\<close>, \<open>src/landlock.{hpp,cpp}\<close>, \<open>src/seccomp.{hpp,cpp}\<close>:
    \<open>Capability_Managment\<close>, \<open>Landlock\<close>, \<open>Seccomp\<close>. The locale \<open>kill_group\<close> is the interface of
    one group of forbidden system calls, interpreted for all twenty.
  \<^item> The confinement in \<open>src/main.cpp\<close>: \<open>Sandbox\<close>, with the laws of libcap-ng, Landlock and
    libseccomp over a view of the process.
  \<^item> The \<open>io_context\<close>: \<open>Event_Loop\<close>. It records which operations the program has started and not
    completed, and the reference-counted strings on the heap. When operations complete is not
    modelled by a function: a schedule of completions is an argument, and \<open>schedule_ok\<close> says which
    schedules Boost.Asio may deliver. The locales \<open>kept_by_steps\<close> and \<open>refines_machine\<close> are the
    induction principles of runs.
  \<^item> \<open>src/posix_wrapper.cpp\<close>, \<open>src/multicast_tx_socket.{hpp,cpp}\<close>: \<open>Multicast_Tx_Socket\<close>.
  \<^item> \<open>src/mping_sender.{hpp,cpp}\<close>: \<open>MPing_Sender\<close>, with the abstract machine \<open>beacon\<close> that it
    refines. Both locales of \<open>Event_Loop\<close> are interpreted here on the turns of the sender's loop.
    \<open>main\<close> declares its sender \<open>const\<close> although the handlers modify it, which is undefined
    behaviour: \<open>const_object\<close> and \<open>const_writes\<close> record it, and the members take the values of a
    compiler that keeps such an object in ordinary storage.
  \<^item> \<open>src/configuration.{hpp,cpp}\<close>: \<open>Configuration\<close>. The option table is data;
    Boost.Program_options is a record of functions with the laws \<open>po_laws\<close>. Members that are not
    initialised are \<open>None\<close>.
  \<^item> \<open>src/main.cpp\<close>: \<open>Main_Program\<close>, the composition, with what becomes of the process.

  \<open>MPing_Prelude\<close> holds what they share: machine words, the ways a C++ function ends (\<open>Val\<close>,
  \<open>Throw\<close>, \<open>Exit\<close>, \<open>Undefined\<close>), sequencing with a state, and subranges of byte lists.

  \<^bold>\<open>What is shown.\<close>

  \<^item> The wire: \<open>serialize\<close> always succeeds with 288 bytes that do not depend on the host and
    determine exactly the fields of the packet, is byte for byte the documented packet for IPv6,
    and is read back by the specification and by the dissector. For IPv4 it is not: the address is
    misplaced, and both readers see 0.0.0.0. The dissector declares the sequence number and the
    PID too narrow.
  \<^item> The beacon: every run of the event loop refines a machine that sends one numbered packet per
    tick. Exactly one wait is outstanding at any time, packets are at least a second apart, every
    send has its own live buffer until it completes and none leaks, the loop can always go on, and
    it ends only by an error, with an exception. In \<open>main\<close> every tick writes to a \<open>const\<close> object.
  \<^item> The confinement: its calls and their order, what it achieves if the libraries do what they
    document of a call that succeeds, and what happens if a library refuses. A refused seccomp
    rule goes unnoticed, so the filter is described by the rules that libseccomp accepted.
  \<^item> The command line: defaults, required options and error branches.
  \<^item> The program: no network call before the confinement is complete; the exit status in every
    case; and, from the command line to the wire, that the packets a receiver reads are those the
    configuration asks for.

  \<^bold>\<open>Bounds and fuel.\<close> No definition uses fuel: all recursion is over lists. \<open>io_run\<close> recurses over the
  schedule, a finite prefix of what Asio delivers; since every prefix is covered, statements about
  all schedules are statements about every moment of an endless run. Sequence numbers, ports, the
  TTL and the time stamp are words of their width and wrap; expiry times of the timer are
  integers, since Asio keeps them apart from the packet.

  \<^bold>\<open>Not modelled.\<close> Logging, except for the filter that the configuration sets. The destruction of
  objects at the end of \<open>main\<close>, when nothing is called any more. The Landlock call with
  \<open>LANDLOCK_RESTRICT_SELF_LOG_NEW_EXEC_ON\<close>, which does not compile. Functions that headers
  declare and no file defines (\<open>set_type\<close>, \<open>get_ttl(uint8_t)\<close>, \<open>apply_log_level\<close>). The registration
  of the Lua plugin and the text of its absolute time. The unit tests: the packet of one of them is
  a lemma, the others compare accessors with constructor arguments or step the sequence number,
  which the theorems on the state cover in general. Build scripts, packages,
  service files and the AppArmor profile.
\<close>

subsection \<open>From the command line to the wire\<close>

lemma nth_submitted:
  assumes "xs = map (\<lambda>(k, now). (f k now, e)) (enumerate 0 ts)" and "k < length ts"
  shows "xs ! k = (f k (ts ! k), e)"
  using assms by (simp add: nth_enumerate_eq)

text \<open>The packet of the \<open>k\<close>-th tick, as a documented reader sees it.\<close>

lemma parse_numbered:
  assumes "asio_laws A" and "is_v6 A src" and "is_v6 A dst"
  shows "parse_packet (packet_image A (MPingState_full SENDER ttl src bp dst p (of_nat k) pid now)) =
      Some (packet_of A (MPingState_full SENDER ttl src bp dst p (of_nat k) pid now))"
  using assms
  by (simp add: parse_packet_image packet_of_def get_defs MPingState_full_def host_of_def)

lemma pk_number:
  "pk_sequence_number (packet_of A (MPingState_full type ttl src bp dst p (of_nat k) pid now)) =
    k mod 4294967296"
  by (simp add: packet_of_def get_sequence_number_def MPingState_full_def unat_of_nat)

lemma parsed_number:
  assumes "asio_laws A"
  shows "map_option pk_sequence_number
      (parse_packet (packet_image A (MPingState_full type ttl src bp dst p (of_nat k) pid now))) =
    Some (k mod 4294967296)"
  using assms
  by (simp add: parse_packet_image packet_of_def get_sequence_number_def MPingState_full_def unat_of_nat)

text \<open>A program that comes up has constructed a sender from its configuration.\<close>

lemma start_Val:
  assumes "boost_laws A os" and "po_laws po" and "start native A B os po args m = (Val s, m')"
  obtains config bp p t m1 m2 t0 where "sandbox B os m = (Val (), m1)"
    and "Configuration B po args m1 = (Val config, m2)"
    and "fresh A (get_bind_address config) bp (get_address config) p t t0 s"
    and "get_bind_port config = Val bp" and "get_port config = Val p" and "config_ttl config = Val t"
  using assms(1,2)
proof (cases rule: start_outcome [where native = native and B = B and args = args and m = m])
  case (up s0 m0 config bp p t m1 m2)
  with assms(3) have "s = s0\<lparr>const_object := True\<rparr>" by simp
  with Sender_Val(1) [OF up(3)] up that show thesis by simp
qed (use assms(3) in simp_all)

text \<open>
  C1: The whole program, from the command line to the wire. If the program comes up and nothing
  fails on a schedule that Asio may deliver, it is still running, has handed exactly one datagram
  per tick to the socket, all for the configured group and port, and if its two addresses are
  IPv6 a receiver that follows the documented format reads from the \<open>k\<close>-th of them the
  sequence number \<open>k\<close> modulo \<open>2 ^ 32\<close>, the configured addresses, ports and TTL, one PID, and
  the time of the \<open>k\<close>-th tick. The values are those of a compiler that keeps the \<open>const\<close> sender in
  ordinary storage.
\<close>

theorem program_sends_documented_packets:
  assumes "asio_laws A" and "boost_laws A os" and "po_laws po"
    and "start native A B os po args m = (Val s, m')"
    and "schedule_ok native A schedule s" and "list_all (\<lambda>c. \<not> failed c) schedule"
  shows "\<exists>s' config src bp dst p ttl pid.
      main native A B os po args schedule m = (Running s', m')
    \<and> (\<exists>m1 m2. sandbox B os m = (Val (), m1) \<and> Configuration B po args m1 = (Val config, m2))
    \<and> make_address A (get_bind_address config) = Val src \<and> get_bind_port config = Val bp
    \<and> make_address A (get_address config) = Val dst \<and> get_port config = Val p
    \<and> config_ttl config = Val ttl
    \<and> length (submitted (io_of s')) = length (tick_times schedule)
    \<and> (\<forall>k < length (tick_times schedule).
        let st = MPingState_full SENDER ttl src bp dst p (of_nat k) pid (tick_times schedule ! k);
            (bs, endpoint) = submitted (io_of s') ! k
        in endpoint = (dst, p) \<and> pk_sequence_number (packet_of A st) = k mod 4294967296
         \<and> (is_v6 A src \<and> is_v6 A dst \<longrightarrow> parse_packet bs = Some (packet_of A st)))"
  using assms(2-4)
proof (rule start_Val)
  fix config bp p ttl m1 m2 t0
  assume c: "sandbox B os m = (Val (), m1)" "Configuration B po args m1 = (Val config, m2)"
    "get_bind_port config = Val bp" "get_port config = Val p" "config_ttl config = Val ttl"
    and fresh: "fresh A (get_bind_address config) bp (get_address config) p ttl t0 s"
  from assms(1) fresh assms(5,6) show ?thesis
  proof (rule fresh_submits)
    fix s' src dst pid
    assume run: "io_run native A schedule s = (None, s')"
      and addresses: "make_address A (get_bind_address config) = Val src"
        "make_address A (get_address config) = Val dst"
      and sub: "submitted (io_of s') =
        map (\<lambda>(k, now). (packet_image A
               (MPingState_full SENDER ttl src bp dst p (of_nat k) pid now), (dst, p)))
          (enumerate 0 (tick_times schedule))"
    have run': "main native A B os po args schedule m = (Running s', m')"
      using assms(4) run by (simp add: main_def)
    have len: "length (submitted (io_of s')) = length (tick_times schedule)"
      by (simp add: sub)
    have each: "\<forall>k < length (tick_times schedule).
        let st = MPingState_full SENDER ttl src bp dst p (of_nat k) pid (tick_times schedule ! k);
            (bs, endpoint) = submitted (io_of s') ! k
        in endpoint = (dst, p) \<and> pk_sequence_number (packet_of A st) = k mod 4294967296
         \<and> (is_v6 A src \<and> is_v6 A dst \<longrightarrow> parse_packet bs = Some (packet_of A st))"
      using nth_submitted [OF sub] parse_numbered [OF assms(1)] by (simp add: pk_number)
    show ?thesis
      by (rule exI [of _ s'], rule exI [of _ config], rule exI [of _ src], rule exI [of _ bp],
          rule exI [of _ dst], rule exI [of _ p], rule exI [of _ ttl], rule exI [of _ pid])
        (use run' c addresses len each in blast)
  qed
qed

theorem program_sends_documented_packets_witness:
  "\<exists>s' m'. main Little sample_asio sample_build sample_os sample_po sample_args sample_schedule
      (sample_machine :: (sec_view, ip_address) machine) = (Running s', m')
    \<and> length (submitted (io_of s')) = 3"
proof -
  obtain m' where st: "start Little sample_asio sample_build sample_os sample_po sample_args
      (sample_machine :: (sec_view, ip_address) machine) = (Val (sample_sender\<lparr>const_object := True\<rparr>), m')"
    using sample_start by blast
  have "length (tick_times sample_schedule) = 3" by (simp add: sample_schedule_def)
  moreover from program_sends_documented_packets [OF sample_asio_laws sample_boost_laws
      sample_po_laws(1) st sample_const_schedule_ok sample_schedule_ok(2)]
  obtain s' where "main Little sample_asio sample_build sample_os sample_po sample_args
      sample_schedule (sample_machine :: (sec_view, ip_address) machine) = (Running s', m')"
    and "length (submitted (io_of s')) = length (tick_times sample_schedule)"
    by blast
  ultimately show ?thesis by auto
qed

text \<open>
  C14: No two datagrams are confused: whatever the kinds of the addresses, any two packets of one
  run that are fewer than \<open>2 ^ 32\<close> ticks apart differ in their bytes.
\<close>

theorem packets_distinct:
  assumes "asio_laws A"
    and "Sender native A os fatal_error_handler fatal_error_handler
      bind_address bind_port address port ttl interface m = (Val s, m')"
    and "schedule_ok native A cs s" and "list_all (\<lambda>c. \<not> failed c) cs"
    and "io_run native A cs s = (None, s')"
    and "j < k" and "k < length (submitted (io_of s'))" and "k - j < 4294967296"
  shows "fst (submitted (io_of s') ! j) \<noteq> fst (submitted (io_of s') ! k)"
  using assms(1) Sender_Val(1) [OF assms(2)] assms(3,4)
proof (rule fresh_submits)
  fix s'' :: "'a running" and src dst :: 'a and pid
  let ?st = "\<lambda>k now. MPingState_full SENDER ttl src bind_port dst port (of_nat k) pid now"
  assume "io_run native A cs s = (None, s'')"
    and "submitted (io_of s'') =
      map (\<lambda>(k, now). (packet_image A (?st k now), (dst, port))) (enumerate 0 (tick_times cs))"
  with assms(5) have sub: "submitted (io_of s') =
      map (\<lambda>(k, now). (packet_image A (?st k now), (dst, port))) (enumerate 0 (tick_times cs))"
    by simp
  show ?thesis
  proof
    assume "fst (submitted (io_of s') ! j) = fst (submitted (io_of s') ! k)"
    then have "packet_image A (?st j (tick_times cs ! j)) = packet_image A (?st k (tick_times cs ! k))"
      using nth_submitted [OF sub, of j] nth_submitted [OF sub, of k] assms(6,7) by (simp add: sub)
    then have "parse_packet (packet_image A (?st j (tick_times cs ! j))) =
        parse_packet (packet_image A (?st k (tick_times cs ! k)))"
      by simp
    then have "j mod 4294967296 = k mod 4294967296"
      using parsed_number [OF assms(1)] by (metis option.inject)
    then have "4294967296 dvd k - j" using assms(6) by (metis less_imp_le_nat mod_eq_dvd_iff_nat)
    with assms(6,8) show False by (auto dest: dvd_imp_le)
  qed
qed

theorem packets_distinct_witness:
  "\<exists>s'. io_run Little sample_asio sample_schedule sample_sender = (None, s')
    \<and> fst (submitted (io_of s') ! 0) \<noteq> fst (submitted (io_of s') ! 2)"
proof -
  obtain m' where s: "Sender Little sample_asio sample_os fatal_error_handler fatal_error_handler
      ''::1'' 4321 ''ff2e::42'' 4321 64 ''eth0'' (sample_machine :: (sec_view, ip_address) machine) =
      (Val sample_sender, m')"
    using sample_Sender by blast
  from sample_asio_laws Sender_Val(1) [OF s] sample_schedule_ok obtain s' where
    r: "io_run Little sample_asio sample_schedule sample_sender = (None, s')"
    and "length (submitted (io_of s')) = 3"
    by (rule fresh_submits) (simp add: sample_schedule_def)
  then have "2 < length (submitted (io_of s'))" by simp
  with packets_distinct [OF sample_asio_laws s sample_schedule_ok r, of 0 2] r show ?thesis by simp
qed

end
